(* ===== verification/Prelude.thy ===== *)
theory Prelude
  imports Complex_Main "HOL-Library.Word"
begin

text \<open>
  Shared vocabulary of the development. The handler of \<^verbatim>\<open>src/app.py\<close> threads one
  mutable world (the local file system, the storage bucket, the uuid generator, the
  external tools) through a sequence of calls, any of which may raise a Python
  exception that a \<^verbatim>\<open>try\<close>/\<^verbatim>\<open>except\<close> catches or that escapes to the web framework.
  This theory gives that shape a name: a computation of type \<open>('e, 's, 'a) exc_st\<close>
  takes the state and returns either a raised exception (\<open>Inl\<close>) or a value
  (\<open>Inr\<close>), together with the new state. A raised exception keeps the effects that
  happened before it, as in Python. The collection \<open>py_simps\<close> gathers the defining
  equations that the component proofs unfold.
\<close>

named_theorems py_simps "defining equations of the Python-level helpers"

type_synonym ('e, 's, 'a) exc_st = "'s \<Rightarrow> ('e + 'a) \<times> 's"

definition ok :: "'a \<Rightarrow> ('e, 's, 'a) exc_st" where
  "ok x = (\<lambda>s. (Inr x, s))"

definition raise :: "'e \<Rightarrow> ('e, 's, 'a) exc_st" where
  "raise e = (\<lambda>s. (Inl e, s))"

definition bindE :: "('e, 's, 'a) exc_st \<Rightarrow> ('a \<Rightarrow> ('e, 's, 'b) exc_st) \<Rightarrow> ('e, 's, 'b) exc_st" where
  "bindE m f = (\<lambda>s. case m s of (Inl e, s') \<Rightarrow> (Inl e, s') | (Inr x, s') \<Rightarrow> f x s')"

text \<open>\<open>try_except m h\<close> is \<^verbatim>\<open>try: m except Exception as e: h(e)\<close>: the handler runs
  in the state the failed body left behind.\<close>

definition try_except :: "('e, 's, 'a) exc_st \<Rightarrow> ('e \<Rightarrow> ('e, 's, 'a) exc_st) \<Rightarrow> ('e, 's, 'a) exc_st" where
  "try_except m h = (\<lambda>s. case m s of (Inl e, s') \<Rightarrow> h e s' | (Inr x, s') \<Rightarrow> (Inr x, s'))"

text \<open>A Python expression that may raise but has no effect.\<close>

definition lift :: "'e + 'a \<Rightarrow> ('e, 's, 'a) exc_st" where
  "lift r = (\<lambda>s. (r, s))"

text \<open>A state update that cannot fail (\<^verbatim>\<open>os.remove\<close> of a file known to exist, a log entry).\<close>

definition modify :: "('s \<Rightarrow> 's) \<Rightarrow> ('e, 's, unit) exc_st" where
  "modify f = (\<lambda>s. (Inr (), f s))"

text \<open>A computation never raises when every outcome it can produce is a value;
  \<open>bindE\<close> and \<open>try_except\<close> keep this.\<close>

definition never_raises :: "('e, 's, 'a) exc_st \<Rightarrow> 's \<Rightarrow> bool" where
  "never_raises m s \<longleftrightarrow> (case fst (m s) of Inl _ \<Rightarrow> False | Inr _ \<Rightarrow> True)"

text \<open>The single-quote character, which the string literal syntax cannot hold; Python
  messages quote names with it.\<close>

definition squote :: string where
  "squote = [CHR 0x27]"

definition quoted :: "string \<Rightarrow> string" where
  "quoted s = squote @ s @ squote"

declare squote_def [py_simps] quoted_def [py_simps]

subsection \<open>Lemmas\<close>

lemma ok_apply [simp]: "ok x s = (Inr x, s)"
  and raise_apply [simp]: "raise e s = (Inl e, s)"
  and modify_apply [simp]: "modify f s = (Inr (), f s)"
  and lift_apply [simp]: "lift r s = (r, s)"
  by (simp_all add: ok_def raise_def modify_def lift_def)

lemma bindE_apply [simp]:
  "bindE m f s = (case m s of (Inl e, s') \<Rightarrow> (Inl e, s') | (Inr x, s') \<Rightarrow> f x s')"
  by (simp add: bindE_def)

lemma try_except_apply [simp]:
  "try_except m h s = (case m s of (Inl e, s') \<Rightarrow> h e s' | (Inr x, s') \<Rightarrow> (Inr x, s'))"
  by (simp add: try_except_def)

lemma bindE_assoc: "bindE (bindE m f) g = bindE m (\<lambda>x. bindE (f x) g)"
  by (rule ext) (simp split: prod.split sum.split)

lemma bindE_ok_left: "bindE (ok x) f = f x"
  and bindE_ok_right: "bindE m ok = m"
  by (rule ext, simp split: prod.split sum.split)+

lemma try_except_ok: "try_except (ok x) h = ok x"
  and try_except_raise: "try_except (raise e) h = h e"
  by (rule ext, simp)+

lemma try_except_never_raises:
  assumes "\<And>e s'. never_raises (h e) s'"
  shows "never_raises (try_except m h) s"
proof -
  obtain r s' where ms: "m s = (r, s')" by fastforce
  show ?thesis
  proof (cases r)
    case (Inl e)
    with ms assms [of e s'] show ?thesis by (simp add: never_raises_def)
  next
    case (Inr x)
    with ms show ?thesis by (simp add: never_raises_def)
  qed
qed

subsection \<open>Lists and strings\<close>


lemma map_of_append_notin [simp]:
  "k \<notin> fst ` set xs \<Longrightarrow> map_of (xs @ ys) k = map_of ys k"
  by (induction xs) auto

lemma take_drop_split: "take n (drop m xs) @ drop (n + m) xs = drop m xs"
  by (metis append_take_drop_id drop_drop)

end
