(* ===== verification/PyValue.thy ===== *)
theory PyValue
  imports Prelude
begin

text \<open>
  The Python values the handler of \<^verbatim>\<open>src/app.py\<close> inspects: the JSON body that
  \<^verbatim>\<open>request.get_json()\<close> returns (None, booleans, ints, floats, strings, lists and
  dicts), Python's truth test (\<^verbatim>\<open>if not video_url\<close>, \<^verbatim>\<open>all([...])\<close>), \<^verbatim>\<open>dict.get\<close>
  with and without a default, string equality, and the exceptions these raise when
  applied to a value of the wrong type. Floats carry the IEEE specials that JSON
  (\<^verbatim>\<open>NaN\<close>, \<^verbatim>\<open>Infinity\<close>) and \<^verbatim>\<open>float()\<close> can produce; a finite float is kept as the
  exact real it denotes (rounding to 53 bits is not modelled, overflow is).
\<close>

subsection \<open>Floats\<close>

datatype pyfloat = Fin real | PosInf | NegInf | NaN

text \<open>The least magnitude that rounds beyond the largest double
  \<open>(2 - 2\<^sup>-\<^sup>5\<^sup>2) * 2\<^sup>1\<^sup>0\<^sup>2\<^sup>3\<close>: values from here on round to infinity
  (and \<^verbatim>\<open>float(int)\<close> raises \<^verbatim>\<open>OverflowError\<close>).\<close>

definition float_overflow_bound :: real where
  "float_overflow_bound = 2 ^ 1024 - 2 ^ 970"

text \<open>A finite value whose magnitude reaches the overflow bound becomes an infinity.\<close>

definition round_overflow :: "real \<Rightarrow> pyfloat" where
  "round_overflow r =
     (if float_overflow_bound \<le> \<bar>r\<bar> then (if 0 < r then PosInf else NegInf) else Fin r)"

text \<open>\<^verbatim>\<open>a - b\<close> on floats, with the IEEE rules for infinities and NaN; the difference of
  two finite floats overflows to an infinity like any other result (\<^verbatim>\<open>1e308 - -1e308\<close>
  is \<^verbatim>\<open>inf\<close>).\<close>

fun fsub :: "pyfloat \<Rightarrow> pyfloat \<Rightarrow> pyfloat" where
  "fsub NaN _ = NaN"
| "fsub _ NaN = NaN"
| "fsub (Fin a) (Fin b) = round_overflow (a - b)"
| "fsub PosInf PosInf = NaN"
| "fsub NegInf NegInf = NaN"
| "fsub PosInf _ = PosInf"
| "fsub NegInf _ = NegInf"
| "fsub (Fin _) PosInf = NegInf"
| "fsub (Fin _) NegInf = PosInf"

subsection \<open>Values, exceptions, truth\<close>

datatype pyval =
    PNone
  | PBool bool
  | PInt int
  | PFloat pyfloat
  | PStr string
  | PList "pyval list"
  | PDict "(string \<times> pyval) list"

datatype exc_kind =
    AttributeError | TypeError | ValueError | OverflowError | FileNotFoundError
  | FfmpegError | GoogleCloudError

datatype py_exc = PyExc exc_kind string

text \<open>\<^verbatim>\<open>str(e)\<close> of an exception is its message.\<close>

fun exc_str :: "py_exc \<Rightarrow> string" where
  "exc_str (PyExc _ msg) = msg"

fun type_name :: "pyval \<Rightarrow> string" where
  "type_name PNone = ''NoneType''"
| "type_name (PBool _) = ''bool''"
| "type_name (PInt _) = ''int''"
| "type_name (PFloat _) = ''float''"
| "type_name (PStr _) = ''str''"
| "type_name (PList _) = ''list''"
| "type_name (PDict _) = ''dict''"

text \<open>\<^verbatim>\<open>bool(v)\<close>: the truth value Python's \<^verbatim>\<open>if\<close>, \<^verbatim>\<open>not\<close> and \<^verbatim>\<open>all\<close> use.
  NaN is true; zero of either numeric type, the empty string and empty containers are
  false.\<close>

fun py_truthy :: "pyval \<Rightarrow> bool" where
  "py_truthy PNone = False"
| "py_truthy (PBool b) = b"
| "py_truthy (PInt i) = (i \<noteq> 0)"
| "py_truthy (PFloat f) = (f \<noteq> Fin 0)"
| "py_truthy (PStr s) = (s \<noteq> [])"
| "py_truthy (PList xs) = (xs \<noteq> [])"
| "py_truthy (PDict kvs) = (kvs \<noteq> [])"

text \<open>\<^verbatim>\<open>all(xs)\<close>, short-circuiting at the first false element as CPython does.\<close>

fun py_all :: "pyval list \<Rightarrow> bool" where
  "py_all [] = True"
| "py_all (x # xs) = (if py_truthy x then py_all xs else False)"

text \<open>\<^verbatim>\<open>d.get(k, default)\<close>; on a value that is not a dict the attribute lookup
  fails before the call.\<close>

fun dict_get :: "pyval \<Rightarrow> string \<Rightarrow> pyval \<Rightarrow> py_exc + pyval" where
  "dict_get (PDict kvs) k dflt = Inr (case map_of kvs k of Some v \<Rightarrow> v | None \<Rightarrow> dflt)"
| "dict_get v k dflt =
     Inl (PyExc AttributeError (quoted (type_name v) @ '' object has no attribute '' @ quoted ''get''))"

text \<open>\<^verbatim>\<open>d.get(k)\<close>: the default is None.\<close>

abbreviation dict_get1 :: "pyval \<Rightarrow> string \<Rightarrow> py_exc + pyval" where
  "dict_get1 d k \<equiv> dict_get d k PNone"

text \<open>\<^verbatim>\<open>v == 'literal'\<close>: only a string with the same characters is equal.\<close>

definition py_eq_str :: "pyval \<Rightarrow> string \<Rightarrow> bool" where
  "py_eq_str v s \<longleftrightarrow> v = PStr s"

subsection \<open>\<^verbatim>\<open>float(v)\<close>\<close>

text \<open>Character classes of CPython's float parser on the byte strings of the model:
  ASCII digits, the characters \<^verbatim>\<open>str.strip()\<close> removes, ASCII lower-casing.\<close>

definition is_digit :: "char \<Rightarrow> bool" where
  "is_digit c \<longleftrightarrow> (48::nat) \<le> of_char c \<and> of_char c \<le> (57::nat)"

definition digit_val :: "char \<Rightarrow> nat" where
  "digit_val c = of_char c - 48"

definition py_isspace :: "char \<Rightarrow> bool" where
  "py_isspace c \<longleftrightarrow> (of_char c :: nat) \<in> {9, 10, 11, 12, 13, 28, 29, 30, 31, 32}"

definition py_strip :: "string \<Rightarrow> string" where
  "py_strip s = rev (dropWhile py_isspace (rev (dropWhile py_isspace s)))"

definition ascii_lower :: "char \<Rightarrow> char" where
  "ascii_lower c = (if (65::nat) \<le> of_char c \<and> of_char c \<le> (90::nat) then char_of (of_char c + (32::nat)) else c)"

text \<open>A digit part \<open>digit (['_'] digit)*\<close> after its first digit: the value so far, the
  number of digits so far, and the unread rest. An underscore is consumed only when a
  digit follows it.\<close>

fun digits_aux :: "nat \<Rightarrow> nat \<Rightarrow> string \<Rightarrow> nat \<times> nat \<times> string" where
  "digits_aux v n [] = (v, n, [])"
| "digits_aux v n (c # cs) =
     (if is_digit c then digits_aux (10 * v + digit_val c) (Suc n) cs
      else if c = CHR ''_'' then
        (case cs of
          d # cs' \<Rightarrow> (if is_digit d then digits_aux (10 * v + digit_val d) (Suc n) cs' else (v, n, c # cs))
        | [] \<Rightarrow> (v, n, [c]))
      else (v, n, c # cs))"

fun parse_digitpart :: "string \<Rightarrow> (nat \<times> nat \<times> string) option" where
  "parse_digitpart [] = None"
| "parse_digitpart (c # cs) = (if is_digit c then Some (digits_aux (digit_val c) 1 cs) else None)"

text \<open>The mantissa \<open>digitpart ['.' [digitpart]] | '.' digitpart\<close>: all its digits read as
  one natural number, the number of digits after the point, and the rest.\<close>

definition parse_mantissa :: "string \<Rightarrow> (nat \<times> nat \<times> string) option" where
  "parse_mantissa s =
     (case parse_digitpart s of
       Some (v, _, rest) \<Rightarrow>
         (case rest of
           c # r \<Rightarrow>
             (if c = CHR ''.'' then
               (case parse_digitpart r of
                 Some (f, k, r') \<Rightarrow> Some (v * 10 ^ k + f, k, r')
               | None \<Rightarrow> Some (v, 0, r))
              else Some (v, 0, rest))
         | [] \<Rightarrow> Some (v, 0, []))
     | None \<Rightarrow>
         (case s of
           c # r \<Rightarrow> (if c = CHR ''.'' then parse_digitpart r else None)
         | [] \<Rightarrow> None))"

text \<open>The optional exponent \<open>('e' | 'E') ['+' | '-'] digitpart\<close>; an \<open>e\<close> without
  digits is an error.\<close>

definition parse_exponent :: "string \<Rightarrow> (int \<times> string) option" where
  "parse_exponent s =
     (case s of
       c # r \<Rightarrow>
         (if c = CHR ''e'' \<or> c = CHR ''E'' then
            (let (neg, r') = (case r of
                                d # r'' \<Rightarrow> (if d = CHR ''-'' then (True, r'')
                                           else if d = CHR ''+'' then (False, r'') else (False, r))
                              | [] \<Rightarrow> (False, []))
             in case parse_digitpart r' of
                  Some (e, _, rest) \<Rightarrow> Some (if neg then - int e else int e, rest)
                | None \<Rightarrow> None)
          else Some (0, s))
     | [] \<Rightarrow> Some (0, []))"

definition decimal_value :: "nat \<Rightarrow> nat \<Rightarrow> int \<Rightarrow> real" where
  "decimal_value m k e =
     (let x = e - int k in
      if 0 \<le> x then real m * 10 ^ nat x else real m / 10 ^ nat (- x))"

definition parse_unsigned :: "string \<Rightarrow> real option" where
  "parse_unsigned s =
     (case parse_mantissa s of
       None \<Rightarrow> None
     | Some (m, k, r) \<Rightarrow>
         (case parse_exponent r of
           Some (e, []) \<Rightarrow> Some (decimal_value m k e)
         | _ \<Rightarrow> None))"

text \<open>\<^verbatim>\<open>float(s)\<close> for a string: surrounding white space is ignored, an optional
  sign, then \<^verbatim>\<open>inf\<close>, \<^verbatim>\<open>infinity\<close> or \<^verbatim>\<open>nan\<close> in any case, or a decimal numeral.\<close>

definition parse_float_str :: "string \<Rightarrow> pyfloat option" where
  "parse_float_str s =
     (let t = py_strip s;
          (neg, u) = (case t of
                        c # r \<Rightarrow> (if c = CHR ''-'' then (True, r)
                                 else if c = CHR ''+'' then (False, r) else (False, t))
                      | [] \<Rightarrow> (False, []));
          l = map ascii_lower u
      in if l = ''inf'' \<or> l = ''infinity'' then Some (if neg then NegInf else PosInf)
         else if l = ''nan'' then Some NaN
         else map_option (\<lambda>r. round_overflow (if neg then - r else r)) (parse_unsigned u))"

text \<open>\<^verbatim>\<open>float(v)\<close> on the values a JSON body holds.\<close>

fun py_float :: "pyval \<Rightarrow> py_exc + pyfloat" where
  "py_float (PBool b) = Inr (Fin (if b then 1 else 0))"
| "py_float (PInt i) =
     (if float_overflow_bound \<le> \<bar>real_of_int i\<bar>
      then Inl (PyExc OverflowError ''int too large to convert to float'')
      else Inr (Fin (real_of_int i)))"
| "py_float (PFloat f) = Inr f"
| "py_float (PStr s) =
     (case parse_float_str s of
       Some f \<Rightarrow> Inr f
     | None \<Rightarrow> Inl (PyExc ValueError (''could not convert string to float: '' @ quoted s)))"
| "py_float v =
     Inl (PyExc TypeError (''float() argument must be a string or a real number, not ''
                           @ quoted (type_name v)))"

declare py_eq_str_def [py_simps]

text \<open>\<^verbatim>\<open>str(i)\<close> for a Python int: its decimal digits, with a minus sign when
  negative. The handler does not print numbers; a client that sends a time as a string
  sends this form.\<close>

fun nat_str :: "nat \<Rightarrow> string" where
  "nat_str n = (if n < 10 then [char_of (48 + n)] else nat_str (n div 10) @ [char_of (48 + n mod 10)])"

definition int_str :: "int \<Rightarrow> string" where
  "int_str i = (if i < 0 then CHR ''-'' # nat_str (nat (- i)) else nat_str (nat i))"

text \<open>The value of a string of digits read from left to right after the value \<open>v\<close>.\<close>

definition digits_value :: "nat \<Rightarrow> string \<Rightarrow> nat" where
  "digits_value v ds = foldl (\<lambda>v c. 10 * v + digit_val c) v ds"

subsection \<open>Lemmas\<close>

lemma py_all_list_all: "py_all xs = list_all py_truthy xs"
  by (induction xs) auto

lemma dict_get_Inr_iff: "(\<exists>v. dict_get d k dflt = Inr v) \<longleftrightarrow> (\<exists>kvs. d = PDict kvs)"
  by (cases d) auto

declare nat_str.simps [simp del]

lemma digit_char: "k < 10 \<Longrightarrow> is_digit (char_of (48 + k)) \<and> digit_val (char_of (48 + k)) = k"
  by (simp add: is_digit_def digit_val_def of_char_of)

lemma nat_str_digits: "c \<in> set (nat_str n) \<Longrightarrow> is_digit c"
proof (induction n rule: nat_str.induct)
  case (1 n)
  then show ?case
    by (cases "n < 10") (auto simp: nat_str.simps [of n] digit_char)
qed

lemma nat_str_value: "digits_value 0 (nat_str n) = n"
proof (induction n rule: nat_str.induct)
  case (1 n)
  show ?case
  proof (cases "n < 10")
    case True
    then show ?thesis by (simp add: nat_str.simps [of n] digits_value_def digit_char)
  next
    case False
    with 1 have "digits_value 0 (nat_str (n div 10)) = n div 10" by simp
    with False show ?thesis
      by (simp add: nat_str.simps [of n] digits_value_def digit_char)
  qed
qed

lemma nat_str_ne: "nat_str n \<noteq> []"
  by (simp add: nat_str.simps [of n])

lemma digits_aux_all_digits:
  "\<forall>c \<in> set ds. is_digit c \<Longrightarrow> digits_aux v n ds = (digits_value v ds, n + length ds, [])"
  by (induction v n ds rule: digits_aux.induct) (auto simp: digits_value_def)

lemma parse_unsigned_digits:
  assumes "ds \<noteq> []" "\<forall>c \<in> set ds. is_digit c"
  shows "parse_unsigned ds = Some (real (digits_value 0 ds))"
proof -
  from assms obtain d r where ds: "ds = d # r" by (cases ds) auto
  with assms have "parse_digitpart ds = Some (digits_value 0 ds, length ds, [])"
    by (simp add: digits_aux_all_digits digits_value_def)
  then show ?thesis
    by (simp add: parse_unsigned_def parse_mantissa_def parse_exponent_def decimal_value_def)
qed

lemma strip_digits:
  assumes "\<forall>c \<in> set s. is_digit c \<or> c = CHR ''-''"
  shows "py_strip s = s"
proof -
  have ns: "\<not> py_isspace c" if "c \<in> set s" for c
    using assms that by (auto simp: is_digit_def py_isspace_def)
  then have "dropWhile py_isspace s = s" by (cases s) auto
  moreover have "dropWhile py_isspace (rev s) = rev s" using ns by (cases "rev s") (auto dest: sym [THEN arg_cong [where f = set]])
  ultimately show ?thesis by (simp add: py_strip_def)
qed

lemma lower_digits:
  assumes "\<forall>c \<in> set ds. is_digit c"
  shows "map ascii_lower ds = ds" and "ds \<noteq> ''inf''" and "ds \<noteq> ''infinity''" and "ds \<noteq> ''nan''"
proof -
  show "map ascii_lower ds = ds"
    using assms by (induction ds) (auto simp: ascii_lower_def is_digit_def)
  show "ds \<noteq> ''inf''" "ds \<noteq> ''infinity''" "ds \<noteq> ''nan''"
    using assms by (auto simp: is_digit_def)
qed

lemma parse_float_nat_str:
  "parse_float_str (nat_str n) = Some (round_overflow (real n))"
  and parse_float_neg_nat_str:
  "parse_float_str (CHR ''-'' # nat_str n) = Some (round_overflow (- real n))"
proof -
  have d: "\<forall>c \<in> set (nat_str n). is_digit c" using nat_str_digits by blast
  have u: "parse_unsigned (nat_str n) = Some (real n)"
    using parse_unsigned_digits [OF nat_str_ne d] by (simp add: nat_str_value)
  obtain c r where cr: "nat_str n = c # r" using nat_str_ne by (cases "nat_str n") auto
  with d have "is_digit c" by simp
  then have "c \<noteq> CHR ''-''" "c \<noteq> CHR ''+''" by (auto simp: is_digit_def)
  moreover have "py_strip (nat_str n) = nat_str n" "py_strip (CHR ''-'' # nat_str n) = CHR ''-'' # nat_str n"
    using d by (auto intro: strip_digits)
  ultimately show "parse_float_str (nat_str n) = Some (round_overflow (real n))"
    and "parse_float_str (CHR ''-'' # nat_str n) = Some (round_overflow (- real n))"
    using lower_digits [OF d] u cr by (auto simp: parse_float_str_def Let_def)
qed

text \<open>\<^verbatim>\<open>float(str(i))\<close>: the decimal string of an integer reads as the integer, rounded
  only at the overflow bound.\<close>

lemma py_float_int_str: "py_float (PStr (int_str i)) = Inr (round_overflow (real_of_int i))"
proof (cases "i < 0")
  case True
  then have "- real (nat (- i)) = real_of_int i" by simp
  with True show ?thesis by (simp add: int_str_def parse_float_neg_nat_str)
next
  case False
  then have "real (nat i) = real_of_int i" by simp
  with False show ?thesis by (simp add: int_str_def parse_float_nat_str)
qed

subsection \<open>Properties of \<^verbatim>\<open>float()\<close>\<close>

text \<open>C26. Reading a time sent as the decimal string of an integer gives back the integer:
  for every \<open>i\<close> with \<open>|i| \<le> 2\<^sup>5\<^sup>3\<close> (the integers a double holds exactly, so Python's
  rounding does not apply), \<^verbatim>\<open>float(str(i))\<close> is \<open>i\<close>, the same value as
  \<^verbatim>\<open>float(i)\<close>.\<close>

theorem float_int_str_roundtrip:
  assumes "\<bar>i\<bar> \<le> 2 ^ 53"
  shows "py_float (PStr (int_str i)) = Inr (Fin (real_of_int i)) \<and> py_float (PInt i) = Inr (Fin (real_of_int i))"
proof -
  have "\<bar>real_of_int i\<bar> \<le> 2 ^ 53"
    using of_int_le_iff [of "\<bar>i\<bar>" "2 ^ 53", where 'a = real] assms by simp
  moreover have "(2 :: real) ^ 53 < float_overflow_bound" by (simp add: float_overflow_bound_def)
  ultimately have "\<bar>real_of_int i\<bar> < float_overflow_bound" by linarith
  then show ?thesis by (simp only: py_float_int_str) (simp add: round_overflow_def)
qed

theorem float_int_str_roundtrip_witness:
  "\<bar>-25 :: int\<bar> \<le> 2 ^ 53 \<and> py_float (PStr (int_str (-25))) = Inr (Fin (-25)) \<and> py_float (PInt (-25)) = Inr (Fin (-25))"
  using float_int_str_roundtrip [of "-25"] by simp

text \<open>C34. The overflow bound is where the two notations of a time part ways: for every
  integer at least \<open>2\<^sup>1\<^sup>0\<^sup>2\<^sup>4 - 2\<^sup>9\<^sup>7\<^sup>0\<close> in magnitude, \<^verbatim>\<open>float(i)\<close> on the JSON integer
  raises \<^verbatim>\<open>OverflowError\<close>, while \<^verbatim>\<open>float(str(i))\<close> on its decimal string returns an
  infinity of the integer's sign, so the same time sent as a string is accepted.\<close>

theorem float_overflow_int_vs_str:
  assumes "float_overflow_bound \<le> \<bar>real_of_int i\<bar>"
  shows "py_float (PInt i) = Inl (PyExc OverflowError ''int too large to convert to float'')
         \<and> py_float (PStr (int_str i)) = Inr (if 0 < i then PosInf else NegInf)"
  using assms by (simp only: py_float_int_str) (simp add: round_overflow_def)

theorem float_overflow_int_vs_str_witness:
  "py_float (PInt (2 ^ 1024)) = Inl (PyExc OverflowError ''int too large to convert to float'')
   \<and> py_float (PStr (int_str (2 ^ 1024))) = Inr PosInf"
  using float_overflow_int_vs_str [of "2 ^ 1024"] by (simp add: float_overflow_bound_def)

end
