(* ===== verification/Pipeline.thy ===== *)
theory Pipeline
  imports PyValue
begin

text \<open>
  The media pipelines the handler builds with the \<^verbatim>\<open>ffmpeg-python\<close> library before
  it runs them (\<^verbatim>\<open>src/app.py\<close>, lines 39-45 and 68-85). The library's calls build a
  graph of nodes: \<^verbatim>\<open>ffmpeg.input(url, **kw)\<close> an input node, \<^verbatim>\<open>.video\<close> and
  \<^verbatim>\<open>.audio\<close> a stream selection, \<^verbatim>\<open>s.filter(name, *args, **kw)\<close> and
  \<^verbatim>\<open>ffmpeg.filter([s1, s2], name, **kw)\<close> a filter node over its incoming streams,
  \<^verbatim>\<open>.output(...)\<close> / \<^verbatim>\<open>ffmpeg.output(...)\<close> the output node and
  \<^verbatim>\<open>.overwrite_output()\<close> its \<^verbatim>\<open>-y\<close> flag. The library identifies nodes by their
  arguments and parents, so a node used twice (the podcast input feeds both the video
  and the audio path) is one node: here it is the same subterm twice, and the list of
  distinct inputs is taken with \<open>remdups\<close>. Keyword arguments keep their Python values,
  in the order the call writes them.
\<close>

datatype av = Vid | Aud

type_synonym kwargs = "(string \<times> pyval) list"

datatype stream =
    Input pyval kwargs
  | Sel stream av
  | Filter "stream list" string "pyval list" kwargs

datatype out_node = Output "stream list" string kwargs bool

fun out_path :: "out_node \<Rightarrow> string" where
  "out_path (Output _ p _ _) = p"

fun out_overwrite :: "out_node \<Rightarrow> bool" where
  "out_overwrite (Output _ _ _ y) = y"

subsection \<open>The two pipelines of the handler\<close>

text \<open>\<^verbatim>\<open>ffmpeg.input(video_url).output(local_audio_path, vn=None,
  acodec='libmp3lame', ar=44100).overwrite_output()\<close>\<close>

definition extract_audio_graph :: "pyval \<Rightarrow> string \<Rightarrow> out_node" where
  "extract_audio_graph video_url local_audio_path =
     Output [Input video_url []] local_audio_path
       [(''vn'', PNone), (''acodec'', PStr ''libmp3lame''), (''ar'', PInt 44100)] True"

text \<open>\<^verbatim>\<open>s.filter('scale', '1080', '-1').filter('crop', '1080', '960')\<close>\<close>

definition scale_crop :: "stream \<Rightarrow> stream" where
  "scale_crop s =
     Filter [Filter [s] ''scale'' [PStr ''1080'', PStr ''-1''] []] ''crop''
       [PStr ''1080'', PStr ''960''] []"

text \<open>The inputs of lines 68-69: the podcast is trimmed to
  \<^verbatim>\<open>[start_time, start_time + duration]\<close>, the gameplay always from its start.\<close>

definition podcast_input :: "pyval \<Rightarrow> pyval \<Rightarrow> pyfloat \<Rightarrow> stream" where
  "podcast_input podcast_url start_time duration =
     Input podcast_url [(''ss'', start_time), (''t'', PFloat duration)]"

definition gameplay_input :: "pyval \<Rightarrow> pyfloat \<Rightarrow> stream" where
  "gameplay_input gameplay_url duration =
     Input gameplay_url [(''ss'', PInt 0), (''t'', PFloat duration)]"

text \<open>Line 80: \<^verbatim>\<open>ffmpeg.input(bgm_url).audio.filter('aloop', loop=-1, size=2e9)\<close>;
  \<^verbatim>\<open>2e9\<close> is a float literal.\<close>

definition bgm_loop :: "pyval \<Rightarrow> stream" where
  "bgm_loop bgm_url =
     Filter [Sel (Input bgm_url []) Aud] ''aloop'' []
       [(''loop'', PInt (-1)), (''size'', PFloat (Fin 2000000000))]"

definition clip_codecs :: kwargs where
  "clip_codecs = [(''acodec'', PStr ''aac''), (''vcodec'', PStr ''libx264'')]"

text \<open>Lines 68-85. The two branches of \<^verbatim>\<open>if bgm_url:\<close> differ only in the audio stream
  handed to \<^verbatim>\<open>ffmpeg.output\<close>: the 2-input mix of the podcast audio with the looped
  music, or the podcast audio itself.\<close>

definition split_screen_graph ::
  "pyval \<Rightarrow> pyval \<Rightarrow> pyval \<Rightarrow> pyval \<Rightarrow> pyfloat \<Rightarrow> string \<Rightarrow> out_node" where
  "split_screen_graph podcast_url gameplay_url bgm_url start_time duration local_output_path =
     (let p = podcast_input podcast_url start_time duration;
          g = gameplay_input gameplay_url duration;
          top_video = scale_crop (Sel p Vid);
          bottom_video = scale_crop (Sel g Vid);
          stacked_video = Filter [top_video, bottom_video] ''vstack'' [] []
      in if py_truthy bgm_url then
           (let final_audio = Filter [Sel p Aud, bgm_loop bgm_url] ''amix'' []
                  [(''inputs'', PInt 2), (''duration'', PStr ''first''),
                   (''dropout_transition'', PInt 2)]
            in Output [stacked_video, final_audio] local_output_path clip_codecs True)
         else Output [stacked_video, Sel p Aud] local_output_path clip_codecs True)"

subsection \<open>Reading a graph\<close>

text \<open>The input nodes a stream depends on, depth first, with repetitions.\<close>

fun stream_inputs :: "stream \<Rightarrow> (pyval \<times> kwargs) list" where
  "stream_inputs (Input u kw) = [(u, kw)]"
| "stream_inputs (Sel s _) = stream_inputs s"
| "stream_inputs (Filter ss _ _ _) = concat (map stream_inputs ss)"

text \<open>The filter nodes a stream passes through: name, positional and keyword
  arguments, and the number of incoming streams.\<close>

fun stream_filters :: "stream \<Rightarrow> (string \<times> pyval list \<times> kwargs \<times> nat) list" where
  "stream_filters (Input _ _) = []"
| "stream_filters (Sel s _) = stream_filters s"
| "stream_filters (Filter ss f args kw) = (f, args, kw, length ss) # concat (map stream_filters ss)"

text \<open>The distinct input nodes of a pipeline in the order they are first reached: what
  ffmpeg receives as its \<^verbatim>\<open>-i\<close> arguments.\<close>

fun graph_inputs :: "out_node \<Rightarrow> (pyval \<times> kwargs) list" where
  "graph_inputs (Output ss _ _ _) = rev (remdups (rev (concat (map stream_inputs ss))))"

fun graph_filters :: "out_node \<Rightarrow> (string \<times> pyval list \<times> kwargs \<times> nat) list" where
  "graph_filters (Output ss _ _ _) = rev (remdups (rev (concat (map stream_filters ss))))"

fun graph_filter_names :: "out_node \<Rightarrow> string list" where
  "graph_filter_names g = map fst (graph_filters g)"

fun out_kwargs :: "out_node \<Rightarrow> kwargs" where
  "out_kwargs (Output _ _ kw _) = kw"

fun out_streams :: "out_node \<Rightarrow> stream list" where
  "out_streams (Output ss _ _ _) = ss"

subsection \<open>Lemmas\<close>

lemmas graph_defs [py_simps] =
  extract_audio_graph_def scale_crop_def podcast_input_def gameplay_input_def
  bgm_loop_def clip_codecs_def split_screen_graph_def

lemma split_screen_graph_path [simp]:
  "out_path (split_screen_graph pu gu bu st d path) = path"
  and split_screen_graph_overwrite [simp]:
  "out_overwrite (split_screen_graph pu gu bu st d path)"
  by (simp_all add: split_screen_graph_def Let_def)

lemma extract_audio_graph_path [simp]:
  "out_path (extract_audio_graph u path) = path"
  and extract_audio_graph_overwrite [simp]:
  "out_overwrite (extract_audio_graph u path)"
  by (simp_all add: extract_audio_graph_def)

lemma set_graph_inputs: "set (graph_inputs g) = (\<Union>s \<in> set (out_streams g). set (stream_inputs s))"
  by (cases g) auto

lemma set_graph_filters: "set (graph_filters g) = (\<Union>s \<in> set (out_streams g). set (stream_filters s))"
  by (cases g) auto

subsection \<open>Properties of the pipelines\<close>

text \<open>C19. The split-screen pipeline reads exactly these inputs: the podcast trimmed with
  \<^verbatim>\<open>ss=start_time\<close> (the request's value as given) and \<^verbatim>\<open>t=duration\<close>, the gameplay with
  \<^verbatim>\<open>ss=0\<close> and the same \<^verbatim>\<open>t=duration\<close> whatever the start time, and the background
  music, untrimmed, exactly when \<^verbatim>\<open>bgm_url\<close> is truthy.\<close>

theorem split_screen_trims:
  "set (graph_inputs (split_screen_graph pu gu bu st d path)) =
     {(pu, [(''ss'', st), (''t'', PFloat d)]), (gu, [(''ss'', PInt 0), (''t'', PFloat d)])}
     \<union> (if py_truthy bu then {(bu, [])} else {})"
  by (auto simp: set_graph_inputs split_screen_graph_def Let_def podcast_input_def
      gameplay_input_def scale_crop_def bgm_loop_def)

text \<open>C20. Without background music (a falsy \<^verbatim>\<open>bgm_url\<close>) no \<^verbatim>\<open>amix\<close> filter
  occurs in the pipeline and the output's audio stream is the podcast input's own audio.\<close>

theorem split_screen_no_bgm_audio:
  assumes "\<not> py_truthy bu"
  shows "''amix'' \<notin> set (graph_filter_names (split_screen_graph pu gu bu st d path))
    \<and> out_streams (split_screen_graph pu gu bu st d path) ! 1 = Sel (podcast_input pu st d) Aud"
  using assms
  by (auto simp: split_screen_graph_def Let_def scale_crop_def podcast_input_def gameplay_input_def)

theorem split_screen_no_bgm_audio_witness:
  "''amix'' \<notin> set (graph_filter_names (split_screen_graph (PStr ''a'') (PStr ''b'') PNone (PInt 10) (Fin 15) ''/tmp/x.mp4''))
   \<and> out_streams (split_screen_graph (PStr ''a'') (PStr ''b'') PNone (PInt 10) (Fin 15) ''/tmp/x.mp4'') ! 1
       = Sel (podcast_input (PStr ''a'') (PInt 10) (Fin 15)) Aud"
  by (rule split_screen_no_bgm_audio) simp

text \<open>C21. With background music the pipeline has exactly one \<^verbatim>\<open>amix\<close> filter; it has two
  incoming streams, the podcast audio first and the looped music second, and the options
  \<^verbatim>\<open>inputs=2, duration='first', dropout_transition=2\<close>; it is the output's audio stream.\<close>

theorem split_screen_bgm_mix:
  assumes "py_truthy bu"
  shows "filter (\<lambda>f. fst f = ''amix'') (graph_filters (split_screen_graph pu gu bu st d path)) =
           [(''amix'', [], [(''inputs'', PInt 2), (''duration'', PStr ''first''),
                            (''dropout_transition'', PInt 2)], 2)]
    \<and> out_streams (split_screen_graph pu gu bu st d path) ! 1 =
        Filter [Sel (podcast_input pu st d) Aud, bgm_loop bu] ''amix'' []
          [(''inputs'', PInt 2), (''duration'', PStr ''first''), (''dropout_transition'', PInt 2)]"
  using assms
  by (simp add: split_screen_graph_def Let_def scale_crop_def podcast_input_def gameplay_input_def
      bgm_loop_def)

theorem split_screen_bgm_mix_witness:
  "filter (\<lambda>f. fst f = ''amix'') (graph_filters (split_screen_graph (PStr ''a'') (PStr ''b'') (PStr ''m.mp3'') (PInt 10) (Fin 15) ''/tmp/x.mp4'')) =
           [(''amix'', [], [(''inputs'', PInt 2), (''duration'', PStr ''first''),
                            (''dropout_transition'', PInt 2)], 2)]
    \<and> out_streams (split_screen_graph (PStr ''a'') (PStr ''b'') (PStr ''m.mp3'') (PInt 10) (Fin 15) ''/tmp/x.mp4'') ! 1 =
        Filter [Sel (podcast_input (PStr ''a'') (PInt 10) (Fin 15)) Aud, bgm_loop (PStr ''m.mp3'')] ''amix'' []
          [(''inputs'', PInt 2), (''duration'', PStr ''first''), (''dropout_transition'', PInt 2)]"
  by (rule split_screen_bgm_mix) simp

end
