(* ===== verification/Uuid.thy ===== *)
theory Uuid
  imports Prelude
begin

unbundle bit_operations_syntax

text \<open>
  The names of the temporary files. The handler calls \<^verbatim>\<open>uuid.uuid4()\<close> and formats
  it into the path (\<^verbatim>\<open>src/app.py\<close>, lines 36 and 64); the name of the stored object is
  derived from that path, so the form of the string matters: it must not contain a
  slash (else \<^verbatim>\<open>basename\<close> would cut it) and distinct draws must give distinct names.
  CPython's \<^verbatim>\<open>uuid4()\<close> is \<^verbatim>\<open>UUID(bytes=os.urandom(16), version=4)\<close>: the 128
  random bits are read big-endian, the variant bits 62-63 are set to \<open>10\<close> and the
  version bits 76-79 to \<open>4\<close>; \<^verbatim>\<open>str()\<close> prints the 32 lower-case hex digits in groups
  of 8-4-4-4-12. The random bits are a \<open>128 word\<close>, the masks are written with
  \<open>AND\<close>, \<open>OR\<close>, \<open>NOT\<close> and \<open>push_bit\<close> as the library writes them with \<^verbatim>\<open>&\<close>, \<^verbatim>\<open>|\<close>,
  \<^verbatim>\<open>~\<close> and \<^verbatim>\<open><<\<close>.
\<close>

type_synonym uuid_bits = "128 word"

text \<open>\<^verbatim>\<open>int &= ~(0xc000 << 48); int |= 0x8000 << 48;
  int &= ~(0xf000 << 64); int |= version << 76\<close>\<close>

definition uuid4_int :: "uuid_bits \<Rightarrow> uuid_bits" where
  "uuid4_int r =
     (((r AND NOT (push_bit 48 0xc000)) OR push_bit 48 0x8000)
        AND NOT (push_bit 64 0xf000)) OR push_bit 76 4"

text \<open>The \<open>i\<close>-th hex digit from the least significant end, as a word and as a number.\<close>

definition nibble :: "uuid_bits \<Rightarrow> nat \<Rightarrow> uuid_bits" where
  "nibble w i = drop_bit (4 * i) w AND 0xF"

definition hex_char :: "nat \<Rightarrow> char" where
  "hex_char n = (if n < 10 then char_of (48 + n) else char_of (87 + n))"

text \<open>\<^verbatim>\<open>'%032x' % self.int\<close>\<close>

definition hex32 :: "uuid_bits \<Rightarrow> string" where
  "hex32 w = map (\<lambda>i. hex_char (unat (nibble w (31 - i)))) [0..<32]"

text \<open>\<^verbatim>\<open>'%s-%s-%s-%s-%s' % (hex[:8], hex[8:12], hex[12:16], hex[16:20], hex[20:])\<close>\<close>

definition uuid_str :: "uuid_bits \<Rightarrow> string" where
  "uuid_str w =
     (let h = hex32 w
      in take 8 h @ ''-'' @ take 4 (drop 8 h) @ ''-'' @ take 4 (drop 12 h) @ ''-''
         @ take 4 (drop 16 h) @ ''-'' @ drop 20 h)"

definition hex_alphabet :: "char set" where
  "hex_alphabet = set ''0123456789abcdef''"

subsection \<open>Lemmas\<close>

lemma nibble_less: "unat (nibble w i) < 16"
proof -
  have "unat (drop_bit (4 * i) w AND 0xF) \<le> unat (0xF :: uuid_bits)"
    by (rule word_and_le1 [THEN word_le_nat_alt [THEN iffD1]])
  then show ?thesis by (simp add: nibble_def)
qed

lemma map_hex_char_digits: "map hex_char [0..<16] = ''0123456789abcdef''"
  by code_simp

lemma hex_char_alphabet: "n < 16 \<Longrightarrow> hex_char n \<in> hex_alphabet"
proof -
  assume "n < 16"
  then have "hex_char n \<in> set (map hex_char [0..<16])" by simp
  then show ?thesis by (simp only: map_hex_char_digits hex_alphabet_def)
qed

lemma length_hex32 [simp]: "length (hex32 w) = 32"
  by (simp add: hex32_def)

lemma hex32_alphabet: "set (hex32 w) \<subseteq> hex_alphabet"
  using hex_char_alphabet nibble_less by (auto simp: hex32_def)

lemma length_uuid_str: "length (uuid_str w) = 36"
  by (simp add: uuid_str_def Let_def)

lemma uuid_str_alphabet: "set (uuid_str w) \<subseteq> insert CHR ''-'' hex_alphabet"
  using hex32_alphabet [of w] set_take_subset set_drop_subset
  by (fastforce simp: uuid_str_def Let_def)

lemma uuid_str_no_slash: "CHR ''/'' \<notin> set (uuid_str w)"
proof
  assume "CHR ''/'' \<in> set (uuid_str w)"
  then have "CHR ''/'' \<in> insert CHR ''-'' hex_alphabet"
    using uuid_str_alphabet by blast
  then show False by (simp add: hex_alphabet_def)
qed

lemma nibble_take_bit: "nibble w i = take_bit 4 (drop_bit (4 * i) w)"
  by (simp add: nibble_def take_bit_eq_mask mask_eq_exp_minus_1)

lemma bit_nibble: "bit (nibble w i) n \<longleftrightarrow> n < 4 \<and> bit w (4 * i + n)"
  by (auto simp: nibble_take_bit bit_take_bit_iff bit_drop_bit_eq add.commute)

lemma bit_four_uuid: "\<not> bit (4 :: uuid_bits) n \<longleftrightarrow> n \<noteq> 2"
proof -
  have "bit (push_bit 2 1 :: uuid_bits) n \<longleftrightarrow> n = 2"
    by (simp only: bit_push_bit_iff bit_1_iff) auto
  moreover have "push_bit 2 1 = (4 :: uuid_bits)" by simp
  ultimately show ?thesis by metis
qed

lemma uuid4_version_nibble: "nibble (uuid4_int r) 19 = 4"
proof (rule bit_word_eqI)
  fix n :: nat
  assume "n < LENGTH(128)"
  show "bit (nibble (uuid4_int r) 19) n \<longleftrightarrow> bit (4 :: uuid_bits) n"
  proof (cases "n < 4")
    case True
    then consider "n = 0" | "n = 1" | "n = 2" | "n = 3" by linarith
    then show ?thesis
      by cases (simp_all add: bit_nibble uuid4_int_def bit_or_iff bit_and_iff bit_not_iff
                 bit_push_bit_iff)
  next
    case False
    then have "\<not> bit (4 :: uuid_bits) n" using bit_four_uuid by simp
    with False show ?thesis by (simp add: bit_nibble)
  qed
qed

lemma hex_char_nth: "n < 16 \<Longrightarrow> hex_char n = ''0123456789abcdef'' ! n"
  by (simp only: map_hex_char_digits [symmetric] nth_map_upt) simp

lemma variant_range: "(k :: nat) < 16 \<Longrightarrow> bit k 3 \<Longrightarrow> \<not> bit k 2 \<Longrightarrow> k \<in> {8, 9, 10, 11}"
  by (simp add: bit_iff_odd_drop_bit drop_bit_eq_div) presburger

lemma uuid4_variant_nibble: "unat (nibble (uuid4_int r) 15) \<in> {8, 9, 10, 11}"
proof (rule variant_range)
  show "unat (nibble (uuid4_int r) 15) < 16" by (rule nibble_less)
  show "bit (unat (nibble (uuid4_int r) 15)) 3" "\<not> bit (unat (nibble (uuid4_int r) 15)) 2"
    by (simp_all add: bit_unsigned_iff bit_nibble uuid4_int_def bit_or_iff bit_and_iff
        bit_not_iff bit_push_bit_iff)
qed

lemma uuid_str_nth_hex:
  "uuid_str w ! 14 = hex_char (unat (nibble w 19))"
  "uuid_str w ! 19 = hex_char (unat (nibble w 15))"
  by (simp_all add: uuid_str_def Let_def nth_append hex32_def)

lemma hex_char_inj: "inj_on hex_char {..<16}"
proof (rule inj_onI)
  fix m n :: nat
  assume "m \<in> {..<16}" "n \<in> {..<16}" "hex_char m = hex_char n"
  then have "''0123456789abcdef'' ! m = ''0123456789abcdef'' ! n"
    by (simp add: hex_char_nth)
  moreover have "distinct ''0123456789abcdef''" "length ''0123456789abcdef'' = 16" by simp_all
  ultimately show "m = n" using \<open>m \<in> {..<16}\<close> \<open>n \<in> {..<16}\<close>
    by (metis lessThan_iff nth_eq_iff_index_eq)
qed

lemma nibbles_eqI:
  assumes "\<And>i. i < 32 \<Longrightarrow> nibble a i = nibble b i"
  shows "a = b"
proof (rule bit_word_eqI)
  fix n :: nat
  assume "n < LENGTH(128)"
  then have "n div 4 < 32" by simp
  then have "bit (nibble a (n div 4)) (n mod 4) = bit (nibble b (n div 4)) (n mod 4)"
    using assms by simp
  then show "bit a n = bit b n" by (simp add: bit_nibble)
qed

lemma hex32_inj: "hex32 a = hex32 b \<Longrightarrow> a = b"
proof (rule nibbles_eqI)
  fix i :: nat
  assume eq: "hex32 a = hex32 b" and i: "i < 32"
  then have "hex32 a ! (31 - i) = hex32 b ! (31 - i)" by simp
  moreover have "[0..<32] ! (31 - i) = 31 - i" "31 - (31 - i) = i" using i by simp_all
  ultimately have "hex_char (unat (nibble a i)) = hex_char (unat (nibble b i))"
    using i by (simp add: hex32_def)
  then have "unat (nibble a i) = unat (nibble b i)"
    using hex_char_inj nibble_less by (auto dest: inj_onD)
  then show "nibble a i = nibble b i" by (rule word_unat_eq_iff [THEN iffD2])
qed

lemma hex32_no_dash: "CHR ''-'' \<notin> set (hex32 w)"
  using hex32_alphabet [of w] by (auto simp: hex_alphabet_def)

lemma filter_no_dash: "CHR ''-'' \<notin> set xs \<Longrightarrow> filter (\<lambda>c. c \<noteq> CHR ''-'') xs = xs"
  by (induction xs) auto

lemma hex32_groups:
  "take 8 h @ take 4 (drop 8 h) @ take 4 (drop 12 h) @ take 4 (drop 16 h) @ drop 20 h = h"
proof -
  have "take 4 (drop 16 h) @ drop 20 h = drop 16 h" using take_drop_split [of 4 16 h] by simp
  moreover have "take 4 (drop 12 h) @ drop 16 h = drop 12 h" using take_drop_split [of 4 12 h] by simp
  moreover have "take 4 (drop 8 h) @ drop 12 h = drop 8 h" using take_drop_split [of 4 8 h] by simp
  ultimately show ?thesis by simp
qed

lemma uuid_str_strip: "filter (\<lambda>c. c \<noteq> CHR ''-'') (uuid_str w) = hex32 w"
proof -
  have nd: "CHR ''-'' \<notin> set (take n (drop m (hex32 w)))" "CHR ''-'' \<notin> set (drop m (hex32 w))"
    "CHR ''-'' \<notin> set (take n (hex32 w))" for n m
    using hex32_no_dash [of w] by (meson in_set_takeD in_set_dropD)+
  have "filter (\<lambda>c. c \<noteq> CHR ''-'') (uuid_str w)
      = take 8 (hex32 w) @ take 4 (drop 8 (hex32 w)) @ take 4 (drop 12 (hex32 w))
        @ take 4 (drop 16 (hex32 w)) @ drop 20 (hex32 w)"
    by (simp add: uuid_str_def Let_def filter_no_dash nd del: length_hex32)
  then show ?thesis by (simp only: hex32_groups)
qed

lemma uuid_str_eqD: "uuid_str a = uuid_str b \<Longrightarrow> a = b"
proof -
  assume "uuid_str a = uuid_str b"
  then have "hex32 a = hex32 b" by (metis uuid_str_strip)
  then show "a = b" by (rule hex32_inj)
qed

text \<open>The bits of a uuid4: six are fixed by the masks, the rest are the random bits.\<close>

lemma bit_0xc000: "bit (0xc000 :: uuid_bits) m \<longleftrightarrow> m = 14 \<or> m = 15"
proof -
  have eq: "(0xc000 :: uuid_bits) = push_bit 14 (mask 2)" by (simp add: mask_eq_exp_minus_1)
  show ?thesis unfolding eq by (simp only: bit_push_bit_iff bit_mask_iff possible_bit_word) auto
qed

lemma bit_0xf000: "bit (0xf000 :: uuid_bits) m \<longleftrightarrow> 12 \<le> m \<and> m < 16"
proof -
  have eq: "(0xf000 :: uuid_bits) = push_bit 12 (mask 4)" by (simp add: mask_eq_exp_minus_1)
  show ?thesis unfolding eq by (simp only: bit_push_bit_iff bit_mask_iff possible_bit_word) auto
qed

lemma bit_0x8000: "bit (0x8000 :: uuid_bits) m \<longleftrightarrow> m = 15"
proof -
  have eq: "(0x8000 :: uuid_bits) = push_bit 15 1" by simp
  show ?thesis unfolding eq by (simp only: bit_push_bit_iff bit_1_iff) auto
qed

lemma bit_four: "bit (4 :: uuid_bits) m \<longleftrightarrow> m = 2"
proof -
  have eq: "(4 :: uuid_bits) = push_bit 2 1" by simp
  show ?thesis unfolding eq by (simp only: bit_push_bit_iff bit_1_iff) auto
qed

lemma bit_uuid4_int:
  "bit (uuid4_int r) n \<longleftrightarrow>
     n < 128 \<and> (if n \<in> {62, 63, 76, 77, 78, 79} then n = 63 \<or> n = 78 else bit r n)"
  unfolding uuid4_int_def
  by (simp only: bit_or_iff bit_and_iff bit_not_iff bit_push_bit_iff possible_bit_word
      bit_0xc000 bit_0xf000 bit_0x8000 bit_four) (auto dest: bit_imp_le_length)

subsection \<open>Properties of the names\<close>

text \<open>C22. Every name \<^verbatim>\<open>str(uuid.uuid4())\<close> carries the version digit \<open>4\<close> at position 14
  and one of the variant digits \<open>8\<close>, \<open>9\<close>, \<open>a\<close>, \<open>b\<close> at position 19, whatever the 128
  random bits drawn from \<^verbatim>\<open>os.urandom\<close>.\<close>

theorem uuid4_str_version_variant:
  "uuid_str (uuid4_int r) ! 14 = CHR ''4'' \<and> uuid_str (uuid4_int r) ! 19 \<in> set ''89ab''"
proof
  show "uuid_str (uuid4_int r) ! 14 = CHR ''4''"
    by (simp add: uuid_str_nth_hex uuid4_version_nibble hex_char_nth)
  show "uuid_str (uuid4_int r) ! 19 \<in> set ''89ab''"
    using uuid4_variant_nibble [of r] by (auto simp: uuid_str_nth_hex hex_char_nth)
qed

text \<open>C23. The textual form of a UUID loses no information: two UUIDs print to the same
  36-character string exactly when they are the same 128-bit value. Distinct draws of
  \<^verbatim>\<open>uuid4()\<close> therefore give distinct temporary file names.\<close>

theorem uuid_str_inj: "uuid_str a = uuid_str b \<longleftrightarrow> a = b"
  by (auto dest: uuid_str_eqD)

text \<open>C32. A uuid4 is exactly its 122 random bits: two draws give the same uuid if and only
  if they agree on every bit outside the six the version and variant masks overwrite
  (bits 62-63 and 76-79).\<close>

theorem uuid4_int_eq_iff:
  "uuid4_int a = uuid4_int b \<longleftrightarrow> (\<forall>n < 128. n \<in> {62, 63, 76, 77, 78, 79} \<or> bit a n = bit b n)"
  by (auto simp: bit_eq_iff bit_uuid4_int)

theorem uuid4_int_eq_iff_witness: "uuid4_int 0 = uuid4_int (push_bit 62 1)"
  by (rule uuid4_int_eq_iff [THEN iffD2]) (simp only: bit_push_bit_iff bit_1_iff bit_0, auto)

end
