(* ===== verification/Paths.thy ===== *)
theory Paths
  imports Prelude
begin

text \<open>
  File names. \<^verbatim>\<open>upload_to_gcs\<close> (\<^verbatim>\<open>src/app.py\<close>, line 18) names the stored object
  \<^verbatim>\<open>os.path.basename(local_path)\<close>; the handler builds its temporary paths with the
  f-strings \<^verbatim>\<open>f"/tmp/{uuid.uuid4()}.mp3"\<close> and \<^verbatim>\<open>f"/tmp/{uuid.uuid4()}.mp4"\<close>
  (lines 36 and 64). \<open>basename\<close> is CPython's \<^verbatim>\<open>posixpath.basename\<close>, written with
  \<^verbatim>\<open>str.rfind\<close> as the library writes it; \<open>basename_ref\<close> is the reference reading
  (the part after the last slash) and the two are proved equal.
\<close>

text \<open>\<^verbatim>\<open>s.rfind(c)\<close>: the index of the last occurrence of \<open>c\<close>, or -1. The scan keeps
  the current index and the last match.\<close>

fun rfind_aux :: "'a \<Rightarrow> 'a list \<Rightarrow> int \<Rightarrow> int \<Rightarrow> int" where
  "rfind_aux c [] i best = best"
| "rfind_aux c (x # xs) i best = rfind_aux c xs (i + 1) (if x = c then i else best)"

definition rfind :: "'a \<Rightarrow> 'a list \<Rightarrow> int" where
  "rfind c s = rfind_aux c s 0 (-1)"

text \<open>\<^verbatim>\<open>i = p.rfind('/') + 1; return p[i:]\<close>\<close>

definition basename :: "string \<Rightarrow> string" where
  "basename p = drop (nat (rfind CHR ''/'' p + 1)) p"

definition basename_ref :: "string \<Rightarrow> string" where
  "basename_ref p = rev (takeWhile (\<lambda>x. x \<noteq> CHR ''/'') (rev p))"

text \<open>\<^verbatim>\<open>f"/tmp/{name}{ext}"\<close>\<close>

definition tmp_path :: "string \<Rightarrow> string \<Rightarrow> string" where
  "tmp_path name ext = ''/tmp/'' @ name @ ext"

subsection \<open>Lemmas\<close>

lemma rfind_aux_append:
  "rfind_aux c (xs @ ys) i b = rfind_aux c ys (i + int (length xs)) (rfind_aux c xs i b)"
  by (induction xs arbitrary: i b) (simp_all add: algebra_simps)

lemma rfind_snoc:
  "rfind c (xs @ [x]) = (if x = c then int (length xs) else rfind c xs)"
  by (simp add: rfind_def rfind_aux_append)

lemma rfind_bounds: "-1 \<le> rfind c xs \<and> rfind c xs < int (length xs)"
proof (induction xs rule: rev_induct)
  case Nil
  show ?case by (simp add: rfind_def)
next
  case (snoc x xs)
  then show ?case by (simp add: rfind_snoc)
qed

lemma basename_Nil: "basename [] = []"
  by (simp add: basename_def)

lemma basename_snoc:
  "basename (xs @ [x]) = (if x = CHR ''/'' then [] else basename xs @ [x])"
proof -
  have "nat (rfind CHR ''/'' xs + 1) \<le> length xs"
    using rfind_bounds [of "CHR ''/''" xs] by arith
  then show ?thesis
    by (simp add: basename_def rfind_snoc)
qed

text \<open>C24. \<^verbatim>\<open>posixpath.basename\<close>'s index arithmetic (\<^verbatim>\<open>p[p.rfind('/') + 1:]\<close>)
  computes the reference reading of a base name: the longest suffix of the path without a
  slash, the whole path when it has none and the empty string when it ends in a slash.\<close>

theorem basename_eq_ref: "basename p = basename_ref p"
proof (induction p rule: rev_induct)
  case Nil
  show ?case by (simp add: basename_def basename_ref_def rfind_def)
next
  case (snoc x xs)
  then show ?case by (simp add: basename_snoc basename_ref_def)
qed

lemma basename_no_slash: "CHR ''/'' \<notin> set s \<Longrightarrow> basename s = s"
  by (induction s rule: rev_induct) (auto simp: basename_snoc basename_Nil)

lemma basename_append_no_slash:
  "CHR ''/'' \<notin> set s \<Longrightarrow> basename (xs @ CHR ''/'' # s) = s"
proof (induction s rule: rev_induct)
  case Nil
  show ?case using basename_snoc [of xs "CHR ''/''"] by simp
next
  case (snoc x s)
  from snoc.prems have "x \<noteq> CHR ''/''" by auto
  then have "basename ((xs @ CHR ''/'' # s) @ [x]) = basename (xs @ CHR ''/'' # s) @ [x]"
    by (subst basename_snoc) simp
  with snoc show ?case by simp
qed

lemma basename_tmp_path:
  "CHR ''/'' \<notin> set name \<Longrightarrow> CHR ''/'' \<notin> set ext \<Longrightarrow> basename (tmp_path name ext) = name @ ext"
  using basename_append_no_slash [of "name @ ext" "''/tmp''"] by (simp add: tmp_path_def)

lemma tmp_path_inj:
  "tmp_path n1 ext = tmp_path n2 ext \<longleftrightarrow> n1 = n2"
  by (simp add: tmp_path_def)

end
