(* ===== verification/World.thy ===== *)
theory World
  imports Pipeline Uuid Paths
begin

text \<open>
  The state the handler of \<^verbatim>\<open>src/app.py\<close> acts on, and the effects it performs on it
  other than the upload. The world holds the local file system (the server's
  \<^verbatim>\<open>/tmp\<close>), the objects of the storage service by bucket and object name, the log of
  external calls in the order they happen, the stream of \<^verbatim>\<open>os.urandom(16)\<close> draws with
  the number already used, and two oracles standing for the outside: what the
  \<^verbatim>\<open>ffmpeg\<close> process does with a pipeline and what the storage service answers to an
  upload. Both oracles are indexed by the number of external calls made so far, so the
  environment may answer differently at each call; nothing is assumed about them, so
  every theorem holds for every behaviour of the tool and the network.

  \<^verbatim>\<open>ffmpeg_run\<close> is the library's \<^verbatim>\<open>.run()\<close>: it starts the process
  (\<^verbatim>\<open>FileNotFoundError\<close> when the binary is missing), waits for it, and raises
  \<^verbatim>\<open>ffmpeg.Error\<close> with the message \<^verbatim>\<open>"ffmpeg error (see stderr output for detail)"\<close>
  on a non-zero exit status. A successful run writes the output file, replacing any file
  of that name (the pipelines carry \<^verbatim>\<open>-y\<close>); a failing one may leave a partial file.
\<close>

type_synonym bytes = "8 word list"

datatype ff_outcome = FfDone bytes | FfExitErr "bytes option" | FfSpawnErr string

datatype gcs_outcome = GcsOk | GcsFail string

datatype ext_call = CallFfmpeg out_node | CallUpload string string | CallRemove string

record world =
  fs :: "string \<rightharpoonup> bytes"
  objects :: "string \<times> string \<rightharpoonup> bytes"
  calls :: "ext_call list"
  urandom :: "nat \<Rightarrow> uuid_bits"
  draws :: nat
  ffmpeg_env :: "nat \<Rightarrow> out_node \<Rightarrow> ff_outcome"
  gcs_env :: "nat \<Rightarrow> string \<Rightarrow> string \<Rightarrow> bytes \<Rightarrow> gcs_outcome"

type_synonym 'a act = "(py_exc, world, 'a) exc_st"

definition log_call :: "ext_call \<Rightarrow> world \<Rightarrow> world" where
  "log_call c w = w\<lparr>calls := calls w @ [c]\<rparr>"

text \<open>\<^verbatim>\<open>str(uuid.uuid4())\<close>: one draw of 16 random bytes.\<close>

definition next_uuid :: "world \<Rightarrow> string" where
  "next_uuid w = uuid_str (uuid4_int (urandom w (draws w)))"

definition uuid4 :: "string act" where
  "uuid4 = (\<lambda>w. (Inr (next_uuid w), w\<lparr>draws := Suc (draws w)\<rparr>))"

definition ffmpeg_error_msg :: string where
  "ffmpeg_error_msg = ''ffmpeg error (see stderr output for detail)''"

text \<open>\<^verbatim>\<open>stream_spec.run()\<close>\<close>

definition ffmpeg_run :: "out_node \<Rightarrow> unit act" where
  "ffmpeg_run g =
     (\<lambda>w. let w1 = log_call (CallFfmpeg g) w in
          case ffmpeg_env w (length (calls w)) g of
            FfDone b \<Rightarrow> (Inr (), w1\<lparr>fs := (fs w)(out_path g \<mapsto> b)\<rparr>)
          | FfExitErr partial \<Rightarrow>
              (Inl (PyExc FfmpegError ffmpeg_error_msg),
               w1\<lparr>fs := (case partial of None \<Rightarrow> fs w | Some b \<Rightarrow> (fs w)(out_path g \<mapsto> b))\<rparr>)
          | FfSpawnErr msg \<Rightarrow> (Inl (PyExc FileNotFoundError msg), w1))"

definition no_such_file :: "string \<Rightarrow> py_exc" where
  "no_such_file p = PyExc FileNotFoundError (''[Errno 2] No such file or directory: '' @ quoted p)"

text \<open>\<^verbatim>\<open>os.remove(path)\<close>\<close>

definition os_remove :: "string \<Rightarrow> unit act" where
  "os_remove p =
     (\<lambda>w. if p \<in> dom (fs w) then (Inr (), log_call (CallRemove p) (w\<lparr>fs := (fs w)(p := None)\<rparr>))
          else (Inl (no_such_file p), w))"

text \<open>The frame of an effect: it touches neither the stored objects nor the draws.\<close>

definition keeps_objects :: "world \<Rightarrow> world \<Rightarrow> bool" where
  "keeps_objects w w' \<longleftrightarrow> objects w' = objects w \<and> urandom w' = urandom w
     \<and> ffmpeg_env w' = ffmpeg_env w \<and> gcs_env w' = gcs_env w"

text \<open>What one request may change: the local file at \<open>p\<close>, the object that \<open>p\<close> is
  uploaded as, and the end of the call log; stored objects are never removed.\<close>

definition frame_at :: "string \<Rightarrow> string option \<Rightarrow> world \<Rightarrow> world \<Rightarrow> bool" where
  "frame_at p bn w w' \<longleftrightarrow>
     (\<forall>q. q \<noteq> p \<longrightarrow> fs w' q = fs w q)
     \<and> (\<forall>key. key \<noteq> (the bn, basename p) \<longrightarrow> objects w' key = objects w key)
     \<and> dom (objects w) \<subseteq> dom (objects w')
     \<and> urandom w' = urandom w \<and> ffmpeg_env w' = ffmpeg_env w \<and> gcs_env w' = gcs_env w
     \<and> (\<exists>cs. calls w' = calls w @ cs)"

text \<open>A world for concrete runs: no files, no objects, every draw zero, and the
  external services answering \<open>ff\<close> and \<open>up\<close> to every call.\<close>

definition demo_world :: "ff_outcome \<Rightarrow> gcs_outcome \<Rightarrow> world" where
  "demo_world ff up =
     \<lparr>fs = Map.empty, objects = Map.empty, calls = [], urandom = (\<lambda>_. 0), draws = 0,
      ffmpeg_env = (\<lambda>_ _. ff), gcs_env = (\<lambda>_ _ _ _. up)\<rparr>"

subsection \<open>Lemmas\<close>

lemma next_uuid_no_slash: "CHR ''/'' \<notin> set (next_uuid w)"
  by (simp add: next_uuid_def uuid_str_no_slash)

lemma basename_tmp_next_uuid:
  "CHR ''/'' \<notin> set ext \<Longrightarrow> basename (tmp_path (next_uuid w) ext) = next_uuid w @ ext"
  by (simp add: basename_tmp_path next_uuid_no_slash)

lemma basename_tmp_mp3 [simp]: "basename (tmp_path (next_uuid w) ''.mp3'') = next_uuid w @ ''.mp3''"
  and basename_tmp_mp4 [simp]: "basename (tmp_path (next_uuid w) ''.mp4'') = next_uuid w @ ''.mp4''"
  by (simp_all add: basename_tmp_next_uuid)

lemma next_uuid_eqI: "urandom w' = urandom w \<Longrightarrow> draws w' = draws w \<Longrightarrow> next_uuid w' = next_uuid w"
  by (simp add: next_uuid_def)

lemma log_call_simps [simp]:
  "fs (log_call c w) = fs w" "objects (log_call c w) = objects w"
  "calls (log_call c w) = calls w @ [c]" "urandom (log_call c w) = urandom w"
  "draws (log_call c w) = draws w" "ffmpeg_env (log_call c w) = ffmpeg_env w"
  "gcs_env (log_call c w) = gcs_env w"
  by (simp_all add: log_call_def)

lemma uuid4_apply [simp]:
  "uuid4 w = (Inr (next_uuid w), w\<lparr>draws := Suc (draws w)\<rparr>)"
  by (simp add: uuid4_def)

lemma ffmpeg_run_Done:
  "ffmpeg_env w (length (calls w)) g = FfDone b \<Longrightarrow>
   ffmpeg_run g w = (Inr (), (log_call (CallFfmpeg g) w)\<lparr>fs := (fs w)(out_path g \<mapsto> b)\<rparr>)"
  by (simp add: ffmpeg_run_def Let_def)

lemma ffmpeg_run_frame:
  assumes "ffmpeg_run g w = (r, w')"
  shows "keeps_objects w w'" and "draws w' = draws w"
    and "calls w' = calls w @ [CallFfmpeg g]"
    and "\<forall>p. p \<noteq> out_path g \<longrightarrow> fs w' p = fs w p"
  using assms
  by (auto simp: ffmpeg_run_def keeps_objects_def Let_def split: ff_outcome.splits option.splits)

lemma os_remove_present:
  "p \<in> dom (fs w) \<Longrightarrow> os_remove p w = (Inr (), log_call (CallRemove p) (w\<lparr>fs := (fs w)(p := None)\<rparr>))"
  by (simp add: os_remove_def)

lemma keeps_objects_refl [simp]: "keeps_objects w w"
  by (simp add: keeps_objects_def)

lemma keeps_objects_trans:
  "keeps_objects w1 w2 \<Longrightarrow> keeps_objects w2 w3 \<Longrightarrow> keeps_objects w1 w3"
  by (simp add: keeps_objects_def)

end
