(* ===== verification/Storage.thy ===== *)
theory Storage
  imports World
begin

text \<open>
  The upload helper \<^verbatim>\<open>upload_to_gcs(local_path, bucket_name)\<close> of \<^verbatim>\<open>src/app.py\<close>
  (lines 16-23) and the two operations of the storage client it calls. The object is
  named \<^verbatim>\<open>os.path.basename(local_path)\<close>; \<^verbatim>\<open>blob.upload_from_filename\<close> opens the
  local file (\<^verbatim>\<open>FileNotFoundError\<close> if it is gone), then sends it, replacing any object
  of that name in the bucket (no existence check, no retry); the service may refuse
  (\<open>GcsFail\<close>, raised as a \<^verbatim>\<open>google.api_core\<close> exception). Without a bucket name (the
  environment variable \<^verbatim>\<open>GCS_BUCKET_NAME\<close> unset, so \<^verbatim>\<open>DESTINATION_BUCKET_NAME\<close> is
  \<^verbatim>\<open>None\<close>) the client cannot form the request path and raises \<^verbatim>\<open>ValueError\<close> before
  sending. Only after a successful upload is the local file removed, and the object's
  \<^verbatim>\<open>public_url\<close> returned: the storage endpoint, the bucket, and the object name
  percent-encoded by \<^verbatim>\<open>urllib.parse.quote(name, safe='/~')\<close>.
\<close>

definition url_unreserved :: "char \<Rightarrow> bool" where
  "url_unreserved c \<longleftrightarrow>
     (let n = (of_char c :: nat) in
        (48 \<le> n \<and> n \<le> 57) \<or> (65 \<le> n \<and> n \<le> 90) \<or> (97 \<le> n \<and> n \<le> 122)
        \<or> c \<in> set ''_.-~'')"

definition hex_upper :: "nat \<Rightarrow> char" where
  "hex_upper n = (if n < 10 then char_of (48 + n) else char_of (55 + n))"

text \<open>\<^verbatim>\<open>quote(s, safe='/~')\<close> on the bytes of \<open>s\<close>.\<close>

definition quote_char :: "char \<Rightarrow> string" where
  "quote_char c =
     (if url_unreserved c \<or> c = CHR ''/'' then [c]
      else [CHR ''%'', hex_upper (of_char c div 16), hex_upper (of_char c mod 16)])"

definition url_quote :: "string \<Rightarrow> string" where
  "url_quote s = concat (map quote_char s)"

text \<open>\<^verbatim>\<open>'{}'.format(bucket.name)\<close>: a missing name prints as \<^verbatim>\<open>None\<close>.\<close>

fun bucket_str :: "string option \<Rightarrow> string" where
  "bucket_str None = ''None''"
| "bucket_str (Some b) = b"

definition public_url :: "string option \<Rightarrow> string \<Rightarrow> string" where
  "public_url bucket name =
     ''https://storage.googleapis.com/'' @ bucket_str bucket @ ''/'' @ url_quote name"

definition no_bucket_error :: py_exc where
  "no_bucket_error = PyExc ValueError ''Cannot determine path without bucket name.''"

text \<open>\<^verbatim>\<open>storage_client.bucket(bucket_name).blob(name).upload_from_filename(local_path)\<close>\<close>

definition upload_from_filename :: "string option \<Rightarrow> string \<Rightarrow> string \<Rightarrow> unit act" where
  "upload_from_filename bucket_name name local_path =
     (\<lambda>w. case fs w local_path of
            None \<Rightarrow> (Inl (no_such_file local_path), w)
          | Some data \<Rightarrow>
              (case bucket_name of
                None \<Rightarrow> (Inl no_bucket_error, w)
              | Some b \<Rightarrow>
                  (let w1 = log_call (CallUpload b name) w in
                   case gcs_env w (length (calls w)) b name data of
                     GcsFail msg \<Rightarrow> (Inl (PyExc GoogleCloudError msg), w1)
                   | GcsOk \<Rightarrow> (Inr (), w1\<lparr>objects := (objects w)((b, name) \<mapsto> data)\<rparr>))))"

text \<open>Lines 16-23, statement by statement.\<close>

definition upload_to_gcs :: "string \<Rightarrow> string option \<Rightarrow> string act" where
  "upload_to_gcs local_path bucket_name =
     (let destination_blob_name = basename local_path in
      bindE (upload_from_filename bucket_name destination_blob_name local_path) (\<lambda>_.
      bindE (os_remove local_path) (\<lambda>_.
      ok (public_url bucket_name destination_blob_name))))"

text \<open>The reading of a quoted name back into bytes, \<^verbatim>\<open>urllib.parse.unquote_to_bytes\<close>:
  \<^verbatim>\<open>%\<close> followed by two hex digits of either case is the byte they spell; anything
  else is kept. It is the reference the quoting is checked against.\<close>

definition hex_digit_val :: "char \<Rightarrow> nat option" where
  "hex_digit_val c =
     (let n = (of_char c :: nat) in
        if 48 \<le> n \<and> n \<le> 57 then Some (n - 48)
        else if 65 \<le> n \<and> n \<le> 70 then Some (n - 55)
        else if 97 \<le> n \<and> n \<le> 102 then Some (n - 87)
        else None)"

fun url_unquote_bytes :: "string \<Rightarrow> string" where
  "url_unquote_bytes (c # h1 # h2 # s) =
     (if c = CHR ''%'' \<and> hex_digit_val h1 \<noteq> None \<and> hex_digit_val h2 \<noteq> None
      then char_of (16 * the (hex_digit_val h1) + the (hex_digit_val h2)) # url_unquote_bytes s
      else c # url_unquote_bytes (h1 # h2 # s))"
| "url_unquote_bytes s = s"

subsection \<open>Lemmas\<close>

lemma url_quote_unreserved:
  "\<forall>c \<in> set s. url_unreserved c \<Longrightarrow> url_quote s = s"
  by (induction s) (auto simp: url_quote_def quote_char_def)

text \<open>The upload on its success branch: the object holds the file's bytes under its base
  name, the file is gone, the calls are the upload then the removal, and the result is
  the public URL.\<close>

lemma upload_to_gcs_ok:
  assumes "fs w p = Some data" and "gcs_env w (length (calls w)) b (basename p) data = GcsOk"
  shows "upload_to_gcs p (Some b) w =
           (Inr (public_url (Some b) (basename p)),
            w\<lparr>fs := (fs w)(p := None), objects := (objects w)((b, basename p) \<mapsto> data),
              calls := calls w @ [CallUpload b (basename p), CallRemove p]\<rparr>)"
  using assms
  by (simp add: upload_to_gcs_def upload_from_filename_def os_remove_def log_call_def Let_def domI)

lemma upload_to_gcs_fail:
  assumes "fs w p = Some data" and "gcs_env w (length (calls w)) b (basename p) data = GcsFail msg"
  shows "upload_to_gcs p (Some b) w =
           (Inl (PyExc GoogleCloudError msg), log_call (CallUpload b (basename p)) w)"
  using assms by (simp add: upload_to_gcs_def upload_from_filename_def Let_def)

lemma upload_to_gcs_no_bucket:
  "fs w p = Some data \<Longrightarrow> upload_to_gcs p None w = (Inl no_bucket_error, w)"
  by (simp add: upload_to_gcs_def upload_from_filename_def Let_def)

lemma upload_to_gcs_no_file:
  "fs w p = None \<Longrightarrow> upload_to_gcs p bn w = (Inl (no_such_file p), w)"
  by (simp add: upload_to_gcs_def upload_from_filename_def Let_def)

text \<open>Whatever the service answers, the upload keeps every stored object other than
  the one it writes, and touches no local file but its own.\<close>

lemma upload_to_gcs_frame:
  assumes "upload_to_gcs p bn w = (r, w')"
  shows "\<forall>k. k \<noteq> (the bn, basename p) \<longrightarrow> objects w' k = objects w k"
    and "\<forall>q. q \<noteq> p \<longrightarrow> fs w' q = fs w q"
    and "draws w' = draws w" and "urandom w' = urandom w"
    and "ffmpeg_env w' = ffmpeg_env w" and "gcs_env w' = gcs_env w"
  using assms
  by (auto simp: upload_to_gcs_def upload_from_filename_def os_remove_def Let_def
           split: option.splits gcs_outcome.splits if_splits)

lemma upload_to_gcs_objects_mono:
  "upload_to_gcs p bn w = (r, w') \<Longrightarrow> dom (objects w) \<subseteq> dom (objects w')"
  by (auto simp: upload_to_gcs_def upload_from_filename_def os_remove_def Let_def
           split: option.splits gcs_outcome.splits if_splits)

lemma hex_alphabet_unreserved: "c \<in> hex_alphabet \<Longrightarrow> url_unreserved c"
  by (auto simp: hex_alphabet_def url_unreserved_def)

lemma uuid_str_unreserved: "\<forall>c \<in> set (uuid_str u). url_unreserved c"
  using uuid_str_alphabet [of u] hex_alphabet_unreserved by (auto simp: url_unreserved_def)

lemma url_quote_uuid_name:
  "\<forall>c \<in> set ext. url_unreserved c \<Longrightarrow> url_quote (uuid_str u @ ext) = uuid_str u @ ext"
  using uuid_str_unreserved [of u] by (intro url_quote_unreserved) auto

lemma url_unquote_plain: "c \<noteq> CHR ''%'' \<Longrightarrow> url_unquote_bytes (c # t) = c # url_unquote_bytes t"
  by (cases t rule: url_unquote_bytes.cases) auto

lemma hex_upper_val: "k < 16 \<Longrightarrow> hex_digit_val (hex_upper k) = Some k"
  by (auto simp: hex_upper_def hex_digit_val_def of_char_of Let_def)

lemma quote_char_unquote: "url_unquote_bytes (quote_char c @ t) = c # url_unquote_bytes t"
proof (cases "url_unreserved c \<or> c = CHR ''/''")
  case True
  then have "c \<noteq> CHR ''%''" by (auto simp: url_unreserved_def)
  with True show ?thesis by (simp add: quote_char_def url_unquote_plain)
next
  case False
  have "of_char c div 16 < (16::nat)"
    using less_mult_imp_div_less [of "of_char c :: nat" 16 16] by simp
  then show ?thesis
    using False by (simp add: quote_char_def hex_upper_val)
qed

subsection \<open>Properties of the upload\<close>

text \<open>C25. The public URL returned for a converted file is the storage endpoint, the bucket and
  the file's temporary name verbatim: the name \<open>uuid.ext\<close> needs no percent-encoding.\<close>

theorem public_url_tmp_name:
  assumes "\<forall>c \<in> set ext. url_unreserved c"
  shows "public_url (Some b) (basename (tmp_path (uuid_str u) ext)) =
           ''https://storage.googleapis.com/'' @ b @ ''/'' @ uuid_str u @ ext"
proof -
  have "CHR ''/'' \<notin> set ext" using assms by (auto simp: url_unreserved_def)
  then have "basename (tmp_path (uuid_str u) ext) = uuid_str u @ ext"
    using uuid_str_no_slash [of u] by (simp add: basename_tmp_path)
  moreover have "url_quote (uuid_str u @ ext) = uuid_str u @ ext"
    using assms by (rule url_quote_uuid_name)
  ultimately show ?thesis by (simp add: public_url_def)
qed

theorem public_url_tmp_name_witness:
  "public_url (Some ''bkt'') (basename (tmp_path (uuid_str 0) ''.mp4'')) =
     ''https://storage.googleapis.com/'' @ ''bkt'' @ ''/'' @ uuid_str 0 @ ''.mp4''"
  by (rule public_url_tmp_name) (simp add: url_unreserved_def)

text \<open>C18. If \<^verbatim>\<open>upload_to_gcs\<close> returns, a bucket name was configured, the file's bytes are
  stored under its base name, the local file is gone, and the result is the object's
  public URL.\<close>

theorem upload_to_gcs_contract:
  assumes "upload_to_gcs p bn w = (Inr url, w')"
  shows "\<exists>b data. bn = Some b \<and> fs w p = Some data \<and> objects w' (b, basename p) = Some data
            \<and> fs w' p = None \<and> url = public_url bn (basename p)"
  using assms
  by (auto simp: upload_to_gcs_def upload_from_filename_def os_remove_def Let_def log_call_def
           split: option.splits gcs_outcome.splits if_splits)

theorem upload_to_gcs_contract_witness:
  "fst (upload_to_gcs ''/tmp/a.mp4'' (Some ''bkt'') ((demo_world (FfDone []) GcsOk)\<lparr>fs := [''/tmp/a.mp4'' \<mapsto> [1]]\<rparr>))
     = Inr ''https://storage.googleapis.com/bkt/a.mp4''
   \<and> (\<exists>b data. Some ''bkt'' = Some b
       \<and> fs ((demo_world (FfDone []) GcsOk)\<lparr>fs := [''/tmp/a.mp4'' \<mapsto> [1]]\<rparr>) ''/tmp/a.mp4'' = Some data
       \<and> objects (snd (upload_to_gcs ''/tmp/a.mp4'' (Some ''bkt'')
             ((demo_world (FfDone []) GcsOk)\<lparr>fs := [''/tmp/a.mp4'' \<mapsto> [1]]\<rparr>))) (b, basename ''/tmp/a.mp4'') = Some data
       \<and> fs (snd (upload_to_gcs ''/tmp/a.mp4'' (Some ''bkt'')
             ((demo_world (FfDone []) GcsOk)\<lparr>fs := [''/tmp/a.mp4'' \<mapsto> [1]]\<rparr>))) ''/tmp/a.mp4'' = None
       \<and> ''https://storage.googleapis.com/bkt/a.mp4'' = public_url (Some ''bkt'') (basename ''/tmp/a.mp4''))"
proof -
  let ?w = "(demo_world (FfDone []) GcsOk)\<lparr>fs := [''/tmp/a.mp4'' \<mapsto> [1]]\<rparr>"
  have run: "upload_to_gcs ''/tmp/a.mp4'' (Some ''bkt'') ?w =
    (Inr ''https://storage.googleapis.com/bkt/a.mp4'', snd (upload_to_gcs ''/tmp/a.mp4'' (Some ''bkt'') ?w))"
    by (simp add: upload_to_gcs_ok demo_world_def basename_def rfind_def public_url_def url_quote_def
        quote_char_def url_unreserved_def)
  show ?thesis using upload_to_gcs_contract [OF run] run by (metis fst_conv)
qed

text \<open>C33. Percent-encoding loses nothing: decoding the quoted form of any object name, as
  \<^verbatim>\<open>unquote_to_bytes\<close> does, gives the name back, so distinct names have distinct
  URLs.\<close>

theorem url_quote_roundtrip: "url_unquote_bytes (url_quote s) = s"
  by (induction s) (simp_all add: url_quote_def quote_char_unquote)

end
