(* ===== verification/Handler.thy ===== *)
theory Handler
  imports Storage
begin

text \<open>
  The request handler \<^verbatim>\<open>process_video\<close> of \<^verbatim>\<open>src/app.py\<close> (lines 25-94), routed at
  \<^verbatim>\<open>POST /process\<close>. It reads the JSON body, dispatches on its \<^verbatim>\<open>operation\<close> field,
  validates the fields of the chosen operation with Python's truth test, draws a uuid
  for the temporary file, and inside one \<^verbatim>\<open>try\<close> runs the pipeline and uploads its
  output; every exception raised there becomes a 500 answer with the message
  \<^verbatim>\<open>"FFmpeg error: " + str(e)\<close>. Exceptions raised before the \<^verbatim>\<open>try\<close> (a body that
  is not a dict, \<^verbatim>\<open>params\<close> that is not a dict, a start or end time \<^verbatim>\<open>float()\<close>
  rejects) escape to the web framework, which answers with its generic 500 page:
  the response \<open>Crash e\<close>. \<^verbatim>\<open>request.get_json()\<close> itself aborts with 415 when the
  request is not declared JSON and with 400 when the body does not parse (Flask 2.3 and
  later): \<open>Abort\<close>. The handler is \<open>process_video\<close>, a function from the configured
  bucket name, the request and the world to the response and the new world.
\<close>

datatype http_request = HttpRequest (req_is_json: bool) (req_body: "pyval option")

datatype response = Json nat pyval | Abort nat | Crash py_exc

text \<open>\<^verbatim>\<open>request.get_json()\<close>\<close>

fun get_json :: "http_request \<Rightarrow> nat + pyval" where
  "get_json (HttpRequest is_json body) =
     (if \<not> is_json then Inl 415
      else case body of None \<Rightarrow> Inl 400 | Some v \<Rightarrow> Inr v)"

text \<open>\<^verbatim>\<open>jsonify({"error": msg})\<close>\<close>

definition err_json :: "string \<Rightarrow> pyval" where
  "err_json msg = PDict [(''error'', PStr msg)]"

definition missing_video_url_msg :: string where
  "missing_video_url_msg =
     ''Missing '' @ quoted ''videoUrl'' @ '' for '' @ quoted ''extract_audio'' @ '' operation''"

definition missing_params_msg :: string where
  "missing_params_msg =
     ''Missing parameters for '' @ quoted ''create_split_screen_clip'' @ '' operation''"

definition invalid_operation_msg :: string where
  "invalid_operation_msg = ''Invalid or missing '' @ quoted ''operation'' @ '' specified''"

text \<open>\<^verbatim>\<open>except Exception as e: return jsonify({"error": f"FFmpeg error: {str(e)}"}), 500\<close>\<close>

definition ffmpeg_error_response :: "py_exc \<Rightarrow> response act" where
  "ffmpeg_error_response e = ok (Json 500 (err_json (''FFmpeg error: '' @ exc_str e)))"

text \<open>The protected block both operations end with (lines 38-49 and 66-91): run the
  pipeline, upload its output, answer with the URL under the operation's key; every
  exception becomes the 500 answer. (In the split-screen branch \<^verbatim>\<open>.run()\<close> is
  written once in each arm of \<^verbatim>\<open>if bgm_url:\<close>; the arms differ only in the graph.)\<close>

definition run_and_upload :: "string \<Rightarrow> out_node \<Rightarrow> string \<Rightarrow> string option \<Rightarrow> response act" where
  "run_and_upload url_key g local_path bucket_name =
     try_except
       (bindE (ffmpeg_run g) (\<lambda>_.
        bindE (upload_to_gcs local_path bucket_name) (\<lambda>public_url.
        ok (Json 200 (PDict [(url_key, PStr public_url)])))))
       ffmpeg_error_response"

text \<open>Operation 1, lines 32-49.\<close>

definition extract_audio :: "string option \<Rightarrow> pyval \<Rightarrow> response act" where
  "extract_audio bucket_name data =
     bindE (lift (dict_get1 data ''videoUrl'')) (\<lambda>video_url.
     if \<not> py_truthy video_url then ok (Json 400 (err_json missing_video_url_msg))
     else
       bindE uuid4 (\<lambda>u.
       let local_audio_path = tmp_path u ''.mp3'' in
       run_and_upload ''audioUrl'' (extract_audio_graph video_url local_audio_path)
         local_audio_path bucket_name))"

text \<open>Operation 2, lines 53-91. \<^verbatim>\<open>float(end_time) - float(start_time)\<close> is evaluated
  left to right and outside the \<^verbatim>\<open>try\<close>.\<close>

definition create_split_screen_clip :: "string option \<Rightarrow> pyval \<Rightarrow> response act" where
  "create_split_screen_clip bucket_name data =
     bindE (lift (dict_get data ''params'' (PDict []))) (\<lambda>params.
     bindE (lift (dict_get1 params ''podcast_url'')) (\<lambda>podcast_url.
     bindE (lift (dict_get1 params ''gameplay_url'')) (\<lambda>gameplay_url.
     bindE (lift (dict_get1 params ''bgm_url'')) (\<lambda>bgm_url.
     bindE (lift (dict_get1 params ''start_time'')) (\<lambda>start_time.
     bindE (lift (dict_get1 params ''end_time'')) (\<lambda>end_time.
     if \<not> py_all [podcast_url, gameplay_url, start_time, end_time]
     then ok (Json 400 (err_json missing_params_msg))
     else
       bindE (lift (py_float end_time)) (\<lambda>end_f.
       bindE (lift (py_float start_time)) (\<lambda>start_f.
       let duration = fsub end_f start_f in
       bindE uuid4 (\<lambda>u.
       let local_output_path = tmp_path u ''.mp4'' in
       run_and_upload ''clipUrl''
         (split_screen_graph podcast_url gameplay_url bgm_url start_time duration local_output_path)
         local_output_path bucket_name)))))))))"

text \<open>Lines 28-31, 52 and 93-94: the dispatch on \<^verbatim>\<open>data.get('operation')\<close>.\<close>

definition dispatch :: "string option \<Rightarrow> pyval \<Rightarrow> response act" where
  "dispatch bucket_name data =
     bindE (lift (dict_get1 data ''operation'')) (\<lambda>operation.
     if py_eq_str operation ''extract_audio'' then extract_audio bucket_name data
     else if py_eq_str operation ''create_split_screen_clip''
       then create_split_screen_clip bucket_name data
     else ok (Json 400 (err_json invalid_operation_msg)))"

text \<open>The route: \<^verbatim>\<open>data = request.get_json()\<close>, then the body; an escaping exception
  becomes the framework's 500 response.\<close>

definition process_video :: "string option \<Rightarrow> http_request \<Rightarrow> world \<Rightarrow> response \<times> world" where
  "process_video bucket_name req w =
     (case get_json req of
        Inl code \<Rightarrow> (Abort code, w)
      | Inr data \<Rightarrow>
          (case dispatch bucket_name data w of
             (Inl e, w') \<Rightarrow> (Crash e, w')
           | (Inr r, w') \<Rightarrow> (r, w')))"

text \<open>A JSON request with a dict body, and the value \<^verbatim>\<open>d.get(k)\<close> reads from it.\<close>

definition json_req :: "(string \<times> pyval) list \<Rightarrow> http_request" where
  "json_req kvs = HttpRequest True (Some (PDict kvs))"

definition field :: "(string \<times> pyval) list \<Rightarrow> string \<Rightarrow> pyval" where
  "field kvs k = (case map_of kvs k of Some v \<Rightarrow> v | None \<Rightarrow> PNone)"

text \<open>The params dict of a split-screen request: \<^verbatim>\<open>data.get('params', {})\<close>.\<close>

definition params_of :: "(string \<times> pyval) list \<Rightarrow> pyval" where
  "params_of kvs = (case map_of kvs ''params'' of Some v \<Rightarrow> v | None \<Rightarrow> PDict [])"

text \<open>The key of a success answer and the extension of the file of the same operation:
  \<^verbatim>\<open>audioUrl\<close> with \<^verbatim>\<open>.mp3\<close> (lines 36 and 47), \<^verbatim>\<open>clipUrl\<close> with \<^verbatim>\<open>.mp4\<close>
  (lines 64 and 88).\<close>

definition url_key_ext :: "string \<Rightarrow> string \<Rightarrow> bool" where
  "url_key_ext k ext \<longleftrightarrow> (k = ''audioUrl'' \<and> ext = ''.mp3'') \<or> (k = ''clipUrl'' \<and> ext = ''.mp4'')"

subsection \<open>Lemmas\<close>

lemma url_key_ext_ext: "url_key_ext k ext \<Longrightarrow> ext = ''.mp3'' \<or> ext = ''.mp4''"
  by (auto simp: url_key_ext_def)

text \<open>Dict reads are stated with \<open>field\<close> and \<open>params_of\<close>.\<close>

declare dict_get.simps(1) [simp del]

lemma dict_get_field [simp]: "dict_get (PDict kvs) k PNone = Inr (field kvs k)"
  by (simp add: field_def dict_get.simps(1))

lemma dict_get_params [simp]: "dict_get (PDict kvs) ''params'' (PDict []) = Inr (params_of kvs)"
  by (simp add: params_of_def dict_get.simps(1))

lemma process_video_json_req:
  "process_video bn (json_req kvs) w =
     (case dispatch bn (PDict kvs) w of (Inl e, w') \<Rightarrow> (Crash e, w') | (Inr r, w') \<Rightarrow> (r, w'))"
  by (simp add: process_video_def json_req_def)

lemma run_and_upload_ok:
  assumes "out_path g = p"
    and "ffmpeg_env w (length (calls w)) g = FfDone b"
    and "gcs_env w (Suc (length (calls w))) bk (basename p) b = GcsOk"
  shows "run_and_upload k g p (Some bk) w =
         (Inr (Json 200 (PDict [(k, PStr (public_url (Some bk) (basename p)))])),
          w\<lparr>fs := (fs w)(p := None), objects := (objects w)((bk, basename p) \<mapsto> b),
            calls := calls w @ [CallFfmpeg g, CallUpload bk (basename p), CallRemove p]\<rparr>)"
proof -
  let ?w1 = "w\<lparr>calls := calls w @ [CallFfmpeg g], fs := (fs w)(p \<mapsto> b)\<rparr>"
  have run: "ffmpeg_run g w = (Inr (), ?w1)"
    using assms(1,2) by (simp add: ffmpeg_run_Done log_call_def)
  have "fs ?w1 p = Some b" and "gcs_env ?w1 (length (calls ?w1)) bk (basename p) b = GcsOk"
    using assms(3) by simp_all
  then have up: "upload_to_gcs p (Some bk) ?w1 =
              (Inr (public_url (Some bk) (basename p)),
               ?w1\<lparr>fs := (fs ?w1)(p := None), objects := (objects ?w1)((bk, basename p) \<mapsto> b),
                 calls := calls ?w1 @ [CallUpload bk (basename p), CallRemove p]\<rparr>)"
    by (rule upload_to_gcs_ok)
  show ?thesis by (simp add: run_and_upload_def run up)
qed

lemma run_and_upload_never_raises: "never_raises (run_and_upload k g p bn) w"
  unfolding run_and_upload_def
  by (rule try_except_never_raises) (simp add: never_raises_def ffmpeg_error_response_def)

text \<open>Whatever the tool and the service do, the protected block touches only its own
  temporary file and object, and answers 200 with the URL or 500 with the message.\<close>

lemma run_and_upload_frame:
  assumes "run_and_upload k g p bn w = (r, w')" and "out_path g = p"
  shows "frame_at p bn w w' \<and> draws w' = draws w"
  using assms
  by (auto simp: frame_at_def run_and_upload_def ffmpeg_run_def upload_to_gcs_def
      upload_from_filename_def os_remove_def Let_def ffmpeg_error_response_def
      split: ff_outcome.splits option.splits gcs_outcome.splits if_splits)

lemma run_and_upload_result:
  assumes "run_and_upload k g p bn w = (r, w')"
  shows "r = Inr (Json 200 (PDict [(k, PStr (public_url bn (basename p)))]))
         \<or> (\<exists>m. r = Inr (Json 500 (err_json (''FFmpeg error: '' @ m))))"
  using assms
  by (auto simp: run_and_upload_def ffmpeg_run_def upload_to_gcs_def upload_from_filename_def
      os_remove_def Let_def ffmpeg_error_response_def
      split: ff_outcome.splits option.splits gcs_outcome.splits if_splits)

text \<open>Each operation either stops before any effect (a 400 answer or an escaping
  exception, the world unchanged) or draws one uuid and ends in the protected block on
  the temporary path named after it.\<close>

lemma extract_audio_shape:
  assumes "extract_audio bn data w = (r, w')"
  shows "(w' = w \<and> ((\<exists>m. r = Inr (Json 400 (err_json m))) \<or> (\<exists>e. r = Inl e)))
       \<or> (\<exists>g. out_path g = tmp_path (next_uuid w) ''.mp3'' \<and>
            (r, w') = run_and_upload ''audioUrl'' g (tmp_path (next_uuid w) ''.mp3'') bn
                        (w\<lparr>draws := Suc (draws w)\<rparr>))"
proof (cases "\<exists>kvs. data = PDict kvs \<and> py_truthy (field kvs ''videoUrl'')")
  case True
  then obtain kvs where d: "data = PDict kvs" and t: "py_truthy (field kvs ''videoUrl'')"
    by blast
  have "\<exists>g. out_path g = tmp_path (next_uuid w) ''.mp3'' \<and>
          (r, w') = run_and_upload ''audioUrl'' g (tmp_path (next_uuid w) ''.mp3'') bn
                      (w\<lparr>draws := Suc (draws w)\<rparr>)"
    by (rule exI [where x = "extract_audio_graph (field kvs ''videoUrl'') (tmp_path (next_uuid w) ''.mp3'')"])
       (use assms d t in \<open>simp add: extract_audio_def Let_def\<close>)
  then show ?thesis ..
next
  case False
  with assms show ?thesis
    by (cases data) (auto simp: extract_audio_def)
qed

lemma create_split_screen_clip_shape:
  assumes "create_split_screen_clip bn data w = (r, w')"
  shows "(w' = w \<and> ((\<exists>m. r = Inr (Json 400 (err_json m))) \<or> (\<exists>e. r = Inl e)))
       \<or> (\<exists>g. out_path g = tmp_path (next_uuid w) ''.mp4'' \<and>
            (r, w') = run_and_upload ''clipUrl'' g (tmp_path (next_uuid w) ''.mp4'') bn
                        (w\<lparr>draws := Suc (draws w)\<rparr>))"
proof (cases "\<exists>kvs ps e s. data = PDict kvs \<and> params_of kvs = PDict ps
    \<and> py_all [field ps ''podcast_url'', field ps ''gameplay_url'', field ps ''start_time'', field ps ''end_time'']
    \<and> py_float (field ps ''end_time'') = Inr e \<and> py_float (field ps ''start_time'') = Inr s")
  case True
  then obtain kvs ps e s where d: "data = PDict kvs" and p: "params_of kvs = PDict ps"
    and a: "py_all [field ps ''podcast_url'', field ps ''gameplay_url'', field ps ''start_time'', field ps ''end_time'']"
    and fe: "py_float (field ps ''end_time'') = Inr e" and fs: "py_float (field ps ''start_time'') = Inr s"
    by blast
  have "\<exists>g. out_path g = tmp_path (next_uuid w) ''.mp4'' \<and>
          (r, w') = run_and_upload ''clipUrl'' g (tmp_path (next_uuid w) ''.mp4'') bn
                      (w\<lparr>draws := Suc (draws w)\<rparr>)"
    by (rule exI [where x = "split_screen_graph (field ps ''podcast_url'') (field ps ''gameplay_url'')
                               (field ps ''bgm_url'') (field ps ''start_time'') (fsub e s) (tmp_path (next_uuid w) ''.mp4'')"])
       (use assms d p a fe fs in \<open>simp add: create_split_screen_clip_def Let_def del: py_all.simps\<close>)
  then show ?thesis ..
next
  case False
  with assms show ?thesis
    by (cases data; cases "params_of (case data of PDict kvs \<Rightarrow> kvs | _ \<Rightarrow> [])")
       (auto simp: create_split_screen_clip_def split: sum.splits if_splits)
qed

lemma dispatch_shape:
  assumes "dispatch bn data w = (r, w')"
  shows "(w' = w \<and> ((\<exists>m. r = Inr (Json 400 (err_json m))) \<or> (\<exists>e. r = Inl e)))
       \<or> (\<exists>k g ext. url_key_ext k ext \<and> out_path g = tmp_path (next_uuid w) ext \<and>
            (r, w') = run_and_upload k g (tmp_path (next_uuid w) ext) bn (w\<lparr>draws := Suc (draws w)\<rparr>))"
proof (cases data)
  case (PDict kvs)
  consider (ea) "py_eq_str (field kvs ''operation'') ''extract_audio''"
    | (ss) "\<not> py_eq_str (field kvs ''operation'') ''extract_audio''"
           "py_eq_str (field kvs ''operation'') ''create_split_screen_clip''"
    | (other) "\<not> py_eq_str (field kvs ''operation'') ''extract_audio''"
           "\<not> py_eq_str (field kvs ''operation'') ''create_split_screen_clip''"
    by blast
  then show ?thesis
  proof cases
    case ea
    with assms PDict have "extract_audio bn data w = (r, w')" by (simp add: dispatch_def)
    from extract_audio_shape [OF this] show ?thesis
    proof (elim disjE exE conjE)
      fix g assume "out_path g = tmp_path (next_uuid w) ''.mp3''"
        and "(r, w') = run_and_upload ''audioUrl'' g (tmp_path (next_uuid w) ''.mp3'') bn
                         (w\<lparr>draws := Suc (draws w)\<rparr>)"
      then show ?thesis
        by (intro disjI2 exI [where x = "''audioUrl''"] exI [where x = g] exI [where x = "''.mp3''"]) (simp add: url_key_ext_def)
    qed (rule disjI1; force)+
  next
    case ss
    with assms PDict have "create_split_screen_clip bn data w = (r, w')" by (simp add: dispatch_def)
    from create_split_screen_clip_shape [OF this] show ?thesis
    proof (elim disjE exE conjE)
      fix g assume "out_path g = tmp_path (next_uuid w) ''.mp4''"
        and "(r, w') = run_and_upload ''clipUrl'' g (tmp_path (next_uuid w) ''.mp4'') bn
                         (w\<lparr>draws := Suc (draws w)\<rparr>)"
      then show ?thesis
        by (intro disjI2 exI [where x = "''clipUrl''"] exI [where x = g] exI [where x = "''.mp4''"]) (simp add: url_key_ext_def)
    qed (rule disjI1; force)+
  next
    case other
    with assms PDict show ?thesis by (auto simp: dispatch_def)
  qed
qed (use assms in \<open>auto simp: dispatch_def dict_get.simps\<close>)

lemma process_video_shape:
  assumes "process_video bn req w = (r, w')"
  shows "(w' = w \<and> ((\<exists>c. r = Abort c) \<or> (\<exists>m. r = Json 400 (err_json m)) \<or> (\<exists>e. r = Crash e)))
       \<or> (\<exists>k g ext. url_key_ext k ext \<and> out_path g = tmp_path (next_uuid w) ext \<and>
            (Inr r, w') = run_and_upload k g (tmp_path (next_uuid w) ext) bn (w\<lparr>draws := Suc (draws w)\<rparr>))"
proof (cases "get_json req")
  case (Inl c)
  with assms have "r = Abort c" and "w' = w" by (simp_all add: process_video_def)
  then show ?thesis by blast
next
  case (Inr data)
  obtain d w'' where dw: "dispatch bn data w = (d, w'')" by fastforce
  with assms Inr have rw: "(r, w') = (case d of Inl e \<Rightarrow> Crash e | Inr x \<Rightarrow> x, w'')"
    by (auto simp: process_video_def split: sum.splits)
  from dispatch_shape [OF dw] show ?thesis
  proof
    assume "w'' = w \<and> ((\<exists>m. d = Inr (Json 400 (err_json m))) \<or> (\<exists>e. d = Inl e))"
    with rw show ?thesis by auto
  next
    assume "\<exists>k g ext. url_key_ext k ext \<and> out_path g = tmp_path (next_uuid w) ext \<and>
            (d, w'') = run_and_upload k g (tmp_path (next_uuid w) ext) bn (w\<lparr>draws := Suc (draws w)\<rparr>)"
    then obtain k g ext where ext: "url_key_ext k ext" and g: "out_path g = tmp_path (next_uuid w) ext"
      and ru: "(d, w'') = run_and_upload k g (tmp_path (next_uuid w) ext) bn (w\<lparr>draws := Suc (draws w)\<rparr>)"
      by blast
    have "never_raises (run_and_upload k g (tmp_path (next_uuid w) ext) bn) (w\<lparr>draws := Suc (draws w)\<rparr>)"
      by (rule run_and_upload_never_raises)
    with ru [symmetric] have "\<exists>x. d = Inr x"
      by (cases d) (simp_all add: never_raises_def)
    then obtain x where dx: "d = Inr x" by blast
    with rw ru have "(Inr r, w') = run_and_upload k g (tmp_path (next_uuid w) ext) bn (w\<lparr>draws := Suc (draws w)\<rparr>)"
      by simp
    with g ext show ?thesis by blast
  qed
qed

lemma run_and_upload_200:
  assumes "run_and_upload k g p bn w = (Inr (Json 200 x), w')" and "out_path g = p"
  shows "\<exists>bk. bn = Some bk \<and> (bk, basename p) \<in> dom (objects w') \<and> fs w' p = None
           \<and> x = PDict [(k, PStr (public_url bn (basename p)))]"
  using assms
  by (auto simp: run_and_upload_def ffmpeg_run_def upload_to_gcs_def upload_from_filename_def
      os_remove_def Let_def ffmpeg_error_response_def
      split: ff_outcome.splits option.splits gcs_outcome.splits if_splits)

lemma process_video_effect:
  assumes "process_video bn req w = (r, w')"
  shows "w' = w \<or> (\<exists>ext. (ext = ''.mp3'' \<or> ext = ''.mp4'') \<and>
           frame_at (tmp_path (next_uuid w) ext) bn w w' \<and> draws w' = Suc (draws w))"
proof (cases "w' = w")
  case False
  with process_video_shape [OF assms] obtain k g ext where
    ext: "ext = ''.mp3'' \<or> ext = ''.mp4''" and g: "out_path g = tmp_path (next_uuid w) ext"
    and ru: "run_and_upload k g (tmp_path (next_uuid w) ext) bn (w\<lparr>draws := Suc (draws w)\<rparr>) = (Inr r, w')"
    by (metis (no_types, lifting) url_key_ext_ext)
  from run_and_upload_frame [OF ru g]
  have "frame_at (tmp_path (next_uuid w) ext) bn (w\<lparr>draws := Suc (draws w)\<rparr>) w'"
    and "draws w' = Suc (draws w)" by simp_all
  then have "frame_at (tmp_path (next_uuid w) ext) bn w w'"
    by (simp add: frame_at_def)
  with ext \<open>draws w' = Suc (draws w)\<close> show ?thesis by blast
qed simp

lemma dispatch_result:
  assumes "dispatch bn data w = (d, w')"
  shows "(\<exists>e. d = Inl e) \<or> (\<exists>m. d = Inr (Json 400 (err_json m)))
         \<or> (\<exists>x. d = Inr (Json 200 x)) \<or> (\<exists>m. d = Inr (Json 500 (err_json m)))"
proof (cases "\<exists>k g p w1. run_and_upload k g p bn w1 = (d, w')")
  case True
  then obtain k g p w1 where "run_and_upload k g p bn w1 = (d, w')" by blast
  from run_and_upload_result [OF this] show ?thesis by blast
next
  case False
  with dispatch_shape [OF assms] show ?thesis by (metis (no_types, lifting))
qed

lemma run_and_upload_no_bucket:
  assumes "run_and_upload k g p None w = (Inr r, w')"
  shows "(\<exists>m. r = Json 500 (err_json m)) \<and> objects w' = objects w"
  using assms
  by (auto simp: run_and_upload_def ffmpeg_run_def upload_to_gcs_def upload_from_filename_def
      Let_def ffmpeg_error_response_def split: ff_outcome.splits option.splits)

subsection \<open>Properties of the handler\<close>

text \<open>C4. A dict body whose \<^verbatim>\<open>operation\<close> is neither \<^verbatim>\<open>extract_audio\<close> nor
  \<^verbatim>\<open>create_split_screen_clip\<close> (absent included) is answered 400 with the invalid-operation
  message, and the world is untouched: no tool run, no upload, no uuid drawn.\<close>

theorem invalid_operation_rejected:
  assumes "\<not> py_eq_str (field kvs ''operation'') ''extract_audio''"
    and "\<not> py_eq_str (field kvs ''operation'') ''create_split_screen_clip''"
  shows "process_video bn (json_req kvs) w = (Json 400 (err_json invalid_operation_msg), w)"
  using assms by (simp add: process_video_json_req dispatch_def)

theorem invalid_operation_rejected_witness:
  "process_video None (json_req [(''operation'', PStr ''transcode'')]) (demo_world (FfDone []) GcsOk)
     = (Json 400 (err_json invalid_operation_msg), demo_world (FfDone []) GcsOk)"
  by (rule invalid_operation_rejected) (simp_all add: field_def py_eq_str_def)

text \<open>C5. An \<^verbatim>\<open>extract_audio\<close> request whose \<^verbatim>\<open>videoUrl\<close> is falsy (absent, null,
  empty) is answered 400 with the missing-videoUrl message and has no effect.\<close>

theorem extract_audio_missing_url_rejected:
  assumes "py_eq_str (field kvs ''operation'') ''extract_audio''"
    and "\<not> py_truthy (field kvs ''videoUrl'')"
  shows "process_video bn (json_req kvs) w = (Json 400 (err_json missing_video_url_msg), w)"
  using assms by (simp add: process_video_json_req dispatch_def extract_audio_def)

theorem extract_audio_missing_url_rejected_witness:
  "process_video None (json_req [(''operation'', PStr ''extract_audio''), (''videoUrl'', PStr [])])
     (demo_world (FfDone []) GcsOk)
   = (Json 400 (err_json missing_video_url_msg), demo_world (FfDone []) GcsOk)"
  by (rule extract_audio_missing_url_rejected) (simp_all add: field_def py_eq_str_def)

text \<open>C1. A well-formed \<^verbatim>\<open>extract_audio\<close> request whose pipeline run and upload
  succeed draws one uuid, runs the audio pipeline on the temporary path
  \<^verbatim>\<open>/tmp/<uuid>.mp3\<close>, stores the output in the bucket as \<^verbatim>\<open><uuid>.mp3\<close>, removes the
  temporary file, and answers 200 with that object's public URL under \<^verbatim>\<open>audioUrl\<close>;
  the calls are exactly the run, the upload and the removal, in that order.\<close>

theorem extract_audio_success:
  fixes w :: world and kvs :: "(string \<times> pyval) list"
  defines "p \<equiv> tmp_path (next_uuid w) ''.mp3''"
  defines "g \<equiv> extract_audio_graph (field kvs ''videoUrl'') p"
  assumes "py_eq_str (field kvs ''operation'') ''extract_audio''"
    and "py_truthy (field kvs ''videoUrl'')"
    and "ffmpeg_env w (length (calls w)) g = FfDone b"
    and "gcs_env w (Suc (length (calls w))) bk (next_uuid w @ ''.mp3'') b = GcsOk"
  shows "process_video (Some bk) (json_req kvs) w =
     (Json 200 (PDict [(''audioUrl'', PStr (public_url (Some bk) (next_uuid w @ ''.mp3'')))]),
      w\<lparr>draws := Suc (draws w), fs := (fs w)(p := None),
        objects := (objects w)((bk, next_uuid w @ ''.mp3'') \<mapsto> b),
        calls := calls w @ [CallFfmpeg g, CallUpload bk (next_uuid w @ ''.mp3''), CallRemove p]\<rparr>)"
proof -
  let ?w1 = "w\<lparr>draws := Suc (draws w)\<rparr>"
  have bn: "basename p = next_uuid w @ ''.mp3''"
    by (simp add: p_def basename_tmp_next_uuid)
  have "run_and_upload ''audioUrl'' g p (Some bk) ?w1 =
         (Inr (Json 200 (PDict [(''audioUrl'', PStr (public_url (Some bk) (basename p)))])),
          ?w1\<lparr>fs := (fs ?w1)(p := None), objects := (objects ?w1)((bk, basename p) \<mapsto> b),
            calls := calls ?w1 @ [CallFfmpeg g, CallUpload bk (basename p), CallRemove p]\<rparr>)"
    by (rule run_and_upload_ok) (use assms bn in \<open>simp_all add: g_def\<close>)
  with assms(3,4) show ?thesis
    by (simp add: process_video_json_req dispatch_def extract_audio_def bn Let_def
        flip: p_def g_def)
qed

theorem extract_audio_success_witness:
  "fst (process_video (Some ''bkt'')
     (json_req [(''operation'', PStr ''extract_audio''), (''videoUrl'', PStr ''https://example.com/v.mp4'')])
     (demo_world (FfDone [7]) GcsOk))
   = Json 200 (PDict [(''audioUrl'',
       PStr (public_url (Some ''bkt'') (next_uuid (demo_world (FfDone [7]) GcsOk) @ ''.mp3'')))])"
  by (subst extract_audio_success [where b = "[7]"])
     (simp_all add: field_def py_eq_str_def demo_world_def)

text \<open>C3. A well-formed \<^verbatim>\<open>create_split_screen_clip\<close> request (the four required
  fields truthy, both times accepted by \<^verbatim>\<open>float()\<close>) whose run and upload succeed runs the
  split-screen pipeline built with duration \<open>float(end_time) - float(start_time)\<close> on
  \<^verbatim>\<open>/tmp/<uuid>.mp4\<close>, stores the output as \<^verbatim>\<open><uuid>.mp4\<close>, removes the temporary file
  and answers 200 with the public URL under \<^verbatim>\<open>clipUrl\<close>.\<close>

theorem split_screen_success:
  fixes w :: world and kvs ps :: "(string \<times> pyval) list" and e s :: pyfloat
  defines "p \<equiv> tmp_path (next_uuid w) ''.mp4''"
  defines "g \<equiv> split_screen_graph (field ps ''podcast_url'') (field ps ''gameplay_url'')
                 (field ps ''bgm_url'') (field ps ''start_time'') (fsub e s) p"
  assumes "py_eq_str (field kvs ''operation'') ''create_split_screen_clip''"
    and "params_of kvs = PDict ps"
    and "py_all [field ps ''podcast_url'', field ps ''gameplay_url'', field ps ''start_time'', field ps ''end_time'']"
    and "py_float (field ps ''end_time'') = Inr e" and "py_float (field ps ''start_time'') = Inr s"
    and "ffmpeg_env w (length (calls w)) g = FfDone b"
    and "gcs_env w (Suc (length (calls w))) bk (next_uuid w @ ''.mp4'') b = GcsOk"
  shows "process_video (Some bk) (json_req kvs) w =
     (Json 200 (PDict [(''clipUrl'', PStr (public_url (Some bk) (next_uuid w @ ''.mp4'')))]),
      w\<lparr>draws := Suc (draws w), fs := (fs w)(p := None),
        objects := (objects w)((bk, next_uuid w @ ''.mp4'') \<mapsto> b),
        calls := calls w @ [CallFfmpeg g, CallUpload bk (next_uuid w @ ''.mp4''), CallRemove p]\<rparr>)"
proof -
  let ?w1 = "w\<lparr>draws := Suc (draws w)\<rparr>"
  have bn: "basename p = next_uuid w @ ''.mp4''"
    by (simp add: p_def basename_tmp_next_uuid)
  have "run_and_upload ''clipUrl'' g p (Some bk) ?w1 =
         (Inr (Json 200 (PDict [(''clipUrl'', PStr (public_url (Some bk) (basename p)))])),
          ?w1\<lparr>fs := (fs ?w1)(p := None), objects := (objects ?w1)((bk, basename p) \<mapsto> b),
            calls := calls ?w1 @ [CallFfmpeg g, CallUpload bk (basename p), CallRemove p]\<rparr>)"
    by (rule run_and_upload_ok) (use assms bn in \<open>simp_all add: g_def\<close>)
  with assms(3-7) show ?thesis
    by (simp add: process_video_json_req dispatch_def create_split_screen_clip_def bn Let_def py_eq_str_def
        flip: p_def g_def del: py_all.simps)
qed

theorem split_screen_success_witness:
  "fst (process_video (Some ''bkt'')
     (json_req [(''operation'', PStr ''create_split_screen_clip''),
                (''params'', PDict [(''podcast_url'', PStr ''a''), (''gameplay_url'', PStr ''b''),
                                   (''start_time'', PInt 10), (''end_time'', PInt 25)])])
     (demo_world (FfDone [7]) GcsOk))
   = Json 200 (PDict [(''clipUrl'',
       PStr (public_url (Some ''bkt'') (next_uuid (demo_world (FfDone [7]) GcsOk) @ ''.mp4'')))])"
  by (subst split_screen_success [where b = "[7]" and e = "Fin 25" and s = "Fin 10" and
        ps = "[(''podcast_url'', PStr ''a''), (''gameplay_url'', PStr ''b''),
               (''start_time'', PInt 10), (''end_time'', PInt 25)]"])
     (simp_all add: field_def params_of_def py_eq_str_def demo_world_def float_overflow_bound_def)

text \<open>C2. Every request answered without reaching the protected block leaves the world
  exactly as it was: a Flask abort (415, 400), a 400 validation answer, or an exception
  escaping the handler performs no tool run, no upload, no file change and draws no
  uuid.\<close>

theorem rejected_requests_have_no_effect:
  assumes "process_video bn req w = (r, w')"
    and "(\<exists>c. r = Abort c) \<or> (\<exists>m. r = Json 400 (err_json m)) \<or> (\<exists>e. r = Crash e)"
  shows "w' = w"
proof -
  from process_video_shape [OF assms(1)] show ?thesis
  proof
    assume "w' = w \<and> ((\<exists>c. r = Abort c) \<or> (\<exists>m. r = Json 400 (err_json m)) \<or> (\<exists>e. r = Crash e))"
    then show ?thesis by blast
  next
    assume "\<exists>k g ext. url_key_ext k ext \<and> out_path g = tmp_path (next_uuid w) ext \<and>
            (Inr r, w') = run_and_upload k g (tmp_path (next_uuid w) ext) bn (w\<lparr>draws := Suc (draws w)\<rparr>)"
    then obtain k g p w1 where "run_and_upload k g p bn w1 = (Inr r, w')" by metis
    from run_and_upload_result [OF this] assms(2) show ?thesis
      by (auto simp: err_json_def)
  qed
qed

theorem rejected_requests_have_no_effect_witness:
  "snd (process_video None (HttpRequest False None) (demo_world (FfDone []) GcsOk))
     = demo_world (FfDone []) GcsOk"
proof -
  have "process_video None (HttpRequest False None) (demo_world (FfDone []) GcsOk)
          = (Abort 415, demo_world (FfDone []) GcsOk)"
    by (simp add: process_video_def)
  moreover have "\<exists>c. Abort 415 = Abort c" by blast
  ultimately show ?thesis
    using rejected_requests_have_no_effect [of None "HttpRequest False None"
            "demo_world (FfDone []) GcsOk" "Abort 415" "demo_world (FfDone []) GcsOk"]
    by simp
qed

text \<open>C6. A split-screen request in which one of \<^verbatim>\<open>podcast_url\<close>,
  \<^verbatim>\<open>gameplay_url\<close>, \<^verbatim>\<open>start_time\<close>, \<^verbatim>\<open>end_time\<close> is falsy is answered 400 with the
  missing-parameters message and has no effect.\<close>

theorem split_screen_missing_params_rejected:
  assumes "py_eq_str (field kvs ''operation'') ''create_split_screen_clip''"
    and "params_of kvs = PDict ps"
    and "\<not> py_all [field ps ''podcast_url'', field ps ''gameplay_url'', field ps ''start_time'', field ps ''end_time'']"
  shows "process_video bn (json_req kvs) w = (Json 400 (err_json missing_params_msg), w)"
  using assms
  by (simp add: process_video_json_req dispatch_def create_split_screen_clip_def py_eq_str_def
      del: py_all.simps)

theorem split_screen_missing_params_rejected_witness:
  "process_video None
     (json_req [(''operation'', PStr ''create_split_screen_clip''),
                (''params'', PDict [(''podcast_url'', PStr ''a''), (''start_time'', PInt 10),
                                   (''end_time'', PInt 25)])])
     (demo_world (FfDone []) GcsOk)
   = (Json 400 (err_json missing_params_msg), demo_world (FfDone []) GcsOk)"
  by (rule split_screen_missing_params_rejected
        [where ps = "[(''podcast_url'', PStr ''a''), (''start_time'', PInt 10), (''end_time'', PInt 25)]"])
     (simp_all add: field_def params_of_def py_eq_str_def)

text \<open>C9. A split-screen request whose \<^verbatim>\<open>start_time\<close> is the number 0 is rejected
  as if the field were missing (400, no effect), whatever the other fields hold: the
  presence check is Python's truth test, and 0 is false.\<close>

theorem start_time_zero_rejected:
  assumes "py_eq_str (field kvs ''operation'') ''create_split_screen_clip''"
    and "params_of kvs = PDict ps"
    and "field ps ''start_time'' = PInt 0"
  shows "process_video bn (json_req kvs) w = (Json 400 (err_json missing_params_msg), w)"
  using assms
  by (simp add: process_video_json_req dispatch_def create_split_screen_clip_def py_eq_str_def)

theorem start_time_zero_rejected_witness:
  "process_video (Some ''bkt'')
     (json_req [(''operation'', PStr ''create_split_screen_clip''),
                (''params'', PDict [(''podcast_url'', PStr ''a''), (''gameplay_url'', PStr ''b''),
                                   (''start_time'', PInt 0), (''end_time'', PInt 15)])])
     (demo_world (FfDone [7]) GcsOk)
   = (Json 400 (err_json missing_params_msg), demo_world (FfDone [7]) GcsOk)"
  by (rule start_time_zero_rejected
        [where ps = "[(''podcast_url'', PStr ''a''), (''gameplay_url'', PStr ''b''),
                      (''start_time'', PInt 0), (''end_time'', PInt 15)]"])
     (simp_all add: field_def params_of_def py_eq_str_def)

text \<open>C10. When the four required fields are truthy but \<^verbatim>\<open>float()\<close> rejects the end
  time, or accepts it and rejects the start time, the exception escapes the handler
  (it is raised before the \<^verbatim>\<open>try\<close>): the answer is the framework's 500 page, not the
  JSON error body, and nothing else happens.\<close>

theorem unparsable_time_escapes:
  assumes "py_eq_str (field kvs ''operation'') ''create_split_screen_clip''"
    and "params_of kvs = PDict ps"
    and "py_all [field ps ''podcast_url'', field ps ''gameplay_url'', field ps ''start_time'', field ps ''end_time'']"
    and "py_float (field ps ''end_time'') = Inl ex \<or>
         (\<exists>e. py_float (field ps ''end_time'') = Inr e \<and> py_float (field ps ''start_time'') = Inl ex)"
  shows "process_video bn (json_req kvs) w = (Crash ex, w)"
  using assms
  by (auto simp: process_video_json_req dispatch_def create_split_screen_clip_def py_eq_str_def
      simp del: py_all.simps)

theorem unparsable_time_escapes_witness:
  "process_video (Some ''bkt'')
     (json_req [(''operation'', PStr ''create_split_screen_clip''),
                (''params'', PDict [(''podcast_url'', PStr ''a''), (''gameplay_url'', PStr ''b''),
                                   (''start_time'', PStr ''0:10''), (''end_time'', PInt 25)])])
     (demo_world (FfDone [7]) GcsOk)
   = (Crash (PyExc ValueError (''could not convert string to float: '' @ quoted ''0:10'')),
      demo_world (FfDone [7]) GcsOk)"
  by (rule unparsable_time_escapes
        [where ps = "[(''podcast_url'', PStr ''a''), (''gameplay_url'', PStr ''b''),
                      (''start_time'', PStr ''0:10''), (''end_time'', PInt 25)]"])
     (simp_all add: field_def params_of_def py_eq_str_def float_overflow_bound_def
        parse_float_str_def py_strip_def py_isspace_def ascii_lower_def parse_unsigned_def
        parse_mantissa_def is_digit_def digit_val_def parse_exponent_def)

text \<open>C7. When the audio pipeline exits with an error, the answer is 500 with
  \<^verbatim>\<open>"FFmpeg error: ffmpeg error (see stderr output for detail)"\<close>; the run is the only
  external call (no upload), and a partial output file the tool may have written stays
  on disk.\<close>

theorem pipeline_failure_reported:
  fixes w :: world and kvs :: "(string \<times> pyval) list"
  defines "p \<equiv> tmp_path (next_uuid w) ''.mp3''"
  defines "g \<equiv> extract_audio_graph (field kvs ''videoUrl'') p"
  assumes "py_eq_str (field kvs ''operation'') ''extract_audio''"
    and "py_truthy (field kvs ''videoUrl'')"
    and "ffmpeg_env w (length (calls w)) g = FfExitErr partial"
  shows "process_video bn (json_req kvs) w =
     (Json 500 (err_json (''FFmpeg error: '' @ ffmpeg_error_msg)),
      w\<lparr>draws := Suc (draws w), calls := calls w @ [CallFfmpeg g],
        fs := (case partial of None \<Rightarrow> fs w | Some b \<Rightarrow> (fs w)(p \<mapsto> b))\<rparr>)"
  using assms(3-5) unfolding p_def g_def
  by (cases partial)
     (simp_all add: process_video_json_req dispatch_def extract_audio_def run_and_upload_def
      ffmpeg_run_def ffmpeg_error_response_def log_call_def Let_def)

theorem pipeline_failure_reported_witness:
  "fst (process_video (Some ''bkt'')
     (json_req [(''operation'', PStr ''extract_audio''), (''videoUrl'', PStr ''https://example.com/v.mp4'')])
     (demo_world (FfExitErr None) GcsOk))
   = Json 500 (err_json (''FFmpeg error: '' @ ffmpeg_error_msg))"
  by (subst pipeline_failure_reported [where partial = None])
     (simp_all add: field_def py_eq_str_def demo_world_def)

text \<open>C8. When the pipeline succeeds but the storage service refuses the upload, the
  answer is 500 with the service's message after \<^verbatim>\<open>"FFmpeg error: "\<close>, no object is
  stored, and the temporary file is left on disk: cleanup happens only on success.\<close>

theorem upload_failure_leaks_temp_file:
  fixes w :: world and kvs :: "(string \<times> pyval) list"
  defines "p \<equiv> tmp_path (next_uuid w) ''.mp3''"
  defines "g \<equiv> extract_audio_graph (field kvs ''videoUrl'') p"
  assumes "py_eq_str (field kvs ''operation'') ''extract_audio''"
    and "py_truthy (field kvs ''videoUrl'')"
    and "ffmpeg_env w (length (calls w)) g = FfDone b"
    and "gcs_env w (Suc (length (calls w))) bk (next_uuid w @ ''.mp3'') b = GcsFail msg"
    and "process_video (Some bk) (json_req kvs) w = (r, w')"
  shows "r = Json 500 (err_json (''FFmpeg error: '' @ msg)) \<and> fs w' p = Some b
         \<and> objects w' = objects w"
  using assms(3-7) unfolding p_def g_def
  by (auto simp: process_video_json_req dispatch_def extract_audio_def run_and_upload_def
      ffmpeg_run_def ffmpeg_error_response_def log_call_def Let_def upload_to_gcs_def
      upload_from_filename_def basename_tmp_next_uuid)

theorem upload_failure_leaks_temp_file_witness:
  "fs (snd (process_video (Some ''bkt'')
     (json_req [(''operation'', PStr ''extract_audio''), (''videoUrl'', PStr ''https://example.com/v.mp4'')])
     (demo_world (FfDone [7]) (GcsFail ''503 Service Unavailable''))))
     (tmp_path (next_uuid (demo_world (FfDone [7]) (GcsFail ''503 Service Unavailable''))) ''.mp3'')
   = Some [7]"
  using upload_failure_leaks_temp_file
    [where w = "demo_world (FfDone [7]) (GcsFail ''503 Service Unavailable'')"
       and kvs = "[(''operation'', PStr ''extract_audio''), (''videoUrl'', PStr ''https://example.com/v.mp4'')]"
       and b = "[7]" and bk = "''bkt''" and msg = "''503 Service Unavailable''"]
  by (simp add: field_def py_eq_str_def demo_world_def prod_eq_iff)

text \<open>C11. Any request changes at most one stored object and never removes one, changes
  the local file system at one path at most, only appends to the call log, and draws at
  most one uuid.\<close>

theorem request_frame:
  assumes "process_video bn req w = (r, w')"
  shows "dom (objects w) \<subseteq> dom (objects w')
         \<and> (\<exists>key. \<forall>key'. key' \<noteq> key \<longrightarrow> objects w' key' = objects w key')
         \<and> (\<exists>p. \<forall>q. q \<noteq> p \<longrightarrow> fs w' q = fs w q)
         \<and> (\<exists>cs. calls w' = calls w @ cs)
         \<and> draws w' \<le> Suc (draws w)"
  using process_video_effect [OF assms]
proof
  assume "w' = w"
  then show ?thesis
    by (intro conjI exI [where x = "[]"] exI [where x = "undefined"]) simp_all
next
  assume "\<exists>ext. (ext = ''.mp3'' \<or> ext = ''.mp4'') \<and>
           frame_at (tmp_path (next_uuid w) ext) bn w w' \<and> draws w' = Suc (draws w)"
  then obtain p where f: "frame_at p bn w w'" and d: "draws w' = Suc (draws w)" by blast
  from f have o: "\<forall>key'. key' \<noteq> (the bn, basename p) \<longrightarrow> objects w' key' = objects w key'"
    and q: "\<forall>q. q \<noteq> p \<longrightarrow> fs w' q = fs w q"
    and m: "dom (objects w) \<subseteq> dom (objects w')" and c: "\<exists>cs. calls w' = calls w @ cs"
    unfolding frame_at_def by blast+
  show ?thesis
  proof (intro conjI)
    show "\<exists>key. \<forall>key'. key' \<noteq> key \<longrightarrow> objects w' key' = objects w key'"
      by (rule exI [where x = "(the bn, basename p)"]) (rule o)
    show "\<exists>p. \<forall>q. q \<noteq> p \<longrightarrow> fs w' q = fs w q"
      by (rule exI [where x = p]) (rule q)
  qed (use m c d in simp_all)
qed

theorem request_frame_witness:
  "dom (objects (demo_world (FfDone []) GcsOk))
     \<subseteq> dom (objects (snd (process_video None (HttpRequest False None) (demo_world (FfDone []) GcsOk))))"
  using request_frame [of None "HttpRequest False None" "demo_world (FfDone []) GcsOk"
     "fst (process_video None (HttpRequest False None) (demo_world (FfDone []) GcsOk))"
     "snd (process_video None (HttpRequest False None) (demo_world (FfDone []) GcsOk))"]
  by simp

text \<open>C12. A 200 answer carries exactly one URL, the public URL of an object that the
  request stored in the configured bucket under \<^verbatim>\<open><uuid>.mp3\<close> or \<^verbatim>\<open><uuid>.mp4\<close>, and the
  temporary file of that name is gone.\<close>

theorem success_url_names_stored_object:
  assumes "process_video bn req w = (Json 200 body, w')"
  shows "\<exists>bk ext k. bn = Some bk \<and> (ext = ''.mp3'' \<or> ext = ''.mp4'')
           \<and> body = PDict [(k, PStr (public_url bn (next_uuid w @ ext)))]
           \<and> (bk, next_uuid w @ ext) \<in> dom (objects w')
           \<and> fs w' (tmp_path (next_uuid w) ext) = None"
proof -
  have "\<not> (w' = w \<and> ((\<exists>c. Json 200 body = Abort c) \<or> (\<exists>m. Json 200 body = Json 400 (err_json m))
           \<or> (\<exists>e. Json 200 body = Crash e)))"
    by simp
  with process_video_shape [OF assms] obtain k g ext where
    ext: "ext = ''.mp3'' \<or> ext = ''.mp4''" and g: "out_path g = tmp_path (next_uuid w) ext"
    and ru: "(Inr (Json 200 body), w') =
               run_and_upload k g (tmp_path (next_uuid w) ext) bn (w\<lparr>draws := Suc (draws w)\<rparr>)"
    by (blast dest: url_key_ext_ext)
  have bn: "basename (tmp_path (next_uuid w) ext) = next_uuid w @ ext"
    using ext by (auto simp: basename_tmp_next_uuid)
  from run_and_upload_200 [OF ru [symmetric] g] obtain bk where
    "bn = Some bk" "(bk, basename (tmp_path (next_uuid w) ext)) \<in> dom (objects w')"
    "fs w' (tmp_path (next_uuid w) ext) = None"
    "body = PDict [(k, PStr (public_url bn (basename (tmp_path (next_uuid w) ext))))]"
    by blast
  with ext bn show ?thesis
    by (intro exI [where x = bk] exI [where x = ext] exI [where x = k]) simp
qed

theorem success_url_names_stored_object_witness:
  "\<exists>bk ext k. Some ''bkt'' = Some bk \<and> (ext = ''.mp3'' \<or> ext = ''.mp4'')
     \<and> PDict [(''audioUrl'', PStr (public_url (Some ''bkt'') (next_uuid (demo_world (FfDone [7]) GcsOk) @ ''.mp3'')))]
         = PDict [(k, PStr (public_url (Some ''bkt'') (next_uuid (demo_world (FfDone [7]) GcsOk) @ ext)))]
     \<and> (bk, next_uuid (demo_world (FfDone [7]) GcsOk) @ ext)
         \<in> dom (objects (snd (process_video (Some ''bkt'')
              (json_req [(''operation'', PStr ''extract_audio''), (''videoUrl'', PStr ''v.mp4'')])
              (demo_world (FfDone [7]) GcsOk))))
     \<and> fs (snd (process_video (Some ''bkt'')
              (json_req [(''operation'', PStr ''extract_audio''), (''videoUrl'', PStr ''v.mp4'')])
              (demo_world (FfDone [7]) GcsOk)))
          (tmp_path (next_uuid (demo_world (FfDone [7]) GcsOk)) ext) = None"
proof -
  let ?w = "demo_world (FfDone [7]) GcsOk"
  let ?req = "json_req [(''operation'', PStr ''extract_audio''), (''videoUrl'', PStr ''v.mp4'')]"
  have "process_video (Some ''bkt'') ?req ?w =
          (Json 200 (PDict [(''audioUrl'', PStr (public_url (Some ''bkt'') (next_uuid ?w @ ''.mp3'')))]),
           snd (process_video (Some ''bkt'') ?req ?w))"
    by (simp add: process_video_json_req dispatch_def extract_audio_def run_and_upload_def
        ffmpeg_run_def upload_to_gcs_def upload_from_filename_def os_remove_def log_call_def
        Let_def field_def py_eq_str_def demo_world_def)
  then show ?thesis by (rule success_url_names_stored_object)
qed

text \<open>C17. Every JSON answer has the shape the spec's interface promises: a 200 answer is
  \<^verbatim>\<open>{"audioUrl": url}\<close> with the URL of a \<^verbatim>\<open>.mp3\<close> object or \<^verbatim>\<open>{"clipUrl": url}\<close>
  with the URL of a \<^verbatim>\<open>.mp4\<close> object, named after the uuid the request drew; every
  other JSON answer is 400 or 500 with the body \<^verbatim>\<open>{"error": message}\<close>.\<close>

theorem json_response_shape:
  assumes "process_video bn req w = (Json c body, w')"
  shows "(c = 200 \<and> (\<exists>k ext. url_key_ext k ext
            \<and> body = PDict [(k, PStr (public_url bn (next_uuid w @ ext)))]))
         \<or> ((c = 400 \<or> c = 500) \<and> (\<exists>m. body = err_json m))"
  using process_video_shape [OF assms]
proof
  assume "\<exists>k g ext. url_key_ext k ext \<and> out_path g = tmp_path (next_uuid w) ext \<and>
            (Inr (Json c body), w') = run_and_upload k g (tmp_path (next_uuid w) ext) bn
               (w\<lparr>draws := Suc (draws w)\<rparr>)"
  then obtain k g ext where ke: "url_key_ext k ext"
    and ru: "run_and_upload k g (tmp_path (next_uuid w) ext) bn (w\<lparr>draws := Suc (draws w)\<rparr>)
               = (Inr (Json c body), w')"
    by metis
  have "basename (tmp_path (next_uuid w) ext) = next_uuid w @ ext"
    using url_key_ext_ext [OF ke] by auto
  with run_and_upload_result [OF ru] ke show ?thesis by auto
qed auto

theorem json_response_shape_witness:
  "(400 = (200::nat) \<and> (\<exists>k ext. url_key_ext k ext
       \<and> err_json invalid_operation_msg
           = PDict [(k, PStr (public_url None (next_uuid (demo_world (FfDone []) GcsOk) @ ext)))]))
   \<or> ((400 = (400::nat) \<or> 400 = (500::nat)) \<and> (\<exists>m. err_json invalid_operation_msg = err_json m))"
proof (rule json_response_shape)
  show "process_video None (json_req [(''operation'', PStr ''transcode'')]) (demo_world (FfDone []) GcsOk)
          = (Json 400 (err_json invalid_operation_msg), demo_world (FfDone []) GcsOk)"
    by (simp add: process_video_json_req dispatch_def field_def py_eq_str_def)
qed

text \<open>C27. Without a bucket name (\<^verbatim>\<open>GCS_BUCKET_NAME\<close> unset, so \<^verbatim>\<open>DESTINATION_BUCKET_NAME\<close>
  is \<^verbatim>\<open>None\<close>) no request ever succeeds and nothing is ever stored: a valid job still runs
  the pipeline and fails only at the upload.\<close>

theorem no_bucket_never_succeeds:
  assumes "process_video None req w = (r, w')"
  shows "(\<forall>body. r \<noteq> Json 200 body) \<and> objects w' = objects w"
  using process_video_shape [OF assms]
proof
  assume "\<exists>k g ext. url_key_ext k ext \<and> out_path g = tmp_path (next_uuid w) ext \<and>
            (Inr r, w') = run_and_upload k g (tmp_path (next_uuid w) ext) None (w\<lparr>draws := Suc (draws w)\<rparr>)"
  then obtain k g p where "run_and_upload k g p None (w\<lparr>draws := Suc (draws w)\<rparr>) = (Inr r, w')"
    by (metis (no_types))
  from run_and_upload_no_bucket [OF this] show ?thesis by auto
qed auto

theorem no_bucket_never_succeeds_witness:
  "(\<forall>body. fst (process_video None
      (json_req [(''operation'', PStr ''extract_audio''), (''videoUrl'', PStr ''v.mp4'')])
      (demo_world (FfDone [7]) GcsOk)) \<noteq> Json 200 body)
   \<and> objects (snd (process_video None
      (json_req [(''operation'', PStr ''extract_audio''), (''videoUrl'', PStr ''v.mp4'')])
      (demo_world (FfDone [7]) GcsOk))) = objects (demo_world (FfDone [7]) GcsOk)"
  by (rule no_bucket_never_succeeds) simp

text \<open>C30. A JSON body that is not an object (\<^verbatim>\<open>null\<close>, a list, a string, a number)
  has no \<^verbatim>\<open>get\<close>: \<^verbatim>\<open>data.get('operation')\<close> raises \<^verbatim>\<open>AttributeError\<close>, which
  escapes as the framework's 500 page, and nothing else happens. The spec promises 400 for
  an absent operation.\<close>

theorem non_object_body_crashes:
  assumes "\<forall>kvs. v \<noteq> PDict kvs"
  shows "process_video bn (HttpRequest True (Some v)) w
         = (Crash (PyExc AttributeError (quoted (type_name v) @ '' object has no attribute '' @ quoted ''get'')), w)"
  using assms by (cases v) (simp_all add: process_video_def dispatch_def)

theorem non_object_body_crashes_witness:
  "process_video None (HttpRequest True (Some PNone)) (demo_world (FfDone []) GcsOk)
   = (Crash (PyExc AttributeError (quoted ''NoneType'' @ '' object has no attribute '' @ quoted ''get'')),
      demo_world (FfDone []) GcsOk)"
  using non_object_body_crashes [of PNone None "demo_world (FfDone []) GcsOk"] by simp

text \<open>C31. A split-screen request whose \<^verbatim>\<open>params\<close> is present but not an object (for
  instance \<^verbatim>\<open>null\<close>) gets \<^verbatim>\<open>None\<close> or that value from \<^verbatim>\<open>data.get('params', {})\<close>
  (the default applies only to an absent key), and \<^verbatim>\<open>params.get('podcast_url')\<close> raises
  \<^verbatim>\<open>AttributeError\<close>: the framework's 500 page, not the missing-parameters 400, and no
  effect.\<close>

theorem non_dict_params_crashes:
  assumes "map_of kvs ''operation'' = Some (PStr ''create_split_screen_clip'')"
    and "map_of kvs ''params'' = Some v" and "\<forall>ps. v \<noteq> PDict ps"
  shows "process_video bn (json_req kvs) w
         = (Crash (PyExc AttributeError (quoted (type_name v) @ '' object has no attribute '' @ quoted ''get'')), w)"
  using assms
  by (cases v) (simp_all add: process_video_json_req dispatch_def field_def py_eq_str_def
      create_split_screen_clip_def params_of_def)

theorem non_dict_params_crashes_witness:
  "process_video None (json_req [(''operation'', PStr ''create_split_screen_clip''), (''params'', PNone)])
     (demo_world (FfDone []) GcsOk)
   = (Crash (PyExc AttributeError (quoted ''NoneType'' @ '' object has no attribute '' @ quoted ''get'')),
      demo_world (FfDone []) GcsOk)"
  using non_dict_params_crashes [of "[(''operation'', PStr ''create_split_screen_clip''), (''params'', PNone)]"
      PNone None "demo_world (FfDone []) GcsOk"] by simp

end
