(* ===== verification/Server.thy ===== *)
theory Server
  imports Handler
begin

text \<open>
  The service as a whole: the handler run on a sequence of requests. \<^verbatim>\<open>src/app.py\<close>
  has no loop of its own; the web framework calls \<^verbatim>\<open>process_video\<close> once per request,
  and the spec's model (one request at a time, section 5) is that the requests are
  handled one after another, each seeing the world the previous one left. \<open>serve\<close> folds
  the handler over a request list and collects the answers; \<open>reachable\<close> is the set of
  worlds the service can reach from a start world by any sequence of requests. The
  lemmas show what the service does to the shared resources over any run: the stored
  objects are never removed and every new one is named after a uuid drawn during the
  run; every new local file is such a name under \<^verbatim>\<open>/tmp/\<close>; at most one temporary file
  is left behind per pipeline-error answer; and when the draws give distinct uuids, the
  URLs answered are pairwise distinct and each 200 answer adds exactly one stored object.
\<close>

fun serve :: "string option \<Rightarrow> http_request list \<Rightarrow> world \<Rightarrow> response list \<times> world" where
  "serve bn [] w = ([], w)"
| "serve bn (req # reqs) w =
     (let (r, w1) = process_video bn req w;
          (rs, w2) = serve bn reqs w1
      in (r # rs, w2))"

inductive reachable :: "string option \<Rightarrow> world \<Rightarrow> world \<Rightarrow> bool" for bn w0 where
  init: "reachable bn w0 w0"
| step: "reachable bn w0 w \<Longrightarrow> process_video bn req w = (r, w') \<Longrightarrow> reachable bn w0 w'"

text \<open>The names a run can create: a uuid drawn with an index in \<open>[lo, hi)\<close> and one of
  the two extensions.\<close>

definition drawn_names :: "world \<Rightarrow> nat \<Rightarrow> nat \<Rightarrow> string set" where
  "drawn_names w0 lo hi =
     (\<lambda>(i, ext). uuid_str (uuid4_int (urandom w0 i)) @ ext) ` ({lo..<hi} \<times> {''.mp3'', ''.mp4''})"

text \<open>The URLs of the 200 answers, and the answers of the \<^verbatim>\<open>except\<close> branch.\<close>

fun resp_urls :: "response \<Rightarrow> string list" where
  "resp_urls (Json c (PDict [(k, PStr u)])) = (if c = 200 then [u] else [])"
| "resp_urls _ = []"

fun pipeline_error :: "response \<Rightarrow> bool" where
  "pipeline_error (Json c _) = (c = 500)"
| "pipeline_error _ = False"

definition success_urls :: "response list \<Rightarrow> string list" where
  "success_urls rs = concat (map resp_urls rs)"

subsection \<open>Lemmas\<close>

lemma drawn_names_mono: "hi \<le> hi' \<Longrightarrow> drawn_names w0 lo hi \<subseteq> drawn_names w0 lo hi'"
  by (auto simp: drawn_names_def)

lemma drawn_namesI:
  "lo \<le> i \<Longrightarrow> i < hi \<Longrightarrow> ext = ''.mp3'' \<or> ext = ''.mp4'' \<Longrightarrow>
   uuid_str (uuid4_int (urandom w0 i)) @ ext \<in> drawn_names w0 lo hi"
  by (auto simp: drawn_names_def image_iff)

lemma process_video_cases:
  assumes "process_video bn req w = (r, w')"
  shows "(w' = w \<and> resp_urls r = [] \<and> \<not> pipeline_error r)
       \<or> (\<exists>ext. (ext = ''.mp3'' \<or> ext = ''.mp4'')
            \<and> frame_at (tmp_path (next_uuid w) ext) bn w w' \<and> draws w' = Suc (draws w)
            \<and> ((resp_urls r = [public_url bn (next_uuid w @ ext)]
                 \<and> fs w' (tmp_path (next_uuid w) ext) = None)
               \<or> (resp_urls r = [] \<and> pipeline_error r)))"
  using process_video_shape [OF assms]
proof
  assume "w' = w \<and> ((\<exists>c. r = Abort c) \<or> (\<exists>m. r = Json 400 (err_json m)) \<or> (\<exists>e. r = Crash e))"
  then show ?thesis by (auto simp: err_json_def)
next
  assume "\<exists>k g ext. url_key_ext k ext \<and> out_path g = tmp_path (next_uuid w) ext \<and>
            (Inr r, w') = run_and_upload k g (tmp_path (next_uuid w) ext) bn (w\<lparr>draws := Suc (draws w)\<rparr>)"
  then obtain k g ext where ext: "ext = ''.mp3'' \<or> ext = ''.mp4''" and g: "out_path g = tmp_path (next_uuid w) ext"
    and ru: "(Inr r, w') = run_and_upload k g (tmp_path (next_uuid w) ext) bn (w\<lparr>draws := Suc (draws w)\<rparr>)"
    by (blast dest: url_key_ext_ext)
  let ?p = "tmp_path (next_uuid w) ext"
  from run_and_upload_frame [OF ru [symmetric] g]
  have "frame_at ?p bn w w'" and d: "draws w' = Suc (draws w)" by (simp_all add: frame_at_def)
  moreover have b: "basename ?p = next_uuid w @ ext" using ext by auto
  moreover have "(resp_urls r = [public_url bn (next_uuid w @ ext)] \<and> fs w' ?p = None)
                 \<or> (resp_urls r = [] \<and> pipeline_error r)"
    using run_and_upload_result [OF ru [symmetric]]
  proof (elim disjE exE)
    assume "Inr r = Inr (Json 200 (PDict [(k, PStr (public_url bn (basename ?p)))]))"
    then have r: "r = Json 200 (PDict [(k, PStr (public_url bn (basename ?p)))])" by simp
    with ru have "run_and_upload k g ?p bn (w\<lparr>draws := Suc (draws w)\<rparr>)
                    = (Inr (Json 200 (PDict [(k, PStr (public_url bn (basename ?p)))])), w')"
      by simp
    from run_and_upload_200 [OF this g] have "fs w' ?p = None" by blast
    with r b show ?thesis by simp
  qed (simp add: err_json_def)
  ultimately show ?thesis using ext by blast
qed

lemma tmp_path_drawn:
  assumes "urandom w = urandom w0" "lo \<le> draws w" "ext = ''.mp3'' \<or> ext = ''.mp4''"
  shows "next_uuid w @ ext \<in> drawn_names w0 lo (Suc (draws w))"
    and "tmp_path (next_uuid w) ext \<in> (\<lambda>n. ''/tmp/'' @ n) ` drawn_names w0 lo (Suc (draws w))"
proof -
  show n: "next_uuid w @ ext \<in> drawn_names w0 lo (Suc (draws w))"
    using assms by (simp add: next_uuid_def drawn_namesI)
  show "tmp_path (next_uuid w) ext \<in> (\<lambda>n. ''/tmp/'' @ n) ` drawn_names w0 lo (Suc (draws w))"
    using n by (simp add: tmp_path_def)
qed

text \<open>One step of the invariant: a request whose world satisfies it leaves a world that
  does.\<close>

lemma server_inv_step:
  assumes inv: "urandom w = urandom w0" "draws w0 \<le> draws w"
      "dom (objects w0) \<subseteq> dom (objects w)"
      "snd ` (dom (objects w) - dom (objects w0)) \<subseteq> drawn_names w0 (draws w0) (draws w)"
      "dom (fs w) - dom (fs w0) \<subseteq> (\<lambda>n. ''/tmp/'' @ n) ` drawn_names w0 (draws w0) (draws w)"
    and ext: "ext = ''.mp3'' \<or> ext = ''.mp4''"
    and f: "frame_at (tmp_path (next_uuid w) ext) bn w w'" and d: "draws w' = Suc (draws w)"
  shows "urandom w' = urandom w0 \<and> draws w0 \<le> draws w' \<and> dom (objects w0) \<subseteq> dom (objects w')
     \<and> snd ` (dom (objects w') - dom (objects w0)) \<subseteq> drawn_names w0 (draws w0) (draws w')
     \<and> dom (fs w') - dom (fs w0) \<subseteq> (\<lambda>n. ''/tmp/'' @ n) ` drawn_names w0 (draws w0) (draws w')"
proof -
  let ?p = "tmp_path (next_uuid w) ext"
  have o: "\<And>k. k \<noteq> (the bn, basename ?p) \<Longrightarrow> objects w' k = objects w k"
    and q: "\<And>q. q \<noteq> ?p \<Longrightarrow> fs w' q = fs w q"
    and m: "dom (objects w) \<subseteq> dom (objects w')" and u: "urandom w' = urandom w"
    using f unfolding frame_at_def by blast+
  have b: "basename ?p = next_uuid w @ ext" using ext by auto
  have mono: "drawn_names w0 (draws w0) (draws w) \<subseteq> drawn_names w0 (draws w0) (draws w')"
    using d by (simp add: drawn_names_mono)
  have "snd ` (dom (objects w') - dom (objects w0)) \<subseteq> drawn_names w0 (draws w0) (draws w')"
  proof
    fix n assume "n \<in> snd ` (dom (objects w') - dom (objects w0))"
    then obtain k where k: "k \<in> dom (objects w')" "k \<notin> dom (objects w0)" "n = snd k" by blast
    show "n \<in> drawn_names w0 (draws w0) (draws w')"
    proof (cases "k = (the bn, basename ?p)")
      case True
      with k b d show ?thesis using tmp_path_drawn (1) [OF inv(1,2) ext] by simp
    next
      case False
      then have "k \<in> dom (objects w)" using o [OF False] k(1) by (simp add: domIff)
      then have "n \<in> snd ` (dom (objects w) - dom (objects w0))" using k(2,3) by blast
      with inv(4) mono show ?thesis by blast
    qed
  qed
  moreover have "dom (fs w') - dom (fs w0) \<subseteq> (\<lambda>n. ''/tmp/'' @ n) ` drawn_names w0 (draws w0) (draws w')"
  proof
    fix x assume x: "x \<in> dom (fs w') - dom (fs w0)"
    show "x \<in> (\<lambda>n. ''/tmp/'' @ n) ` drawn_names w0 (draws w0) (draws w')"
    proof (cases "x = ?p")
      case True
      with d show ?thesis using tmp_path_drawn (2) [OF inv(1,2) ext] by simp
    next
      case False
      then have "x \<in> dom (fs w) - dom (fs w0)" using q [OF False] x by (simp add: domIff)
      with inv(5) mono show ?thesis by blast
    qed
  qed
  ultimately show ?thesis using inv(1-3) m u d by auto
qed

lemma reachable_inv:
  assumes "reachable bn w0 w"
  shows "urandom w = urandom w0 \<and> draws w0 \<le> draws w \<and> dom (objects w0) \<subseteq> dom (objects w)
     \<and> snd ` (dom (objects w) - dom (objects w0)) \<subseteq> drawn_names w0 (draws w0) (draws w)
     \<and> dom (fs w) - dom (fs w0) \<subseteq> (\<lambda>n. ''/tmp/'' @ n) ` drawn_names w0 (draws w0) (draws w)"
  using assms
proof (induction rule: reachable.induct)
  case init
  show ?case by simp
next
  case (step w req r w')
  from process_video_cases [OF step.hyps(2)] show ?case
  proof
    assume "w' = w \<and> resp_urls r = [] \<and> \<not> pipeline_error r"
    with step.IH show ?thesis by simp
  next
    assume "\<exists>ext. (ext = ''.mp3'' \<or> ext = ''.mp4'')
            \<and> frame_at (tmp_path (next_uuid w) ext) bn w w' \<and> draws w' = Suc (draws w)
            \<and> ((resp_urls r = [public_url bn (next_uuid w @ ext)]
                 \<and> fs w' (tmp_path (next_uuid w) ext) = None)
               \<or> (resp_urls r = [] \<and> pipeline_error r))"
    then obtain ext where ext: "ext = ''.mp3'' \<or> ext = ''.mp4''"
      and f: "frame_at (tmp_path (next_uuid w) ext) bn w w'" and d: "draws w' = Suc (draws w)"
      by blast
    from step.IH have i1: "urandom w = urandom w0" and i2: "draws w0 \<le> draws w"
      and i3: "dom (objects w0) \<subseteq> dom (objects w)"
      and i4: "snd ` (dom (objects w) - dom (objects w0)) \<subseteq> drawn_names w0 (draws w0) (draws w)"
      and i5: "dom (fs w) - dom (fs w0) \<subseteq> (\<lambda>n. ''/tmp/'' @ n) ` drawn_names w0 (draws w0) (draws w)"
      by (simp_all only:)
    show ?thesis by (rule server_inv_step [OF i1 i2 i3 i4 i5 ext f d])
  qed
qed

lemma serve_reachable:
  "reachable bn w0 w \<Longrightarrow> serve bn reqs w = (rs, w') \<Longrightarrow> reachable bn w0 w'"
proof (induction reqs arbitrary: w rs)
  case (Cons req reqs)
  obtain r w1 where r: "process_video bn req w = (r, w1)" by fastforce
  obtain rs1 w2 where s: "serve bn reqs w1 = (rs1, w2)" by fastforce
  from Cons.prems r s have "w2 = w'" by simp
  moreover from Cons.prems(1) r have "reachable bn w0 w1" by (rule reachable.step)
  ultimately show ?case using Cons.IH s by blast
qed simp

text \<open>What one request does to the local files: none is added, except on a
  pipeline-error answer, which may leave one.\<close>

lemma process_video_files:
  assumes "process_video bn req w = (r, w')"
  shows "dom (fs w') \<subseteq> dom (fs w) \<or> (pipeline_error r \<and> (\<exists>p. dom (fs w') \<subseteq> insert p (dom (fs w))))"
  using process_video_cases [OF assms]
proof
  assume "\<exists>ext. (ext = ''.mp3'' \<or> ext = ''.mp4'')
            \<and> frame_at (tmp_path (next_uuid w) ext) bn w w' \<and> draws w' = Suc (draws w)
            \<and> ((resp_urls r = [public_url bn (next_uuid w @ ext)]
                 \<and> fs w' (tmp_path (next_uuid w) ext) = None)
               \<or> (resp_urls r = [] \<and> pipeline_error r))"
  then obtain p where f: "frame_at p bn w w'" and res: "fs w' p = None \<or> pipeline_error r"
    by blast
  from f have q: "\<And>q. q \<noteq> p \<Longrightarrow> fs w' q = fs w q" unfolding frame_at_def by blast
  from res show ?thesis
  proof
    assume n: "fs w' p = None"
    have "dom (fs w') \<subseteq> dom (fs w)"
    proof
      fix x assume "x \<in> dom (fs w')"
      moreover from this n have "x \<noteq> p" by auto
      ultimately show "x \<in> dom (fs w)" using q by (simp add: domIff)
    qed
    then show ?thesis ..
  next
    assume "pipeline_error r"
    moreover have "dom (fs w') \<subseteq> insert p (dom (fs w))" using q by (auto simp: domIff)
    ultimately show ?thesis by blast
  qed
qed simp

lemma card_dom_step:
  assumes "finite (dom (fs w))"
    and "dom (fs w') \<subseteq> dom (fs w) \<or> (e \<and> (\<exists>p. dom (fs w') \<subseteq> insert p (dom (fs w))))"
  shows "finite (dom (fs w')) \<and> card (dom (fs w')) \<le> card (dom (fs w)) + (if e then 1 else 0)"
  using assms(2)
proof (elim disjE exE conjE)
  assume sub: "dom (fs w') \<subseteq> dom (fs w)"
  with assms(1) have "card (dom (fs w')) \<le> card (dom (fs w))" by (rule card_mono)
  with assms(1) sub show ?thesis by (simp add: finite_subset)
next
  fix p assume e and sub: "dom (fs w') \<subseteq> insert p (dom (fs w))"
  from assms(1) have fin: "finite (insert p (dom (fs w)))" by simp
  have "card (dom (fs w')) \<le> card (insert p (dom (fs w)))" by (rule card_mono [OF fin sub])
  also have "\<dots> \<le> card (dom (fs w)) + 1" using assms(1) by (simp add: card_insert_if)
  finally show ?thesis using \<open>e\<close> fin sub by (simp add: finite_subset)
qed

lemma drawn_names_urandom: "urandom w1 = urandom w \<Longrightarrow> drawn_names w1 = drawn_names w"
  by (simp add: drawn_names_def fun_eq_iff)

lemma ext_unreserved: "ext = ''.mp3'' \<or> ext = ''.mp4'' \<Longrightarrow> \<forall>c \<in> set ext. url_unreserved c"
  by (auto simp: url_unreserved_def)

lemma drawn_url_inj:
  assumes "public_url bn (uuid_str a @ e1) = public_url bn (uuid_str b @ e2)"
    and "e1 = ''.mp3'' \<or> e1 = ''.mp4''" and "e2 = ''.mp3'' \<or> e2 = ''.mp4''"
  shows "a = b"
proof -
  from assms(1) have "url_quote (uuid_str a @ e1) = url_quote (uuid_str b @ e2)"
    by (simp add: public_url_def)
  moreover have "url_quote (uuid_str a @ e1) = uuid_str a @ e1"
    by (rule url_quote_uuid_name [OF ext_unreserved [OF assms(2)]])
  moreover have "url_quote (uuid_str b @ e2) = uuid_str b @ e2"
    by (rule url_quote_uuid_name [OF ext_unreserved [OF assms(3)]])
  ultimately have "uuid_str a @ e1 = uuid_str b @ e2" by simp
  then have "take 36 (uuid_str a @ e1) = take 36 (uuid_str b @ e2)" by simp
  then have "uuid_str a = uuid_str b" by (simp add: length_uuid_str)
  then show "a = b" by (rule uuid_str_eqD)
qed

lemma drawn_nameE:
  assumes "n \<in> drawn_names w lo hi"
  obtains i e where "lo \<le> i" "i < hi" "e = ''.mp3'' \<or> e = ''.mp4''"
    "n = uuid_str (uuid4_int (urandom w i)) @ e"
proof -
  from assms obtain ie where ie: "ie \<in> {lo..<hi} \<times> {''.mp3'', ''.mp4''}"
    and xe: "n = (\<lambda>(i, ext). uuid_str (uuid4_int (urandom w i)) @ ext) ie"
    unfolding drawn_names_def by (rule imageE)
  obtain i e where "ie = (i, e)" by fastforce
  with ie xe show ?thesis by (intro that) auto
qed

lemma drawn_urlE:
  assumes "u \<in> public_url bn ` drawn_names w lo hi"
  obtains i e where "lo \<le> i" "i < hi" "e = ''.mp3'' \<or> e = ''.mp4''"
    "u = public_url bn (uuid_str (uuid4_int (urandom w i)) @ e)"
proof -
  from assms obtain n where n: "n \<in> drawn_names w lo hi" and u: "u = public_url bn n"
    by (rule imageE)
  from n obtain i e where "lo \<le> i" "i < hi" "e = ''.mp3'' \<or> e = ''.mp4''"
    "n = uuid_str (uuid4_int (urandom w i)) @ e" by (rule drawn_nameE)
  with u show ?thesis by (intro that) auto
qed

lemma drawn_names_shift:
  "urandom w1 = urandom w \<Longrightarrow> lo \<le> lo' \<Longrightarrow> hi' \<le> hi \<Longrightarrow>
   drawn_names w1 lo' hi' \<subseteq> drawn_names w lo hi"
  by (auto simp: drawn_names_def)

lemma distinct_resp_urls: "distinct (resp_urls r)"
  by (cases r rule: resp_urls.cases) auto

lemma process_video_urls:
  assumes "process_video bn req w = (r, w')"
  shows "urandom w' = urandom w \<and> (draws w' = draws w \<or> draws w' = Suc (draws w))
     \<and> set (resp_urls r) \<subseteq> public_url bn ` drawn_names w (draws w) (draws w')"
  using process_video_cases [OF assms]
proof
  assume "\<exists>ext. (ext = ''.mp3'' \<or> ext = ''.mp4'')
            \<and> frame_at (tmp_path (next_uuid w) ext) bn w w' \<and> draws w' = Suc (draws w)
            \<and> ((resp_urls r = [public_url bn (next_uuid w @ ext)]
                 \<and> fs w' (tmp_path (next_uuid w) ext) = None)
               \<or> (resp_urls r = [] \<and> pipeline_error r))"
  then obtain ext where ext: "ext = ''.mp3'' \<or> ext = ''.mp4''"
    and f: "frame_at (tmp_path (next_uuid w) ext) bn w w'" and d: "draws w' = Suc (draws w)"
    and u: "set (resp_urls r) \<subseteq> {public_url bn (next_uuid w @ ext)}"
    by fastforce
  have "next_uuid w @ ext \<in> drawn_names w (draws w) (Suc (draws w))"
    using tmp_path_drawn (1) [of w w "draws w" ext] ext by simp
  with u d have "set (resp_urls r) \<subseteq> public_url bn ` drawn_names w (draws w) (draws w')" by auto
  moreover from f have "urandom w' = urandom w" by (simp add: frame_at_def)
  ultimately show ?thesis using d by simp
qed simp

lemma serve_urls:
  "serve bn reqs w = (rs, w') \<Longrightarrow>
     urandom w' = urandom w \<and> draws w \<le> draws w' \<and> draws w' \<le> draws w + length reqs
     \<and> set (success_urls rs) \<subseteq> public_url bn ` drawn_names w (draws w) (draws w')"
proof (induction reqs arbitrary: w rs w')
  case Nil
  then show ?case by (simp add: success_urls_def)
next
  case (Cons req reqs)
  obtain r w1 where r: "process_video bn req w = (r, w1)" by fastforce
  obtain rs1 w2 where s: "serve bn reqs w1 = (rs1, w2)" by fastforce
  from Cons.prems r s have rs: "rs = r # rs1" and w2: "w2 = w'" by simp_all
  from process_video_urls [OF r] have u1: "urandom w1 = urandom w"
    and d1: "draws w1 = draws w \<or> draws w1 = Suc (draws w)"
    and s1: "set (resp_urls r) \<subseteq> public_url bn ` drawn_names w (draws w) (draws w1)" by simp_all
  from Cons.IH [OF s] w2 have u2: "urandom w' = urandom w1" and d2: "draws w1 \<le> draws w'"
    and d3: "draws w' \<le> draws w1 + length reqs"
    and s2: "set (success_urls rs1) \<subseteq> public_url bn ` drawn_names w1 (draws w1) (draws w')"
    by simp_all
  have "drawn_names w (draws w) (draws w1) \<subseteq> drawn_names w (draws w) (draws w')"
    using d2 by (rule drawn_names_mono)
  then have i1: "public_url bn ` drawn_names w (draws w) (draws w1)
                   \<subseteq> public_url bn ` drawn_names w (draws w) (draws w')" by (rule image_mono)
  have "drawn_names w1 (draws w1) (draws w') \<subseteq> drawn_names w (draws w) (draws w')"
    using d1 u1 by (intro drawn_names_shift) auto
  then have i2: "public_url bn ` drawn_names w1 (draws w1) (draws w')
                   \<subseteq> public_url bn ` drawn_names w (draws w) (draws w')" by (rule image_mono)
  have "set (success_urls rs) = set (resp_urls r) \<union> set (success_urls rs1)"
    by (simp add: rs success_urls_def)
  with s1 s2 i1 i2 have "set (success_urls rs) \<subseteq> public_url bn ` drawn_names w (draws w) (draws w')"
    by blast
  with u1 u2 d1 d2 d3 show ?case by auto
qed

lemma serve_step:
  assumes "serve bn (req # reqs) w = (rs, w')"
  obtains r w1 rs1 where "process_video bn req w = (r, w1)" "serve bn reqs w1 = (rs1, w')"
    "rs = r # rs1"
proof -
  obtain r w1 where r: "process_video bn req w = (r, w1)" by fastforce
  obtain rs1 w2 where s: "serve bn reqs w1 = (rs1, w2)" by fastforce
  from assms r s have "rs = r # rs1" and "w2 = w'" by simp_all
  with r s that show ?thesis by blast
qed

subsection \<open>Properties of the service\<close>

text \<open>C13. Over any sequence of requests the service never removes a stored object, every
  object it adds is named \<open><uuid>.mp3\<close> or \<open><uuid>.mp4\<close> after a uuid drawn during the run,
  and every local file it adds is such a name under \<^verbatim>\<open>/tmp/\<close>.\<close>

theorem reachable_names:
  assumes "reachable bn w0 w"
  shows "dom (objects w0) \<subseteq> dom (objects w)
     \<and> snd ` (dom (objects w) - dom (objects w0)) \<subseteq> drawn_names w0 (draws w0) (draws w)
     \<and> dom (fs w) - dom (fs w0) \<subseteq> (\<lambda>n. ''/tmp/'' @ n) ` drawn_names w0 (draws w0) (draws w)"
  using reachable_inv [OF assms] by simp

theorem reachable_names_witness:
  "dom (objects (demo_world (FfDone [7]) GcsOk))
     \<subseteq> dom (objects (snd (process_video (Some ''bkt'')
          (json_req [(''operation'', PStr ''extract_audio''), (''videoUrl'', PStr ''v.mp4'')])
          (demo_world (FfDone [7]) GcsOk))))
   \<and> snd ` (dom (objects (snd (process_video (Some ''bkt'')
          (json_req [(''operation'', PStr ''extract_audio''), (''videoUrl'', PStr ''v.mp4'')])
          (demo_world (FfDone [7]) GcsOk)))) - dom (objects (demo_world (FfDone [7]) GcsOk)))
     \<subseteq> drawn_names (demo_world (FfDone [7]) GcsOk) (draws (demo_world (FfDone [7]) GcsOk))
          (draws (snd (process_video (Some ''bkt'')
             (json_req [(''operation'', PStr ''extract_audio''), (''videoUrl'', PStr ''v.mp4'')])
             (demo_world (FfDone [7]) GcsOk))))
   \<and> dom (fs (snd (process_video (Some ''bkt'')
          (json_req [(''operation'', PStr ''extract_audio''), (''videoUrl'', PStr ''v.mp4'')])
          (demo_world (FfDone [7]) GcsOk)))) - dom (fs (demo_world (FfDone [7]) GcsOk))
     \<subseteq> (\<lambda>n. ''/tmp/'' @ n) ` drawn_names (demo_world (FfDone [7]) GcsOk)
          (draws (demo_world (FfDone [7]) GcsOk))
          (draws (snd (process_video (Some ''bkt'')
             (json_req [(''operation'', PStr ''extract_audio''), (''videoUrl'', PStr ''v.mp4'')])
             (demo_world (FfDone [7]) GcsOk))))"
  by (rule reachable_names, rule reachable.step [OF reachable.init,
        where req = "json_req [(''operation'', PStr ''extract_audio''), (''videoUrl'', PStr ''v.mp4'')]"
        and r = "fst (process_video (Some ''bkt'')
          (json_req [(''operation'', PStr ''extract_audio''), (''videoUrl'', PStr ''v.mp4'')])
          (demo_world (FfDone [7]) GcsOk))"], simp)

text \<open>C14. Temporary files leak only through the \<^verbatim>\<open>except\<close> branch: after any sequence of
  requests the number of local files exceeds the number at the start by at most the number
  of 500 answers with the pipeline-error message.\<close>

theorem serve_leak_bound:
  assumes "serve bn reqs w = (rs, w')" and "finite (dom (fs w))"
  shows "finite (dom (fs w')) \<and> card (dom (fs w')) \<le> card (dom (fs w)) + length (filter pipeline_error rs)"
  using assms
proof (induction reqs arbitrary: w rs w')
  case (Cons req reqs)
  from Cons.prems(1) obtain r w1 rs1 where r: "process_video bn req w = (r, w1)"
    and s: "serve bn reqs w1 = (rs1, w')" and rs: "rs = r # rs1" by (rule serve_step)
  from card_dom_step [OF Cons.prems(2) process_video_files [OF r]]
  have f1: "finite (dom (fs w1))"
    and c1: "card (dom (fs w1)) \<le> card (dom (fs w)) + (if pipeline_error r then 1 else 0)" by simp_all
  from Cons.IH [OF s f1] rs c1 show ?case by auto
qed simp

theorem serve_leak_bound_witness:
  "(finite (dom (fs (snd (serve (Some ''bkt'') [json_req [(''operation'', PStr ''extract_audio''), (''videoUrl'', PStr ''v.mp4'')]] (demo_world (FfExitErr (Some [1])) GcsOk)))))
    \<and> card (dom (fs (snd (serve (Some ''bkt'') [json_req [(''operation'', PStr ''extract_audio''), (''videoUrl'', PStr ''v.mp4'')]] (demo_world (FfExitErr (Some [1])) GcsOk))))) \<le> card (dom (fs (demo_world (FfExitErr (Some [1])) GcsOk))) + length (filter pipeline_error (fst (serve (Some ''bkt'') [json_req [(''operation'', PStr ''extract_audio''), (''videoUrl'', PStr ''v.mp4'')]] (demo_world (FfExitErr (Some [1])) GcsOk)))))
   \<and> card (dom (fs (snd (serve (Some ''bkt'') [json_req [(''operation'', PStr ''extract_audio''), (''videoUrl'', PStr ''v.mp4'')]] (demo_world (FfExitErr (Some [1])) GcsOk))))) = 1 \<and> length (filter pipeline_error (fst (serve (Some ''bkt'') [json_req [(''operation'', PStr ''extract_audio''), (''videoUrl'', PStr ''v.mp4'')]] (demo_world (FfExitErr (Some [1])) GcsOk)))) = 1"
proof
  show "finite (dom (fs (snd (serve (Some ''bkt'') [json_req [(''operation'', PStr ''extract_audio''), (''videoUrl'', PStr ''v.mp4'')]] (demo_world (FfExitErr (Some [1])) GcsOk)))))
    \<and> card (dom (fs (snd (serve (Some ''bkt'') [json_req [(''operation'', PStr ''extract_audio''), (''videoUrl'', PStr ''v.mp4'')]] (demo_world (FfExitErr (Some [1])) GcsOk))))) \<le> card (dom (fs (demo_world (FfExitErr (Some [1])) GcsOk))) + length (filter pipeline_error (fst (serve (Some ''bkt'') [json_req [(''operation'', PStr ''extract_audio''), (''videoUrl'', PStr ''v.mp4'')]] (demo_world (FfExitErr (Some [1])) GcsOk))))"
    by (rule serve_leak_bound [of "Some ''bkt''" "[json_req [(''operation'', PStr ''extract_audio''), (''videoUrl'', PStr ''v.mp4'')]]" "demo_world (FfExitErr (Some [1])) GcsOk" "fst (serve (Some ''bkt'') [json_req [(''operation'', PStr ''extract_audio''), (''videoUrl'', PStr ''v.mp4'')]] (demo_world (FfExitErr (Some [1])) GcsOk))" "snd (serve (Some ''bkt'') [json_req [(''operation'', PStr ''extract_audio''), (''videoUrl'', PStr ''v.mp4'')]] (demo_world (FfExitErr (Some [1])) GcsOk))"])
       (simp_all add: demo_world_def)
  show "card (dom (fs (snd (serve (Some ''bkt'') [json_req [(''operation'', PStr ''extract_audio''), (''videoUrl'', PStr ''v.mp4'')]] (demo_world (FfExitErr (Some [1])) GcsOk))))) = 1 \<and> length (filter pipeline_error (fst (serve (Some ''bkt'') [json_req [(''operation'', PStr ''extract_audio''), (''videoUrl'', PStr ''v.mp4'')]] (demo_world (FfExitErr (Some [1])) GcsOk)))) = 1"
    by (simp add: demo_world_def process_video_json_req dispatch_def extract_audio_def field_def
        py_eq_str_def run_and_upload_def ffmpeg_run_def ffmpeg_error_response_def log_call_def Let_def)
qed

text \<open>C15. If the uuids drawn during a run are pairwise distinct, the URLs the service
  answers with are pairwise distinct: no success answer points at an object that a later
  request overwrites.\<close>

theorem serve_distinct_urls:
  assumes "inj_on (\<lambda>i. uuid4_int (urandom w i)) {draws w..<draws w + length reqs}"
    and "serve bn reqs w = (rs, w')"
  shows "distinct (success_urls rs)"
  using assms
proof (induction reqs arbitrary: w rs w')
  case Nil
  then show ?case by (simp add: success_urls_def)
next
  case (Cons req reqs)
  from Cons.prems(2) obtain r w1 rs1 where r: "process_video bn req w = (r, w1)"
    and s: "serve bn reqs w1 = (rs1, w')" and rs: "rs = r # rs1" by (rule serve_step)
  from process_video_urls [OF r] have u1: "urandom w1 = urandom w"
    and d1: "draws w1 = draws w \<or> draws w1 = Suc (draws w)"
    and s1: "set (resp_urls r) \<subseteq> public_url bn ` drawn_names w (draws w) (draws w1)" by simp_all
  from serve_urls [OF s] have d2: "draws w' \<le> draws w1 + length reqs"
    and s2: "set (success_urls rs1) \<subseteq> public_url bn ` drawn_names w1 (draws w1) (draws w')"
    by simp_all
  have sub: "{draws w1..<draws w1 + length reqs} \<subseteq> {draws w..<draws w + length (req # reqs)}"
    using d1 by auto
  have "inj_on (\<lambda>i. uuid4_int (urandom w1 i)) {draws w1..<draws w1 + length reqs}"
    using inj_on_subset [OF Cons.prems(1) sub] u1 by simp
  then have dist: "distinct (success_urls rs1)" by (rule Cons.IH [OF _ s])
  have disj: "u \<notin> set (success_urls rs1)" if u: "u \<in> set (resp_urls r)" for u
  proof
    assume u2: "u \<in> set (success_urls rs1)"
    from u s1 have "u \<in> public_url bn ` drawn_names w (draws w) (draws w1)" by blast
    then obtain i e where i: "draws w \<le> i" "i < draws w1" and e: "e = ''.mp3'' \<or> e = ''.mp4''"
      and ui: "u = public_url bn (uuid_str (uuid4_int (urandom w i)) @ e)"
      by (rule drawn_urlE)
    from u2 s2 have "u \<in> public_url bn ` drawn_names w1 (draws w1) (draws w')" by blast
    then obtain j e' where j: "draws w1 \<le> j" "j < draws w'" and e': "e' = ''.mp3'' \<or> e' = ''.mp4''"
      and uj: "u = public_url bn (uuid_str (uuid4_int (urandom w1 j)) @ e')"
      by (rule drawn_urlE)
    from ui uj u1 e e' have "uuid4_int (urandom w i) = uuid4_int (urandom w j)"
      by (metis drawn_url_inj)
    moreover have "i \<in> {draws w..<draws w + length (req # reqs)}" "j \<in> {draws w..<draws w + length (req # reqs)}"
      using i j d1 d2 by auto
    ultimately have "i = j" using Cons.prems(1) by (simp add: inj_on_def)
    with i j show False by simp
  qed
  from dist disj distinct_resp_urls [of r] show ?case
    by (auto simp: rs success_urls_def)
qed

theorem serve_distinct_urls_witness:
  "distinct (success_urls (fst (serve (Some ''bkt'')
      [json_req [(''operation'', PStr ''extract_audio''), (''videoUrl'', PStr ''a.mp4'')],
       json_req [(''operation'', PStr ''extract_audio''), (''videoUrl'', PStr ''b.mp4'')]]
      ((demo_world (FfDone [7]) GcsOk)\<lparr>urandom := of_nat\<rparr>))))"
proof (rule serve_distinct_urls [where bn = "Some ''bkt''" and w' = "snd (serve (Some ''bkt'')
      [json_req [(''operation'', PStr ''extract_audio''), (''videoUrl'', PStr ''a.mp4'')],
       json_req [(''operation'', PStr ''extract_audio''), (''videoUrl'', PStr ''b.mp4'')]]
      ((demo_world (FfDone [7]) GcsOk)\<lparr>urandom := of_nat\<rparr>))"])
  have "uuid4_int 0 \<noteq> uuid4_int 1" by (simp add: uuid4_int_def)
  then show "inj_on (\<lambda>i. uuid4_int (urandom ((demo_world (FfDone [7]) GcsOk)\<lparr>urandom := of_nat\<rparr>) i))
      {draws ((demo_world (FfDone [7]) GcsOk)\<lparr>urandom := of_nat\<rparr>)..<
       draws ((demo_world (FfDone [7]) GcsOk)\<lparr>urandom := of_nat\<rparr>) + length
         [json_req [(''operation'', PStr ''extract_audio''), (''videoUrl'', PStr ''a.mp4'')],
          json_req [(''operation'', PStr ''extract_audio''), (''videoUrl'', PStr ''b.mp4'')]]}"
    by (simp add: demo_world_def atLeast0_lessThan_Suc)
qed (rule prod.collapse [symmetric])

lemma run_and_upload_objects:
  assumes "run_and_upload k g p bn w = (Inr r, w')"
  shows "(resp_urls r = [public_url bn (basename p)] \<and>
            (\<exists>b data. bn = Some b \<and> objects w' = (objects w)((b, basename p) \<mapsto> data)))
         \<or> (resp_urls r = [] \<and> objects w' = objects w)"
  using assms
  by (auto simp: run_and_upload_def ffmpeg_run_def upload_to_gcs_def upload_from_filename_def
      os_remove_def Let_def ffmpeg_error_response_def err_json_def
      split: ff_outcome.splits option.splits gcs_outcome.splits if_splits)

lemma process_video_objects:
  assumes "process_video bn req w = (r, w')"
  shows "(resp_urls r = [] \<and> objects w' = objects w)
       \<or> (\<exists>b ext data. (ext = ''.mp3'' \<or> ext = ''.mp4'') \<and> draws w' = Suc (draws w)
            \<and> resp_urls r = [public_url bn (next_uuid w @ ext)]
            \<and> objects w' = (objects w)((b, next_uuid w @ ext) \<mapsto> data))"
  using process_video_shape [OF assms]
proof
  assume "\<exists>k g ext. url_key_ext k ext \<and> out_path g = tmp_path (next_uuid w) ext \<and>
            (Inr r, w') = run_and_upload k g (tmp_path (next_uuid w) ext) bn (w\<lparr>draws := Suc (draws w)\<rparr>)"
  then obtain k g ext where ke: "url_key_ext k ext"
    and g: "out_path g = tmp_path (next_uuid w) ext"
    and ru': "(Inr r, w') = run_and_upload k g (tmp_path (next_uuid w) ext) bn (w\<lparr>draws := Suc (draws w)\<rparr>)"
    by blast
  note ru = ru' [symmetric]
  have ext: "ext = ''.mp3'' \<or> ext = ''.mp4''" by (rule url_key_ext_ext [OF ke])
  from run_and_upload_frame [OF ru g] have d: "draws w' = Suc (draws w)" by simp
  have b: "basename (tmp_path (next_uuid w) ext) = next_uuid w @ ext" using ext by auto
  have "(resp_urls r = [public_url bn (next_uuid w @ ext)]
           \<and> (\<exists>bk data. bn = Some bk \<and> objects w' = (objects w)((bk, next_uuid w @ ext) \<mapsto> data)))
        \<or> (resp_urls r = [] \<and> objects w' = objects w)"
    using run_and_upload_objects [OF ru] b by simp
  then show ?thesis
  proof (elim disjE conjE exE)
    fix bk data
    assume "resp_urls r = [public_url bn (next_uuid w @ ext)]"
      and "objects w' = (objects w)((bk, next_uuid w @ ext) \<mapsto> data)"
    with ext d show ?thesis by blast
  qed simp
next
  assume "w' = w \<and> ((\<exists>c. r = Abort c) \<or> (\<exists>m. r = Json 400 (err_json m)) \<or> (\<exists>e. r = Crash e))"
  then show ?thesis by (intro disjI1) (auto simp: err_json_def)
qed

lemma drawn_name_inj:
  "uuid_str a @ e1 = uuid_str b @ e2 \<Longrightarrow> a = b"
proof -
  assume "uuid_str a @ e1 = uuid_str b @ e2"
  then have "take 36 (uuid_str a @ e1) = take 36 (uuid_str b @ e2)" by simp
  then have "uuid_str a = uuid_str b" by (simp add: length_uuid_str)
  then show "a = b" by (rule uuid_str_eqD)
qed

text \<open>C16. The spec's one-to-one relation between successful requests and stored objects:
  when the uuids drawn during a run are distinct and no object of the bucket already
  carries one of their names, the run adds exactly one object per 200 answer.\<close>

theorem serve_one_object_per_success:
  assumes "inj_on (\<lambda>i. uuid4_int (urandom w i)) {draws w..<draws w + length reqs}"
    and "snd ` dom (objects w) \<inter> drawn_names w (draws w) (draws w + length reqs) = {}"
    and "finite (dom (objects w))"
    and "serve bn reqs w = (rs, w')"
  shows "card (dom (objects w')) = card (dom (objects w)) + length (success_urls rs)"
  using assms
proof (induction reqs arbitrary: w rs w')
  case Nil
  then show ?case by (simp add: success_urls_def)
next
  case (Cons req reqs)
  from Cons.prems(4) obtain r w1 rs1 where r: "process_video bn req w = (r, w1)"
    and s: "serve bn reqs w1 = (rs1, w')" and rs: "rs = r # rs1" by (rule serve_step)
  from process_video_urls [OF r] have u1: "urandom w1 = urandom w"
    and d1: "draws w1 = draws w \<or> draws w1 = Suc (draws w)" by simp_all
  have sub: "{draws w1..<draws w1 + length reqs} \<subseteq> {draws w..<draws w + length (req # reqs)}"
    using d1 by auto
  have inj1: "inj_on (\<lambda>i. uuid4_int (urandom w1 i)) {draws w1..<draws w1 + length reqs}"
    using inj_on_subset [OF Cons.prems(1) sub] u1 by simp
  have dn: "drawn_names w1 (draws w1) (draws w1 + length reqs)
              \<subseteq> drawn_names w (draws w) (draws w + length (req # reqs))"
    using d1 u1 by (intro drawn_names_shift) auto
  from process_video_objects [OF r] show ?case
  proof
    assume a: "resp_urls r = [] \<and> objects w1 = objects w"
    have "snd ` dom (objects w1) \<inter> drawn_names w1 (draws w1) (draws w1 + length reqs)
            \<subseteq> snd ` dom (objects w) \<inter> drawn_names w (draws w) (draws w + length (req # reqs))"
      using a Int_mono [OF subset_refl dn] by simp
    then have "snd ` dom (objects w1) \<inter> drawn_names w1 (draws w1) (draws w1 + length reqs) = {}"
      using Cons.prems(2) by (simp only: subset_empty)
    from Cons.IH [OF inj1 this _ s] a Cons.prems(3) show ?thesis
      by (simp add: rs success_urls_def)
  next
    assume "\<exists>b ext data. (ext = ''.mp3'' \<or> ext = ''.mp4'') \<and> draws w1 = Suc (draws w)
            \<and> resp_urls r = [public_url bn (next_uuid w @ ext)]
            \<and> objects w1 = (objects w)((b, next_uuid w @ ext) \<mapsto> data)"
    then obtain b ext data where ext: "ext = ''.mp3'' \<or> ext = ''.mp4''"
      and d: "draws w1 = Suc (draws w)" and ur: "resp_urls r = [public_url bn (next_uuid w @ ext)]"
      and ob: "objects w1 = (objects w)((b, next_uuid w @ ext) \<mapsto> data)" by blast
    have new: "next_uuid w @ ext \<in> drawn_names w (draws w) (draws w + length (req # reqs))"
      unfolding next_uuid_def by (rule drawn_namesI) (use ext in simp_all)
    have key: "(b, next_uuid w @ ext) \<notin> dom (objects w)"
    proof
      assume "(b, next_uuid w @ ext) \<in> dom (objects w)"
      then have "next_uuid w @ ext \<in> snd ` dom (objects w)" by (rule image_eqI [rotated]) simp
      with new Cons.prems(2) show False by blast
    qed
    have old: "next_uuid w @ ext \<notin> drawn_names w1 (draws w1) (draws w1 + length reqs)"
    proof
      assume "next_uuid w @ ext \<in> drawn_names w1 (draws w1) (draws w1 + length reqs)"
      then obtain j e where j: "draws w1 \<le> j" "j < draws w1 + length reqs"
        and eq: "next_uuid w @ ext = uuid_str (uuid4_int (urandom w1 j)) @ e"
        by (rule drawn_nameE)
      from eq u1 have "uuid_str (uuid4_int (urandom w (draws w))) @ ext
                         = uuid_str (uuid4_int (urandom w j)) @ e"
        by (simp add: next_uuid_def)
      then have "uuid4_int (urandom w (draws w)) = uuid4_int (urandom w j)"
        by (rule drawn_name_inj)
      moreover have "draws w \<in> {draws w..<draws w + length (req # reqs)}"
        "j \<in> {draws w..<draws w + length (req # reqs)}" using j d by auto
      ultimately have "draws w = j" using Cons.prems(1) by (simp add: inj_on_def)
      with j d show False by simp
    qed
    have "snd ` dom (objects w1) = insert (next_uuid w @ ext) (snd ` dom (objects w))"
      by (simp add: ob)
    then have "snd ` dom (objects w1) \<inter> drawn_names w1 (draws w1) (draws w1 + length reqs)
                 = snd ` dom (objects w) \<inter> drawn_names w1 (draws w1) (draws w1 + length reqs)"
      using old by simp
    also have "\<dots> \<subseteq> snd ` dom (objects w) \<inter> drawn_names w (draws w) (draws w + length (req # reqs))"
      by (rule Int_mono [OF subset_refl dn])
    finally have "snd ` dom (objects w1) \<inter> drawn_names w1 (draws w1) (draws w1 + length reqs) = {}"
      using Cons.prems(2) by (simp only: subset_empty)
    moreover have "finite (dom (objects w1))" using Cons.prems(3) ob by simp
    moreover have "card (dom (objects w1)) = Suc (card (dom (objects w)))"
      using Cons.prems(3) ob key by simp
    ultimately show ?thesis using Cons.IH [OF inj1 _ _ s] ur
      by (simp add: rs success_urls_def)
  qed
qed

theorem serve_one_object_per_success_witness:
  "card (dom (objects (snd (serve (Some ''bkt'')
      [json_req [(''operation'', PStr ''extract_audio''), (''videoUrl'', PStr ''a.mp4'')],
       json_req [(''operation'', PStr ''extract_audio''), (''videoUrl'', PStr ''b.mp4'')]]
      ((demo_world (FfDone [7]) GcsOk)\<lparr>urandom := of_nat\<rparr>)))))
   = card (dom (objects ((demo_world (FfDone [7]) GcsOk)\<lparr>urandom := of_nat\<rparr>))) + length (success_urls (fst (serve (Some ''bkt'')
      [json_req [(''operation'', PStr ''extract_audio''), (''videoUrl'', PStr ''a.mp4'')],
       json_req [(''operation'', PStr ''extract_audio''), (''videoUrl'', PStr ''b.mp4'')]]
      ((demo_world (FfDone [7]) GcsOk)\<lparr>urandom := of_nat\<rparr>))))"
proof (rule serve_one_object_per_success [where bn = "Some ''bkt''" and w' = "snd (serve (Some ''bkt'')
      [json_req [(''operation'', PStr ''extract_audio''), (''videoUrl'', PStr ''a.mp4'')],
       json_req [(''operation'', PStr ''extract_audio''), (''videoUrl'', PStr ''b.mp4'')]]
      ((demo_world (FfDone [7]) GcsOk)\<lparr>urandom := of_nat\<rparr>))"])
  have "uuid4_int 0 \<noteq> uuid4_int 1" by (simp add: uuid4_int_def)
  then show "inj_on (\<lambda>i. uuid4_int (urandom ((demo_world (FfDone [7]) GcsOk)\<lparr>urandom := of_nat\<rparr>) i))
      {draws ((demo_world (FfDone [7]) GcsOk)\<lparr>urandom := of_nat\<rparr>)..<draws ((demo_world (FfDone [7]) GcsOk)\<lparr>urandom := of_nat\<rparr>) + length
         [json_req [(''operation'', PStr ''extract_audio''), (''videoUrl'', PStr ''a.mp4'')],
       json_req [(''operation'', PStr ''extract_audio''), (''videoUrl'', PStr ''b.mp4'')]]}"
    by (simp add: demo_world_def atLeast0_lessThan_Suc)
qed (simp_all add: demo_world_def)

end
