(* ===== verification/Interleaving.thy ===== *)
theory Interleaving
  imports Handler
begin

text \<open>
  Two requests handled at the same time. Flask's development server and the usual WSGI
  servers run \<^verbatim>\<open>process_video\<close> in several threads at once; the threads share the
  local file system, the bucket and the random source, and each one's protected block
  (\<^verbatim>\<open>src/app.py\<close>, lines 36-49 and 64-91) is a sequence of external calls: draw the
  uuid, run ffmpeg, upload, remove the file. A \<open>job\<close> is one thread at that level: the
  operation's answer key, file extension and graph, and a program counter that records the
  local variable \<^verbatim>\<open>local_path\<close> once drawn. \<open>job_step\<close> performs the thread's next external
  call atomically on the shared world; \<open>conc\<close> is every interleaving of the steps of two
  jobs. The bytes the thread's ffmpeg run produced are kept in the program counter as
  ghost data for the statements; no step reads them.
\<close>

datatype job_pc =
    JDraw
  | JRun string
  | JUpload string bytes
  | JRemove string bytes
  | JDone response "string option" "bytes option"

record job =
  job_key :: string
  job_suffix :: string
  job_graph :: "string \<Rightarrow> out_node"
  job_pc :: job_pc

definition job_init :: "string \<Rightarrow> string \<Rightarrow> (string \<Rightarrow> out_node) \<Rightarrow> job" where
  "job_init k ext g = \<lparr>job_key = k, job_suffix = ext, job_graph = g, job_pc = JDraw\<rparr>"

text \<open>The \<^verbatim>\<open>except\<close> branch: the answer \<open>ffmpeg_error_response\<close> gives.\<close>

definition job_fail :: "job \<Rightarrow> string option \<Rightarrow> py_exc \<Rightarrow> world \<Rightarrow> job \<times> world" where
  "job_fail j p e w =
     (case ffmpeg_error_response e w of
        (Inr r, w') \<Rightarrow> (j\<lparr>job_pc := JDone r p None\<rparr>, w')
      | (Inl e', w') \<Rightarrow> (j\<lparr>job_pc := JDone (Crash e') p None\<rparr>, w'))"

definition job_step :: "string option \<Rightarrow> job \<Rightarrow> world \<Rightarrow> job \<times> world" where
  "job_step bn j w =
     (case job_pc j of
        JDraw \<Rightarrow>
          (case uuid4 w of
             (Inr u, w') \<Rightarrow> (j\<lparr>job_pc := JRun (tmp_path u (job_suffix j))\<rparr>, w')
           | (Inl e, w') \<Rightarrow> (j\<lparr>job_pc := JDone (Crash e) None None\<rparr>, w'))
      | JRun p \<Rightarrow>
          (case ffmpeg_run (job_graph j p) w of
             (Inr _, w') \<Rightarrow> (j\<lparr>job_pc := JUpload p (the (fs w' p))\<rparr>, w')
           | (Inl e, w') \<Rightarrow> job_fail j (Some p) e w')
      | JUpload p b \<Rightarrow>
          (case upload_from_filename bn (basename p) p w of
             (Inr _, w') \<Rightarrow> (j\<lparr>job_pc := JRemove p b\<rparr>, w')
           | (Inl e, w') \<Rightarrow> job_fail j (Some p) e w')
      | JRemove p b \<Rightarrow>
          (case os_remove p w of
             (Inr _, w') \<Rightarrow>
               (j\<lparr>job_pc := JDone (Json 200 (PDict [(job_key j, PStr (public_url bn (basename p)))]))
                                   (Some p) (Some b)\<rparr>, w')
           | (Inl e, w') \<Rightarrow> job_fail j (Some p) e w')
      | JDone r p b \<Rightarrow> (j, w))"

fun job_done :: "job_pc \<Rightarrow> bool" where
  "job_done (JDone _ _ _) = True"
| "job_done _ = False"

text \<open>Every interleaving of two jobs, with the number of steps taken: a step is the next
  external call of a job that has not answered yet.\<close>

inductive conc :: "string option \<Rightarrow> job \<times> job \<times> world \<Rightarrow> nat \<Rightarrow> job \<times> job \<times> world \<Rightarrow> bool"
  for bn s0 where
  start: "conc bn s0 0 s0"
| left: "conc bn s0 n (j1, j2, w) \<Longrightarrow> \<not> job_done (job_pc j1) \<Longrightarrow> job_step bn j1 w = (j1', w')
           \<Longrightarrow> conc bn s0 (Suc n) (j1', j2, w')"
| right: "conc bn s0 n (j1, j2, w) \<Longrightarrow> \<not> job_done (job_pc j2) \<Longrightarrow> job_step bn j2 w = (j2', w')
           \<Longrightarrow> conc bn s0 (Suc n) (j1, j2', w')"

fun path_of :: "job_pc \<Rightarrow> string option" where
  "path_of JDraw = None"
| "path_of (JRun p) = Some p"
| "path_of (JUpload p _) = Some p"
| "path_of (JRemove p _) = Some p"
| "path_of (JDone _ p _) = p"

text \<open>A job's graph writes its output to the path it is given, as both operations' graphs
  do (\<open>extract_audio_graph_path\<close>, \<open>split_screen_graph_path\<close>).\<close>

definition graph_ok :: "job \<Rightarrow> bool" where
  "graph_ok j \<longleftrightarrow> (\<forall>p. out_path (job_graph j p) = p)"

text \<open>The two threads' names do not collide.\<close>

definition apart :: "job \<Rightarrow> job \<Rightarrow> bool" where
  "apart j1 j2 \<longleftrightarrow>
     (case (path_of (job_pc j1), path_of (job_pc j2)) of
        (Some p, Some q) \<Rightarrow> basename p \<noteq> basename q
      | _ \<Rightarrow> True)"

text \<open>What a thread's own steps have established in the world: its ffmpeg run is in the
  call log with the bytes it produced, the file holds them until it is removed, and the
  object holds them from the upload on.\<close>

definition ran :: "world \<Rightarrow> job \<Rightarrow> string \<Rightarrow> bytes \<Rightarrow> bool" where
  "ran w j p b \<longleftrightarrow>
     (\<exists>i < length (calls w). calls w ! i = CallFfmpeg (job_graph j p)
        \<and> ffmpeg_env w i (job_graph j p) = FfDone b)"

definition owns :: "string option \<Rightarrow> world \<Rightarrow> job \<Rightarrow> bool" where
  "owns bn w j \<longleftrightarrow>
     (case job_pc j of
        JUpload p b \<Rightarrow> fs w p = Some b \<and> ran w j p b
      | JRemove p b \<Rightarrow> fs w p = Some b \<and> objects w (the bn, basename p) = Some b \<and> ran w j p b
      | JDone r (Some p) (Some b) \<Rightarrow>
          r = Json 200 (PDict [(job_key j, PStr (public_url bn (basename p)))])
          \<and> objects w (the bn, basename p) = Some b \<and> ran w j p b
      | _ \<Rightarrow> True)"

text \<open>A schedule: the order in which the two threads make their calls (\<open>True\<close> the
  first, \<open>False\<close> the second); a thread that has answered makes no more.\<close>

fun run_sched :: "string option \<Rightarrow> bool list \<Rightarrow> job \<times> job \<times> world \<Rightarrow> job \<times> job \<times> world" where
  "run_sched bn [] s = s"
| "run_sched bn (c # cs) (j1, j2, w) =
     (if c then
        (if job_done (job_pc j1) then run_sched bn cs (j1, j2, w)
         else case job_step bn j1 w of (j1', w') \<Rightarrow> run_sched bn cs (j1', j2, w'))
      else
        (if job_done (job_pc j2) then run_sched bn cs (j1, j2, w)
         else case job_step bn j2 w of (j2', w') \<Rightarrow> run_sched bn cs (j1, j2', w')))"

text \<open>Fixtures for concrete runs: an audio job, and a world whose n-th ffmpeg call
  produces the single byte n, so that the outputs of two runs differ.\<close>

definition audio_job :: "string \<Rightarrow> job" where
  "audio_job url = job_init ''audioUrl'' ''.mp3'' (extract_audio_graph (PStr url))"

definition two_jobs_world :: "(nat \<Rightarrow> uuid_bits) \<Rightarrow> world" where
  "two_jobs_world r = (demo_world (FfDone []) GcsOk)\<lparr>urandom := r, ffmpeg_env := (\<lambda>n _. FfDone [of_nat n])\<rparr>"

subsection \<open>Lemmas\<close>

lemmas job_step_defs = job_step_def job_fail_def ffmpeg_run_def upload_from_filename_def
  os_remove_def ffmpeg_error_response_def Let_def

lemma job_step_fields [simp]:
  "job_key (fst (job_step bn j w)) = job_key j"
  "job_suffix (fst (job_step bn j w)) = job_suffix j"
  "job_graph (fst (job_step bn j w)) = job_graph j"
  by (cases "job_pc j";
      simp add: job_step_defs split: ff_outcome.splits option.splits gcs_outcome.splits)+

lemma job_step_path:
  "path_of (job_pc j) = Some p \<Longrightarrow> path_of (job_pc (fst (job_step bn j w))) = Some p"
  by (cases "job_pc j";
      simp add: job_step_defs split: ff_outcome.splits option.splits gcs_outcome.splits)

text \<open>A step touches the local file system only at the thread's own path and the bucket
  only at its own object, and only appends to the call log.\<close>

lemma job_step_fs:
  "graph_ok j \<Longrightarrow> path_of (job_pc (fst (job_step bn j w))) \<noteq> Some q \<Longrightarrow>
   fs (snd (job_step bn j w)) q = fs w q"
  by (cases "job_pc j";
      auto simp: job_step_defs graph_ok_def split: ff_outcome.splits option.splits gcs_outcome.splits
        if_splits)

lemma job_step_objects:
  "(\<And>p. path_of (job_pc (fst (job_step bn j w))) = Some p \<Longrightarrow> key \<noteq> (the bn, basename p)) \<Longrightarrow>
   objects (snd (job_step bn j w)) key = objects w key"
  by (cases "job_pc j";
      auto simp: job_step_defs split: ff_outcome.splits option.splits gcs_outcome.splits)

lemma job_step_env [simp]:
  "ffmpeg_env (snd (job_step bn j w)) = ffmpeg_env w"
  "gcs_env (snd (job_step bn j w)) = gcs_env w"
  "urandom (snd (job_step bn j w)) = urandom w"
  by (cases "job_pc j";
      simp add: job_step_defs split: ff_outcome.splits option.splits gcs_outcome.splits)+

lemma job_step_calls: "\<exists>cs. calls (snd (job_step bn j w)) = calls w @ cs"
  by (cases "job_pc j";
      auto simp: job_step_defs split: ff_outcome.splits option.splits gcs_outcome.splits)

lemma ran_mono:
  "ran w j p b \<Longrightarrow> calls w' = calls w @ cs \<Longrightarrow> ffmpeg_env w' = ffmpeg_env w \<Longrightarrow> ran w' j p b"
  by (auto simp: ran_def nth_append)

lemma owns_frame:
  assumes "owns bn w j"
    and "\<And>p. path_of (job_pc j) = Some p \<Longrightarrow>
           fs w' p = fs w p \<and> objects w' (the bn, basename p) = objects w (the bn, basename p)"
    and "calls w' = calls w @ cs" and "ffmpeg_env w' = ffmpeg_env w"
  shows "owns bn w' j"
proof -
  have r: "\<And>p b. ran w j p b \<Longrightarrow> ran w' j p b" using assms(3,4) ran_mono by blast
  show ?thesis
    using assms(1) assms(2) [of "the (path_of (job_pc j))"] r
    by (cases "job_pc j") (auto simp: owns_def split: option.splits)
qed

text \<open>A thread's own step keeps what it has established.\<close>

lemma owns_self:
  assumes "graph_ok j" and "owns bn w j"
  shows "owns bn (snd (job_step bn j w)) (fst (job_step bn j w))"
  using assms
  by (cases "job_pc j";
      auto simp: owns_def ran_def job_step_defs graph_ok_def nth_append
           split: ff_outcome.splits option.splits gcs_outcome.splits if_splits)

text \<open>The other thread's step keeps it too, as long as the names do not collide.\<close>

lemma owns_other:
  assumes "owns bn w j2" and "graph_ok j1" and "apart (fst (job_step bn j1 w)) j2"
  shows "owns bn (snd (job_step bn j1 w)) j2"
proof -
  obtain cs where c: "calls (snd (job_step bn j1 w)) = calls w @ cs" using job_step_calls by blast
  show ?thesis
  proof (rule owns_frame [OF assms(1) _ c job_step_env(1)])
    fix p assume p: "path_of (job_pc j2) = Some p"
    have "path_of (job_pc (fst (job_step bn j1 w))) \<noteq> Some p"
      and k: "\<And>q. path_of (job_pc (fst (job_step bn j1 w))) = Some q \<Longrightarrow>
                (the bn, basename p) \<noteq> (the bn, basename q)"
      using assms(3) p by (auto simp: apart_def split: option.splits)
    with assms(2) show "fs (snd (job_step bn j1 w)) p = fs w p \<and>
        objects (snd (job_step bn j1 w)) (the bn, basename p) = objects w (the bn, basename p)"
      by (simp add: job_step_fs job_step_objects)
  qed
qed

lemma apart_step_left: "apart (fst (job_step bn j1 w)) j2 \<Longrightarrow> apart j1 j2"
  by (cases "path_of (job_pc j1)") (auto simp: apart_def dest: job_step_path [where bn = bn and w = w])

lemma apart_sym: "apart j1 j2 \<longleftrightarrow> apart j2 j1"
  by (auto simp: apart_def split: option.splits)

lemma apart_step_right: "apart j1 (fst (job_step bn j2 w)) \<Longrightarrow> apart j1 j2"
  using apart_step_left apart_sym by metis

lemma graph_ok_step [simp]: "graph_ok (fst (job_step bn j w)) \<longleftrightarrow> graph_ok j"
  by (simp add: graph_ok_def)

text \<open>The invariant of an interleaving: the jobs keep their graphs and keys, the tool
  oracle is unchanged, and as long as the names do not collide each thread's facts hold.\<close>

lemma conc_owns:
  assumes "conc bn (a, b, w0) n s" and "graph_ok a" "graph_ok b" "owns bn w0 a" "owns bn w0 b"
  shows "case s of (j1, j2, w) \<Rightarrow>
           job_graph j1 = job_graph a \<and> job_graph j2 = job_graph b
           \<and> job_key j1 = job_key a \<and> job_key j2 = job_key b \<and> ffmpeg_env w = ffmpeg_env w0
           \<and> (apart j1 j2 \<longrightarrow> owns bn w j1 \<and> owns bn w j2)"
  using assms(1)
proof (induction rule: conc.induct)
  case start
  with assms(4,5) show ?case by simp
next
  case (left n j1 j2 w j1' w')
  from left.hyps(3) have j1': "j1' = fst (job_step bn j1 w)" and w': "w' = snd (job_step bn j1 w)"
    by (metis fst_conv, metis snd_conv)
  from left.IH have g: "graph_ok j1" "graph_ok j2" using assms(2,3) by (simp_all add: graph_ok_def)
  have "owns bn w' j1' \<and> owns bn w' j2" if ap: "apart j1' j2"
  proof -
    from ap j1' have "apart j1 j2" by (simp add: apart_step_left)
    with left.IH have o: "owns bn w j1" "owns bn w j2" by simp_all
    show ?thesis
      using owns_self [OF g(1) o(1)] owns_other [OF o(2) g(1)] ap j1' w' by simp
  qed
  with left.IH j1' w' show ?case by simp
next
  case (right n j1 j2 w j2' w')
  from right.hyps(3) have j2': "j2' = fst (job_step bn j2 w)" and w': "w' = snd (job_step bn j2 w)"
    by (metis fst_conv, metis snd_conv)
  from right.IH have g: "graph_ok j1" "graph_ok j2" using assms(2,3) by (simp_all add: graph_ok_def)
  have "owns bn w' j1 \<and> owns bn w' j2'" if ap: "apart j1 j2'"
  proof -
    from ap j2' have "apart j1 j2" by (simp add: apart_step_right)
    with right.IH have o: "owns bn w j1" "owns bn w j2" by simp_all
    from ap j2' have "apart (fst (job_step bn j2 w)) j1" by (simp add: apart_sym)
    then show ?thesis
      using owns_self [OF g(2) o(2)] owns_other [OF o(1) g(2)] j2' w' by simp
  qed
  with right.IH j2' w' show ?case by (simp add: case_prod_unfold)
qed

lemma owns_init [simp]: "owns bn w (job_init k e g)"
  by (simp add: owns_def job_init_def)

lemma run_sched_conc:
  "conc bn s0 n s \<Longrightarrow> \<exists>m. conc bn s0 m (run_sched bn cs s)"
proof (induction cs arbitrary: n s)
  case (Cons c cs)
  obtain j1 j2 w where s: "s = (j1, j2, w)" by (cases s) auto
  show ?case
  proof (cases c)
    case True
    show ?thesis
    proof (cases "job_done (job_pc j1)")
      case False
      obtain j1' w' where st: "job_step bn j1 w = (j1', w')" by fastforce
      from conc.left [OF Cons.prems [unfolded s] False st] Cons.IH True False s st show ?thesis
        by auto
    qed (use Cons True s in auto)
  next
    case False
    show ?thesis
    proof (cases "job_done (job_pc j2)")
      case nd: False
      obtain j2' w' where st: "job_step bn j2 w = (j2', w')" by fastforce
      from conc.right [OF Cons.prems [unfolded s] nd st] Cons.IH False nd s st show ?thesis
        by auto
    qed (use Cons False s in auto)
  qed
qed auto

subsection \<open>Properties of concurrent requests\<close>

text \<open>C28. Non-interference of concurrent requests whose names do not collide: whatever
  the interleaving, a request that answers 200 points its client at an object that holds
  exactly the bytes its own ffmpeg run produced; the other thread's run, upload and
  removal touch neither its temporary file nor its object.\<close>

theorem interleaving_noninterference:
  assumes "conc bn (job_init k1 e1 g1, job_init k2 e2 g2, w0) n (j1, j2, w)"
    and "\<forall>p. out_path (g1 p) = p" and "\<forall>p. out_path (g2 p) = p"
    and "apart j1 j2"
    and "job_pc j1 = JDone r (Some p) (Some b)"
  shows "r = Json 200 (PDict [(k1, PStr (public_url bn (basename p)))])
         \<and> objects w (the bn, basename p) = Some b
         \<and> (\<exists>i < length (calls w). calls w ! i = CallFfmpeg (g1 p) \<and> ffmpeg_env w0 i (g1 p) = FfDone b)"
proof -
  have "graph_ok (job_init k1 e1 g1)" "graph_ok (job_init k2 e2 g2)"
    using assms(2,3) by (simp_all add: graph_ok_def job_init_def)
  from conc_owns [OF assms(1) this owns_init owns_init] assms(4)
  have "owns bn w j1" and g: "job_graph j1 = g1" and k: "job_key j1 = k1"
    and e: "ffmpeg_env w = ffmpeg_env w0"
    by (simp_all add: job_init_def)
  with assms(5) show ?thesis by (simp add: owns_def ran_def)
qed

theorem interleaving_noninterference_witness:
  "Json 200 (PDict [(''audioUrl'', PStr (public_url (Some ''bkt'') (basename (tmp_path (next_uuid (two_jobs_world of_nat)) ''.mp3''))))])
     = Json 200 (PDict [(''audioUrl'', PStr (public_url (Some ''bkt'') (basename (tmp_path (next_uuid (two_jobs_world of_nat)) ''.mp3''))))])
   \<and> objects (snd (snd (run_sched (Some ''bkt'') [True, True, True, True, False, False, False, False] (audio_job ''a'', audio_job ''b'', two_jobs_world of_nat)))) (the (Some ''bkt''), basename (tmp_path (next_uuid (two_jobs_world of_nat)) ''.mp3'')) = Some [0]
   \<and> (\<exists>i < length (calls (snd (snd (run_sched (Some ''bkt'') [True, True, True, True, False, False, False, False] (audio_job ''a'', audio_job ''b'', two_jobs_world of_nat))))).
         calls (snd (snd (run_sched (Some ''bkt'') [True, True, True, True, False, False, False, False] (audio_job ''a'', audio_job ''b'', two_jobs_world of_nat)))) ! i = CallFfmpeg (extract_audio_graph (PStr ''a'') (tmp_path (next_uuid (two_jobs_world of_nat)) ''.mp3''))
         \<and> ffmpeg_env (two_jobs_world of_nat) i (extract_audio_graph (PStr ''a'') (tmp_path (next_uuid (two_jobs_world of_nat)) ''.mp3'')) = FfDone [0])"
proof -
  let ?init = "(audio_job ''a'', audio_job ''b'', two_jobs_world of_nat)"
  let ?s = "run_sched (Some ''bkt'') [True, True, True, True, False, False, False, False] (audio_job ''a'', audio_job ''b'', two_jobs_world of_nat)"
  obtain m where c: "conc (Some ''bkt'') ?init m ?s" using run_sched_conc [OF conc.start] by blast
  have u: "uuid_str (uuid4_int 0) \<noteq> uuid_str (uuid4_int 1)"
  proof
    assume "uuid_str (uuid4_int 0) = uuid_str (uuid4_int 1)"
    then have "uuid4_int 0 = uuid4_int 1" by (rule uuid_str_eqD)
    then show False by (simp add: uuid4_int_def)
  qed
  have pc1: "job_pc (fst ?s) = JDone (Json 200 (PDict [(''audioUrl'', PStr (public_url (Some ''bkt'') (basename (tmp_path (next_uuid (two_jobs_world of_nat)) ''.mp3''))))]))
               (Some (tmp_path (next_uuid (two_jobs_world of_nat)) ''.mp3'')) (Some [0])"
    by (simp add: audio_job_def job_init_def two_jobs_world_def demo_world_def job_step_defs)
  have ap: "apart (fst ?s) (fst (snd ?s))"
    using u by (simp add: apart_def audio_job_def job_init_def two_jobs_world_def demo_world_def
        job_step_defs next_uuid_def basename_tmp_path uuid_str_no_slash)
  from c have c': "conc (Some ''bkt'') (job_init ''audioUrl'' ''.mp3'' (extract_audio_graph (PStr ''a'')),
      job_init ''audioUrl'' ''.mp3'' (extract_audio_graph (PStr ''b'')), two_jobs_world of_nat) m
      (fst ?s, fst (snd ?s), snd (snd ?s))"
    by (simp only: audio_job_def prod.collapse)
  have ga: "\<forall>p. out_path (extract_audio_graph (PStr ''a'') p) = p"
    and gb: "\<forall>p. out_path (extract_audio_graph (PStr ''b'') p) = p" by simp_all
  show ?thesis by (rule interleaving_noninterference [OF c' ga gb ap pc1])
qed

text \<open>C29. Without distinct draws the ownership fails, and the code shows it. Whenever the
  second request draws the same uuid as the first, both threads write the same temporary
  path, and in the interleaving where A draws, B draws, A runs, B runs (overwriting the
  file), A uploads and removes the file and B uploads, job A answers 200 with a URL whose
  object holds B's output \<open>b2\<close>, not the output \<open>b1\<close> of A's own run, and job B answers 500
  with the missing-file error, because A removed the file B wanted to upload.\<close>

theorem name_collision_race:
  fixes w :: world and ext :: string
  defines "p \<equiv> tmp_path (next_uuid w) ext"
  assumes collide: "next_uuid (w\<lparr>draws := Suc (draws w)\<rparr>) = next_uuid w"
    and "out_path (g1 p) = p" and "out_path (g2 p) = p"
    and "ffmpeg_env w (length (calls w)) (g1 p) = FfDone b1"
    and "ffmpeg_env w (Suc (length (calls w))) (g2 p) = FfDone b2"
    and "gcs_env w (Suc (Suc (length (calls w)))) bk (basename p) b2 = GcsOk"
  shows "case run_sched (Some bk) [True, False, True, False, True, True, False, False]
              (job_init k1 ext g1, job_init k2 ext g2, w) of
           (j1, j2, w') \<Rightarrow>
             (\<exists>n. conc (Some bk) (job_init k1 ext g1, job_init k2 ext g2, w) n (j1, j2, w'))
           \<and> job_pc j1 = JDone (Json 200 (PDict [(k1, PStr (public_url (Some bk) (basename p)))])) (Some p) (Some b1)
           \<and> objects w' (bk, basename p) = Some b2
           \<and> job_pc j2 = JDone (Json 500 (err_json (''FFmpeg error: '' @ exc_str (no_such_file p)))) (Some p) None"
proof -
  let ?s0 = "(job_init k1 ext g1, job_init k2 ext g2, w)"
  obtain j1 j2 w' where s: "run_sched (Some bk) [True, False, True, False, True, True, False, False] ?s0 = (j1, j2, w')"
    by (cases "run_sched (Some bk) [True, False, True, False, True, True, False, False] ?s0") auto
  have "\<exists>n. conc (Some bk) ?s0 n (j1, j2, w')"
    using run_sched_conc [OF conc.start, of "Some bk" ?s0 "[True, False, True, False, True, True, False, False]"]
    by (simp only: s)
  moreover have "job_pc j1 = JDone (Json 200 (PDict [(k1, PStr (public_url (Some bk) (basename p)))])) (Some p) (Some b1)
           \<and> objects w' (bk, basename p) = Some b2
           \<and> job_pc j2 = JDone (Json 500 (err_json (''FFmpeg error: '' @ exc_str (no_such_file p)))) (Some p) None"
    using s assms(2-) by (simp add: p_def job_init_def job_step_defs log_call_def) auto
  ultimately show ?thesis using s by simp
qed

theorem name_collision_race_witness:
  "case run_sched (Some ''bkt'') [True, False, True, False, True, True, False, False]
         (job_init ''audioUrl'' ''.mp3'' (extract_audio_graph (PStr ''a'')),
          job_init ''audioUrl'' ''.mp3'' (extract_audio_graph (PStr ''b'')), two_jobs_world (\<lambda>_. 0)) of
     (j1, j2, w') \<Rightarrow>
       (\<exists>n. conc (Some ''bkt'') (job_init ''audioUrl'' ''.mp3'' (extract_audio_graph (PStr ''a'')),
          job_init ''audioUrl'' ''.mp3'' (extract_audio_graph (PStr ''b'')), two_jobs_world (\<lambda>_. 0)) n (j1, j2, w'))
     \<and> job_pc j1 = JDone (Json 200 (PDict [(''audioUrl'', PStr (public_url (Some ''bkt'') (basename (tmp_path (next_uuid (two_jobs_world (\<lambda>_. 0))) ''.mp3''))))])) (Some (tmp_path (next_uuid (two_jobs_world (\<lambda>_. 0))) ''.mp3'')) (Some [0])
     \<and> objects w' (''bkt'', basename (tmp_path (next_uuid (two_jobs_world (\<lambda>_. 0))) ''.mp3'')) = Some [1]
     \<and> job_pc j2 = JDone (Json 500 (err_json (''FFmpeg error: '' @ exc_str (no_such_file (tmp_path (next_uuid (two_jobs_world (\<lambda>_. 0))) ''.mp3''))))) (Some (tmp_path (next_uuid (two_jobs_world (\<lambda>_. 0))) ''.mp3'')) None"
  by (rule name_collision_race)
     (simp_all add: two_jobs_world_def demo_world_def next_uuid_def)

end
