(* ===== verification/Spec2Isabelle.thy ===== *)
theory Spec2Isabelle
  imports Server Interleaving
begin

text \<open>
  Verification development of the media-processing web service of this repository. The
  program is one file, \<^verbatim>\<open>src/app.py\<close>: a Flask route \<^verbatim>\<open>POST /process\<close>
  (\<^verbatim>\<open>process_video\<close>, lines 25-94) that reads a JSON job, validates it, builds an
  ffmpeg-python pipeline, runs it into a temporary file named after \<^verbatim>\<open>uuid.uuid4()\<close>,
  uploads the file to Google Cloud Storage with the helper \<^verbatim>\<open>upload_to_gcs\<close>
  (lines 16-23) and answers with the object's public URL; and the module state of lines
  7-14 (the Flask app, the storage client, the bucket name from \<^verbatim>\<open>GCS_BUCKET_NAME\<close>).
  The model is a shallow embedding: every function of the file is a HOL function of the
  same name, its effects are explicit state passing on a record of the world, and every
  exception is a value.

  \<^bold>\<open>Theories and what they model.\<close>
  \<^item> \<open>Prelude\<close>: the exception-state monad the effects are written in (\<open>ok\<close>,
    \<open>raise\<close>, \<open>bindE\<close>, \<open>try_except\<close> for Python's \<^verbatim>\<open>try\<close>/\<^verbatim>\<open>except Exception\<close>),
    and generic list and map lemmas.
  \<^item> \<open>PyValue\<close>: the Python values a JSON body can hold (\<open>pyval\<close>), Python's truth test
    (\<open>py_truthy\<close>, \<open>py_all\<close> for line 60), \<^verbatim>\<open>dict.get\<close> (\<open>dict_get\<close>, which raises
    \<^verbatim>\<open>AttributeError\<close> on a non-dict), string equality, \<^verbatim>\<open>float()\<close> (\<open>py_float\<close>, with
    the decimal grammar of CPython, underscores, \<^verbatim>\<open>inf\<close>/\<^verbatim>\<open>nan\<close> and the overflow
    bound) and float subtraction with IEEE infinities, NaN and overflow (\<open>fsub\<close>, line 63).
  \<^item> \<open>Paths\<close>: \<^verbatim>\<open>os.path.basename\<close> (\<open>basename\<close>, via \<^verbatim>\<open>str.rfind\<close>) and the
    f-string paths \<^verbatim>\<open>/tmp/<uuid>.mp3\<close>, \<^verbatim>\<open>/tmp/<uuid>.mp4\<close> (\<open>tmp_path\<close>).
  \<^item> \<open>Uuid\<close>: \<^verbatim>\<open>uuid4()\<close> as 128 random bits with the version and variant masks
    (\<open>uuid4_int\<close>, a \<open>128 word\<close>) and its 8-4-4-4-12 hex string (\<open>uuid_str\<close>).
  \<^item> \<open>Pipeline\<close>: the ffmpeg-python node graphs the two operations build
    (\<open>extract_audio_graph\<close>, lines 39-45; \<open>split_screen_graph\<close>, lines 67-85).
  \<^item> \<open>World\<close>: the world the handler acts on (\<open>world\<close>): the local file system, the
    buckets' objects, the log of external calls, the random source of \<^verbatim>\<open>os.urandom\<close> with
    the number of draws so far, and two oracles, what ffmpeg and the storage service answer
    to the n-th call. \<open>ffmpeg_run\<close> is \<^verbatim>\<open>.run()\<close>, \<open>os_remove\<close> is \<^verbatim>\<open>os.remove\<close>,
    \<open>uuid4\<close> draws one uuid.
  \<^item> \<open>Storage\<close>: \<^verbatim>\<open>upload_to_gcs\<close> and the client calls it makes
    (\<open>upload_from_filename\<close>, \<open>public_url\<close> with \<^verbatim>\<open>quote(name, safe='/~')\<close>).
  \<^item> \<open>Handler\<close>: \<^verbatim>\<open>request.get_json()\<close> (\<open>get_json\<close>, the 415/400 aborts), the two
    operations (\<open>extract_audio\<close>, \<open>create_split_screen_clip\<close>), their shared protected
    block (\<open>run_and_upload\<close>, the \<^verbatim>\<open>try\<close> with its 500 answer), the dispatch on
    \<^verbatim>\<open>operation\<close> (\<open>dispatch\<close>) and the route (\<open>process_video\<close>), where an exception
    that escapes becomes the framework's 500 page (\<open>Crash\<close>).
  \<^item> \<open>Server\<close>: the service over a sequence of requests, handled one after another on a
    shared world (\<open>serve\<close>), and the worlds any sequence reaches (\<open>reachable\<close>, an
    inductive predicate).
  \<^item> \<open>Interleaving\<close>: two requests handled at the same time by two threads. A thread of the
    protected block is a \<open>job\<close> whose program counter (\<open>job_pc\<close>) names its next external
    call: draw the uuid, run ffmpeg, upload, remove the file (\<open>job_step\<close>, lines 36-49 and
    64-91, one call per step, the \<^verbatim>\<open>except\<close> answer as \<open>job_fail\<close>); \<open>conc\<close> is every
    interleaving of two threads' steps on the shared world, \<open>run_sched\<close> one interleaving
    given as an explicit order.

  \<^bold>\<open>What is proved.\<close> Claims C1-C12 (theory \<open>Handler\<close>) are the handler's contract: the
  success answers of both operations with the exact calls, stored object and removed file;
  that every rejected request (abort, 400, escaping exception) has no effect; each 400
  message; the 500 answers on a pipeline or upload failure, which leave the temporary file
  behind; the frame of a request; and that a 200 answer names the object it stored. C17 is
  the shape of every JSON body (\<^verbatim>\<open>audioUrl\<close> with a \<^verbatim>\<open>.mp3\<close> object,
  \<^verbatim>\<open>clipUrl\<close> with a \<^verbatim>\<open>.mp4\<close> object, \<^verbatim>\<open>error\<close> otherwise); C27 that without a
  configured bucket no request ever succeeds or stores anything; C30-C31 the error paths of
  malformed bodies: a JSON body that is not an object, or a \<^verbatim>\<open>params\<close> value that is not
  one, raises \<^verbatim>\<open>AttributeError\<close> out of the view (a 500 page, not the spec's 400).
  C13-C16 (\<open>Server\<close>) are proved by rule induction over \<open>reachable\<close> and induction over
  request lists: stored objects are never removed and new objects and files carry drawn
  uuid names; leaked files are bounded by the number of pipeline-error answers; with
  distinct draws the URLs answered are distinct and each 200 answer adds exactly one object
  (the spec's one-to-one relation). C18 (\<open>Storage\<close>) is the upload helper's contract, C25
  that the returned URL quotes nothing in a temporary name, and C33 that percent-encoding
  round-trips through \<^verbatim>\<open>unquote_to_bytes\<close> (\<open>url_unquote_bytes\<close>, a reference decoder).
  C19-C21 (\<open>Pipeline\<close>) describe the split-screen graph: its trims and its audio path
  with and without music. C22-C23 and C32 (\<open>Uuid\<close>) show the version and variant digits,
  that the uuid string loses no information, and that a uuid4 is exactly its 122 unmasked
  random bits. C24 (\<open>Paths\<close>) shows \<open>basename\<close> equal to its reference reading. C26 and
  C34 (\<open>PyValue\<close>) are about \<^verbatim>\<open>float()\<close> on times: an integer of magnitude at most
  \<open>2\<^sup>5\<^sup>3\<close> sent as a string reads back exactly, and beyond the overflow bound the JSON
  integer raises \<^verbatim>\<open>OverflowError\<close> while its decimal string reads as an infinity.
  C28-C29 (\<open>Interleaving\<close>): when the two temporary names differ, under every
  interleaving a 200 answer names an object holding exactly the output of the request's own
  ffmpeg run (C28, by rule induction over \<open>conc\<close> with the ownership invariant \<open>owns\<close>);
  and whenever the draws collide, whatever the two runs produce, there is an interleaving in
  which one request answers 200 with the other's output and the other answers 500 (C29).

  \<^bold>\<open>Bounds and fuel.\<close> The program has no loop that may run forever, so no
  definition needs \<open>partial_function\<close> or fuel: every recursive definition is total,
  structural except \<open>nat_str\<close> (the digits of \<^verbatim>\<open>str(i)\<close>, recursion on \<open>n div 10\<close>,
  whose termination \<open>fun\<close> proves by the size of \<open>n\<close>). A thread of \<open>conc\<close> makes at
  most four calls; that the real calls return at all is not modelled (ffmpeg and the upload
  have no timeout, and each call is one atomic step). Words are kept at their widths (128
  bits for the uuid). Floats: a finite float is kept as the exact real it denotes, and
  overflow is modelled at the IEEE bound \<open>2^1024 - 2^970\<close> in \<^verbatim>\<open>float()\<close> and in the
  subtraction of line 63 (\<^verbatim>\<open>OverflowError\<close> for an int, an infinity otherwise); rounding
  of finite values to 53 bits is not modelled, so for an integer above \<open>2\<^sup>5\<^sup>3\<close> the model
  keeps a value Python would round, and C26 is stated only up to \<open>2\<^sup>5\<^sup>3\<close>. The other
  claims do not depend on the precision of finite floats: they carry the duration as the
  value \<open>fsub\<close> computes.

  \<^bold>\<open>Not modelled.\<close> What ffmpeg computes and what the storage service decides are oracles
  of the world, not models (external programs). ffmpeg-python's compilation of the graph
  into a command line is library code the source only calls; the model stops at the graph
  the source writes. Flask routing, headers and the JSON text parser are not modelled
  (a request is its JSON flag and parsed body); credentials and the HTTP protocol of the
  storage client are not modelled. Concurrency is modelled at the granularity of external
  calls, each call atomic (a real ffmpeg run and an upload overlap in time; the model
  orders their effects on the world), for two threads; the validation before the
  protected block reads only the request and is not interleaved. The imports and the
  construction of the Flask application object (lines 1-7) have no behaviour of their own
  to model; the storage client of line 11 is the world's bucket map. \<open>ffmpeg_run\<close> lets
  the tool's oracle answer any graph, also one whose URL is not a string, where
  \<^verbatim>\<open>subprocess\<close> would raise \<^verbatim>\<open>TypeError\<close>: the model over-approximates the
  tool's behaviour there. A failed \<^verbatim>\<open>os.remove\<close> is not entered in the call log.
\<close>

end
